theory Spec2Isabelle
  imports Main
begin

section \<open>Python values and the library functions the handlers call\<close>

text \<open>
  The handlers of \<open>app/controllers/study_room_controller.py\<close> and the method
  \<open>StudyRoom.to_dict\<close> of \<open>app/models/study_room.py\<close> treat every attribute of a
  record and every value of a request payload dynamically: they call \<open>.strip()\<close>,
  \<open>int(...)\<close>, \<open>.strftime(...)\<close>, \<open>.isoformat()\<close> and \<open>str(...)\<close> on whatever is there and
  catch what is raised. The model therefore has one type of Python values.

  Strings are modelled by their code points below 256 (a \<open>char\<close> is one code point).
  Dates and timestamps are modelled to the second; time zones and microseconds, which no
  handler reads, are left out. A JSON number with a fraction is not modelled.
\<close>

datatype date = Date (d_year: nat) (d_month: nat) (d_day: nat)

datatype time = Time (t_hour: nat) (t_minute: nat) (t_second: nat)

datatype datetime = DateTime (dt_date: date) (dt_time: time)

text \<open>
  The objects with a method \<open>strftime\<close> are dates, timestamps and times of day
  (\<open>datetime.date\<close>, \<open>datetime.datetime\<close>, \<open>datetime.time\<close>).
  \<open>POther tp truthy serialisable text\<close> stands for any other object (a list, a dict, a
  bytes object, ...): it has none of the methods \<open>strip\<close>, \<open>strftime\<close>, \<open>isoformat\<close>,
  \<open>int()\<close> rejects it with a TypeError, and it carries what the code can observe of it:
  the name of its type, its truth value, whether \<open>jsonify\<close> accepts it, and the text
  \<open>str()\<close> gives.
\<close>

datatype pyval =
    PNone
  | PBool bool
  | PInt int
  | PStr string
  | PDate date
  | PDateTime datetime
  | PTime time
  | POther string bool bool string

text \<open>
  Exceptions carry their message. The message of a ValueError or TypeError raised by
  \<open>int()\<close> or \<open>strptime\<close> is left empty: every handler that catches one discards it.
\<close>

datatype exn =
    AttributeError string
  | ValueError string
  | TypeError string
  | StorageError string

fun exn_str :: "exn \<Rightarrow> string" where
  "exn_str (AttributeError m) = m"
| "exn_str (ValueError m) = m"
| "exn_str (TypeError m) = m"
| "exn_str (StorageError m) = m"

text \<open>\<open>except (ValueError, TypeError)\<close> and \<open>except (AttributeError, ValueError)\<close>.\<close>

fun is_ValueError :: "exn \<Rightarrow> bool" where
  "is_ValueError (ValueError m) = True"
| "is_ValueError e = False"

fun is_Value_or_TypeError :: "exn \<Rightarrow> bool" where
  "is_Value_or_TypeError (ValueError m) = True"
| "is_Value_or_TypeError (TypeError m) = True"
| "is_Value_or_TypeError e = False"

fun is_Attribute_or_ValueError :: "exn \<Rightarrow> bool" where
  "is_Attribute_or_ValueError (AttributeError m) = True"
| "is_Attribute_or_ValueError (ValueError m) = True"
| "is_Attribute_or_ValueError e = False"

fun is_AttributeError :: "exn \<Rightarrow> bool" where
  "is_AttributeError (AttributeError m) = True"
| "is_AttributeError e = False"

subsection \<open>Characters, digits and decimal text\<close>

definition is_digit :: "char \<Rightarrow> bool" where
  "is_digit c = (48 \<le> (of_char c :: nat) \<and> (of_char c :: nat) \<le> 57)"

definition digit_val :: "char \<Rightarrow> nat" where
  "digit_val c = of_char c - 48"

definition digit_char :: "nat \<Rightarrow> char" where
  "digit_char n = char_of (48 + n)"

text \<open>\<open>str.isspace\<close> on the code points below 256.\<close>

definition py_isspace :: "char \<Rightarrow> bool" where
  "py_isspace c = ((of_char c :: nat) \<in> {9, 10, 11, 12, 13, 28, 29, 30, 31, 32, 133, 160})"

definition strip :: "string \<Rightarrow> string" where
  "strip s = rev (dropWhile py_isspace (rev (dropWhile py_isspace s)))"

fun str_of_nat :: "nat \<Rightarrow> string" where
  "str_of_nat n = (if n < 10 then [digit_char n] else str_of_nat (n div 10) @ [digit_char (n mod 10)])"

declare str_of_nat.simps [simp del]

definition str_of_int :: "int \<Rightarrow> string" where
  "str_of_int i = (if i < 0 then CHR ''-'' # str_of_nat (nat (- i)) else str_of_nat (nat i))"

text \<open>The formats \<open>%02d\<close> and \<open>%04d\<close>: zeros on the left up to the width.\<close>

definition zero_pad :: "nat \<Rightarrow> nat \<Rightarrow> string" where
  "zero_pad w n = replicate (w - length (str_of_nat n)) (CHR ''0'') @ str_of_nat n"

definition quoted :: "string \<Rightarrow> string" where
  "quoted s = [char_of (39 :: nat)] @ s @ [char_of (39 :: nat)]"

subsection \<open>Truth value, type name, \<open>str()\<close>\<close>

fun truthy :: "pyval \<Rightarrow> bool" where
  "truthy PNone = False"
| "truthy (PBool b) = b"
| "truthy (PInt i) = (i \<noteq> 0)"
| "truthy (PStr s) = (s \<noteq> [])"
| "truthy (PDate d) = True"
| "truthy (PDateTime dt) = True"
| "truthy (PTime t) = True"
| "truthy (POther tp t j s) = t"

fun type_name :: "pyval \<Rightarrow> string" where
  "type_name PNone = ''NoneType''"
| "type_name (PBool b) = ''bool''"
| "type_name (PInt i) = ''int''"
| "type_name (PStr s) = ''str''"
| "type_name (PDate d) = ''datetime.date''"
| "type_name (PDateTime dt) = ''datetime.datetime''"
| "type_name (PTime t) = ''datetime.time''"
| "type_name (POther tp t j s) = tp"

definition no_attribute :: "pyval \<Rightarrow> string \<Rightarrow> exn" where
  "no_attribute v a = AttributeError (quoted (type_name v) @ '' object has no attribute '' @ quoted a)"

definition date_isoformat :: "date \<Rightarrow> string" where
  "date_isoformat d = zero_pad 4 (d_year d) @ ''-'' @ zero_pad 2 (d_month d) @ ''-'' @ zero_pad 2 (d_day d)"

definition time_isoformat :: "time \<Rightarrow> string" where
  "time_isoformat t = zero_pad 2 (t_hour t) @ '':'' @ zero_pad 2 (t_minute t) @ '':'' @ zero_pad 2 (t_second t)"

text \<open>\<open>strftime('%H:%M')\<close> on a time of day.\<close>

definition format_HM :: "time \<Rightarrow> string" where
  "format_HM t = zero_pad 2 (t_hour t) @ '':'' @ zero_pad 2 (t_minute t)"

fun py_str :: "pyval \<Rightarrow> string" where
  "py_str PNone = ''None''"
| "py_str (PBool b) = (if b then ''True'' else ''False'')"
| "py_str (PInt i) = str_of_int i"
| "py_str (PStr s) = s"
| "py_str (PDate d) = date_isoformat d"
| "py_str (PDateTime dt) = date_isoformat (dt_date dt) @ '' '' @ time_isoformat (dt_time dt)"
| "py_str (PTime t) = time_isoformat t"
| "py_str (POther tp t j s) = s"

text \<open>\<open>v.strip()\<close>: only a string has the method.\<close>

fun py_strip :: "pyval \<Rightarrow> exn + string" where
  "py_strip (PStr s) = Inr (strip s)"
| "py_strip v = Inl (no_attribute v ''strip'')"

text \<open>
  \<open>v.isoformat()\<close>: a date gives \<open>YYYY-MM-DD\<close>, a timestamp \<open>YYYY-MM-DDTHH:MM:SS\<close>,
  a time of day \<open>HH:MM:SS\<close>; nothing else has the method.
\<close>

fun py_isoformat :: "pyval \<Rightarrow> exn + string" where
  "py_isoformat (PDate d) = Inr (date_isoformat d)"
| "py_isoformat (PDateTime dt) = Inr (date_isoformat (dt_date dt) @ ''T'' @ time_isoformat (dt_time dt))"
| "py_isoformat (PTime t) = Inr (time_isoformat t)"
| "py_isoformat v = Inl (no_attribute v ''isoformat'')"

text \<open>
  \<open>v.strftime('%H:%M')\<close>: a timestamp gives its time of day, a date (whose time of
  day is midnight) gives \<open>00:00\<close>, a time of day gives itself; nothing else has the
  method.
\<close>

fun py_strftime_HM :: "pyval \<Rightarrow> exn + string" where
  "py_strftime_HM (PDateTime dt) = Inr (format_HM (dt_time dt))"
| "py_strftime_HM (PDate d) = Inr (format_HM (Time 0 0 0))"
| "py_strftime_HM (PTime t) = Inr (format_HM t)"
| "py_strftime_HM v = Inl (no_attribute v ''strftime'')"

subsection \<open>\<open>int()\<close>\<close>

text \<open>
  \<open>int(s)\<close> on a string: surrounding whitespace is dropped, one sign is allowed, then
  decimal digits, where single underscores may stand between digits. The whitespace
  \<open>int()\<close> drops is not that of \<open>str.strip()\<close>: below 128 it is the tab, the
  newline, the vertical tab, the form feed, the carriage return and the space only (the
  separators 28 to 31 are not dropped and make the text invalid), above it the code points
  133 and 160. A text with more than 4300 digits is rejected with a ValueError (the limit
  of Python 3.11 on the conversion).
\<close>

definition int_isspace :: "char \<Rightarrow> bool" where
  "int_isspace c = ((of_char c :: nat) \<in> {9, 10, 11, 12, 13, 32, 133, 160})"

definition int_strip :: "string \<Rightarrow> string" where
  "int_strip s = rev (dropWhile int_isspace (rev (dropWhile int_isspace s)))"

definition int_max_str_digits :: nat where
  "int_max_str_digits = 4300"

fun digits_from :: "nat \<Rightarrow> string \<Rightarrow> nat option" where
  "digits_from acc [] = Some acc"
| "digits_from acc (c # cs) =
     (if is_digit c then digits_from (acc * 10 + digit_val c) cs
      else if c = CHR ''_'' then
        (case cs of
           [] \<Rightarrow> None
         | d # ds \<Rightarrow> if is_digit d then digits_from (acc * 10 + digit_val d) ds else None)
      else None)"

definition nat_of_digits :: "string \<Rightarrow> nat option" where
  "nat_of_digits s =
     (case s of
        [] \<Rightarrow> None
      | c # cs \<Rightarrow> if is_digit c then digits_from (digit_val c) cs else None)"

definition int_of_str :: "string \<Rightarrow> int option" where
  "int_of_str s =
     (if int_max_str_digits < length (filter is_digit s) then None
      else
        (case int_strip s of
           [] \<Rightarrow> None
         | c # cs \<Rightarrow>
             if c = CHR ''-'' then map_option (\<lambda>n. - int n) (nat_of_digits cs)
             else if c = CHR ''+'' then map_option int (nat_of_digits cs)
             else map_option int (nat_of_digits (c # cs))))"

fun py_int :: "pyval \<Rightarrow> exn + int" where
  "py_int (PInt i) = Inr i"
| "py_int (PBool b) = Inr (if b then 1 else 0)"
| "py_int (PStr s) = (case int_of_str s of None \<Rightarrow> Inl (ValueError []) | Some i \<Rightarrow> Inr i)"
| "py_int v = Inl (TypeError [])"

subsection \<open>\<open>datetime.strptime\<close> and \<open>datetime.combine\<close>\<close>

text \<open>
  \<open>strptime\<close> turns the format into a regular expression, matches it at the start of
  the text and raises ValueError when the match fails or text remains. The directives
  used here are \<open>%Y\<close> (four digits), \<open>%m\<close> (\<open>1[0-2]|0[1-9]|[1-9]\<close>), \<open>%d\<close>
  (\<open>3[01]|[12]\d|0[1-9]|[1-9]| [1-9]\<close>), \<open>%H\<close> (\<open>2[0-3]|[0-1]\d|\d\<close>) and \<open>%M\<close>
  (\<open>[0-5]\d|\d\<close>). Each reader below returns the number read and the rest of the text;
  the alternatives are tried in the order of the expression. An alternative of two
  characters that matches is never given up for a shorter one: the shorter one would
  leave a digit where the separator or the end of the text is required.
\<close>

definition chr_in :: "char \<Rightarrow> nat \<Rightarrow> nat \<Rightarrow> bool" where
  "chr_in c lo hi = (48 + lo \<le> (of_char c :: nat) \<and> (of_char c :: nat) \<le> 48 + hi)"

fun read_Y :: "string \<Rightarrow> (nat \<times> string) option" where
  "read_Y (a # b # c # d # rest) =
     (if is_digit a \<and> is_digit b \<and> is_digit c \<and> is_digit d
      then Some (digit_val a * 1000 + digit_val b * 100 + digit_val c * 10 + digit_val d, rest)
      else None)"
| "read_Y s = None"

fun read_m :: "string \<Rightarrow> (nat \<times> string) option" where
  "read_m (a # b # rest) =
     (if chr_in a 1 1 \<and> chr_in b 0 2 then Some (10 + digit_val b, rest)
      else if chr_in a 0 0 \<and> chr_in b 1 9 then Some (digit_val b, rest)
      else if chr_in a 1 9 then Some (digit_val a, b # rest)
      else None)"
| "read_m [a] = (if chr_in a 1 9 then Some (digit_val a, []) else None)"
| "read_m [] = None"

fun read_d :: "string \<Rightarrow> (nat \<times> string) option" where
  "read_d (a # b # rest) =
     (if chr_in a 3 3 \<and> chr_in b 0 1 then Some (30 + digit_val b, rest)
      else if chr_in a 1 2 \<and> is_digit b then Some (digit_val a * 10 + digit_val b, rest)
      else if chr_in a 0 0 \<and> chr_in b 1 9 then Some (digit_val b, rest)
      else if chr_in a 1 9 then Some (digit_val a, b # rest)
      else if a = CHR '' '' \<and> chr_in b 1 9 then Some (digit_val b, rest)
      else None)"
| "read_d [a] = (if chr_in a 1 9 then Some (digit_val a, []) else None)"
| "read_d [] = None"

fun read_H :: "string \<Rightarrow> (nat \<times> string) option" where
  "read_H (a # b # rest) =
     (if chr_in a 2 2 \<and> chr_in b 0 3 then Some (20 + digit_val b, rest)
      else if chr_in a 0 1 \<and> is_digit b then Some (digit_val a * 10 + digit_val b, rest)
      else if is_digit a then Some (digit_val a, b # rest)
      else None)"
| "read_H [a] = (if is_digit a then Some (digit_val a, []) else None)"
| "read_H [] = None"

fun read_M :: "string \<Rightarrow> (nat \<times> string) option" where
  "read_M (a # b # rest) =
     (if chr_in a 0 5 \<and> is_digit b then Some (digit_val a * 10 + digit_val b, rest)
      else if is_digit a then Some (digit_val a, b # rest)
      else None)"
| "read_M [a] = (if is_digit a then Some (digit_val a, []) else None)"
| "read_M [] = None"

fun read_sep :: "char \<Rightarrow> string \<Rightarrow> string option" where
  "read_sep c [] = None"
| "read_sep c (x # xs) = (if x = c then Some xs else None)"

definition is_leap :: "nat \<Rightarrow> bool" where
  "is_leap y = (y mod 4 = 0 \<and> (y mod 100 \<noteq> 0 \<or> y mod 400 = 0))"

definition days_in_month :: "nat \<Rightarrow> nat \<Rightarrow> nat" where
  "days_in_month y m =
     (if m = 2 then (if is_leap y then 29 else 28)
      else if m \<in> {4, 6, 9, 11} then 30 else 31)"

text \<open>The check of the \<open>date\<close> constructor: years 1 to 9999, a day the month has.\<close>

definition valid_date :: "date \<Rightarrow> bool" where
  "valid_date d =
     (1 \<le> d_year d \<and> d_year d \<le> 9999 \<and> 1 \<le> d_month d \<and> d_month d \<le> 12 \<and>
      1 \<le> d_day d \<and> d_day d \<le> days_in_month (d_year d) (d_month d))"

text \<open>\<open>datetime.strptime(s, '%Y-%m-%d').date()\<close>.\<close>

definition strptime_date :: "string \<Rightarrow> exn + date" where
  "strptime_date s =
     (case read_Y s of
        None \<Rightarrow> Inl (ValueError [])
      | Some (y, s1) \<Rightarrow>
     (case read_sep (CHR ''-'') s1 of
        None \<Rightarrow> Inl (ValueError [])
      | Some s2 \<Rightarrow>
     (case read_m s2 of
        None \<Rightarrow> Inl (ValueError [])
      | Some (m, s3) \<Rightarrow>
     (case read_sep (CHR ''-'') s3 of
        None \<Rightarrow> Inl (ValueError [])
      | Some s4 \<Rightarrow>
     (case read_d s4 of
        None \<Rightarrow> Inl (ValueError [])
      | Some (d, s5) \<Rightarrow>
          if s5 \<noteq> [] then Inl (ValueError [])
          else if valid_date (Date y m d) then Inr (Date y m d)
          else Inl (ValueError []))))))"

text \<open>\<open>datetime.strptime(s, '%H:%M').time()\<close>: the seconds are zero.\<close>

definition strptime_time :: "string \<Rightarrow> exn + time" where
  "strptime_time s =
     (case read_H s of
        None \<Rightarrow> Inl (ValueError [])
      | Some (h, s1) \<Rightarrow>
     (case read_sep (CHR '':'') s1 of
        None \<Rightarrow> Inl (ValueError [])
      | Some s2 \<Rightarrow>
     (case read_M s2 of
        None \<Rightarrow> Inl (ValueError [])
      | Some (mi, s3) \<Rightarrow>
          if s3 \<noteq> [] then Inl (ValueError []) else Inr (Time h mi 0))))"

text \<open>
  \<open>datetime.combine(d, t)\<close>: the first argument must be a date; of a timestamp (a
  subclass of date) the date part is taken. Anything else is a TypeError.
\<close>

fun py_combine :: "pyval \<Rightarrow> time \<Rightarrow> exn + datetime" where
  "py_combine (PDate d) t = Inr (DateTime d t)"
| "py_combine (PDateTime dt) t = Inr (DateTime (dt_date dt) t)"
| "py_combine v t =
     Inl (TypeError (''combine() argument 1 must be datetime.date, not '' @ type_name v))"

section \<open>Responses\<close>

text \<open>
  A handler returns the pair of a body and a status, as the Flask view returns
  \<open>(jsonify(...), status)\<close>. The body is the structure handed to \<open>jsonify\<close>: values,
  lists and dictionaries in the order the source writes their keys.
\<close>

datatype body =
    BVal pyval
  | BList "body list"
  | BDict "(string \<times> body) list"

type_synonym response = "body \<times> nat"

abbreviation BStr :: "string \<Rightarrow> body" where
  "BStr s \<equiv> BVal (PStr s)"

abbreviation BInt :: "int \<Rightarrow> body" where
  "BInt i \<equiv> BVal (PInt i)"

text \<open>The value a dictionary holds under a key.\<close>

fun body_get :: "body \<Rightarrow> string \<Rightarrow> body option" where
  "body_get (BDict kvs) k = map_of kvs k"
| "body_get b k = None"

fun leaves :: "body \<Rightarrow> pyval list" where
  "leaves (BVal v) = [v]"
| "leaves (BList bs) = concat (map leaves bs)"
| "leaves (BDict kvs) = concat (map (\<lambda>kv. leaves (snd kv)) kvs)"

fun serialisable :: "pyval \<Rightarrow> bool" where
  "serialisable (POther tp t j s) = j"
| "serialisable (PTime t) = False"
| "serialisable v = True"

text \<open>\<open>type(o).__name__\<close>, as the message of the encoder shows it.\<close>

fun class_name :: "pyval \<Rightarrow> string" where
  "class_name (PDate d) = ''date''"
| "class_name (PDateTime dt) = ''datetime''"
| "class_name (PTime t) = ''time''"
| "class_name v = type_name v"

text \<open>
  \<open>jsonify\<close> raises a TypeError at the first value its encoder does not know; dates and
  timestamps are known to Flask's encoder, a time of day is not.
\<close>

definition jsonify :: "body \<Rightarrow> exn + body" where
  "jsonify b =
     (case find (\<lambda>v. \<not> serialisable v) (leaves b) of
        None \<Rightarrow> Inr b
      | Some v \<Rightarrow> Inl (TypeError (''Object of type '' @ class_name v @ '' is not JSON serializable'')))"

section \<open>The record and the storage layer\<close>

text \<open>
  The columns of \<open>StudyRoom\<close> that the handlers read or write. \<open>room_id\<close> is the
  primary key, assigned by the storage layer. \<open>created_at\<close> and \<open>posts\<close> are never read
  or written by the handlers and are left out.
\<close>

record study_room =
  room_id :: int
  name :: pyval
  description :: pyval
  capacity :: pyval
  creator_id :: pyval
  date :: pyval
  start_time :: pyval
  end_time :: pyval
  location :: pyval
  mode :: pyval

text \<open>
  Modelled from the spec: the User entity is not part of the sources; it
  "exposes \<open>id\<close>, \<open>username\<close>, \<open>email\<close>" and is reached from a room through the
  relationship \<open>creator\<close>, which the room's own class does not declare.
\<close>

record user =
  user_id :: int
  username :: string
  email :: string

text \<open>
  What reading \<open>room.creator\<close> does: the attribute may not exist, may hold a user or
  \<open>None\<close>, or loading it may raise.
\<close>

datatype creator_access = NoAttr | Attr "user option" | AttrRaises exn

text \<open>
  The storage layer: the committed rows in table order, the next primary key, the
  relationship \<open>creator\<close>, and the failures of the store itself (a query or a commit
  that raises, with the message of the exception). A row holds what is stored in its
  columns.
\<close>

record db =
  rows :: "study_room list"
  next_id :: int
  creator_rel :: "study_room \<Rightarrow> creator_access"
  query_fault :: "string option"
  commit_fault :: "string option"

text \<open>
  The columns \<open>date = db.Column(db.Date, ...)\<close>, \<open>start_time = db.Column(db.DateTime, ...)\<close>
  and \<open>end_time = db.Column(db.DateTime, ...)\<close> are converted when a row is loaded: NULL
  gives \<open>None\<close>, a stored date or timestamp gives the object, and stored content that is
  neither cannot be converted, so that the query raises. The exception is the database
  library's; its text is not modelled further. The other columns are passed on as they
  are stored.
\<close>

fun date_cell :: "pyval \<Rightarrow> bool" where
  "date_cell PNone = True"
| "date_cell (PDate x) = True"
| "date_cell v = False"

fun datetime_cell :: "pyval \<Rightarrow> bool" where
  "datetime_cell PNone = True"
| "datetime_cell (PDateTime x) = True"
| "datetime_cell v = False"

definition loads :: "study_room \<Rightarrow> bool" where
  "loads r = (date_cell (date r) \<and> datetime_cell (start_time r) \<and> datetime_cell (end_time r))"

text \<open>\<open>StudyRoom.query.get(id)\<close> and \<open>StudyRoom.query.all()\<close>.\<close>

definition query_get :: "db \<Rightarrow> int \<Rightarrow> exn + study_room option" where
  "query_get d i =
     (case query_fault d of
        Some m \<Rightarrow> Inl (StorageError m)
      | None \<Rightarrow>
          (case find (\<lambda>r. room_id r = i) (rows d) of
             None \<Rightarrow> Inr None
           | Some r \<Rightarrow>
               if loads r then Inr (Some r) else Inl (StorageError ''row cannot be loaded'')))"

definition query_all :: "db \<Rightarrow> exn + study_room list" where
  "query_all d =
     (case query_fault d of
        Some m \<Rightarrow> Inl (StorageError m)
      | None \<Rightarrow>
          if list_all loads (rows d) then Inr (rows d)
          else Inl (StorageError ''row cannot be loaded''))"

text \<open>
  \<open>db.session.add(new_room); db.session.commit()\<close>: the row gets the next key and is
  appended. The second component is the key given.
\<close>

definition commit_new :: "db \<Rightarrow> study_room \<Rightarrow> exn + (db \<times> int)" where
  "commit_new d r =
     (case commit_fault d of
        Some m \<Rightarrow> Inl (StorageError m)
      | None \<Rightarrow>
          Inr (d\<lparr>rows := rows d @ [r\<lparr>room_id := next_id d\<rparr>], next_id := next_id d + 1\<rparr>,
               next_id d))"

text \<open>\<open>db.session.commit()\<close> after the attributes of a loaded row were assigned.\<close>

definition commit_room :: "db \<Rightarrow> study_room \<Rightarrow> exn + db" where
  "commit_room d r =
     (case commit_fault d of
        Some m \<Rightarrow> Inl (StorageError m)
      | None \<Rightarrow>
          Inr (d\<lparr>rows := map (\<lambda>x. if room_id x = room_id r then r else x) (rows d)\<rparr>))"

section \<open>Serialisation shared by the read paths\<close>

text \<open>
  \<open>creator_data\<close>: \<open>hasattr\<close> answers False when reading the attribute raises an
  AttributeError and lets any other exception through.
\<close>

definition creator_data :: "creator_access \<Rightarrow> exn + (string \<times> body) list" where
  "creator_data a =
     (case a of
        NoAttr \<Rightarrow> Inr []
      | AttrRaises e \<Rightarrow> if is_AttributeError e then Inr [] else Inl e
      | Attr None \<Rightarrow> Inr []
      | Attr (Some u) \<Rightarrow>
          Inr [(''id'', BInt (user_id u)),
               (''username'', BStr (username u)),
               (''email'', BStr (email u))])"

text \<open>The user the relationship holds, when it holds one.\<close>

fun attached_creator :: "creator_access \<Rightarrow> user option" where
  "attached_creator (Attr (Some u)) = Some u"
| "attached_creator a = None"

text \<open>\<open>x if x else d\<close>.\<close>

definition or_else :: "pyval \<Rightarrow> pyval \<Rightarrow> pyval" where
  "or_else x d = (if truthy x then x else d)"

text \<open>
  The block that sets \<open>date_str\<close> in \<open>get_study_room\<close> and, with the same text, in
  \<open>get_all_study_rooms\<close>: \<open>None\<close> stays \<open>None\<close>, otherwise \<open>isoformat()\<close>, and
  \<open>str()\<close> when that raises AttributeError or ValueError.
\<close>

definition handler_date_str :: "pyval \<Rightarrow> exn + string option" where
  "handler_date_str v =
     (if v = PNone then Inr None
      else (case py_isoformat v of
              Inr s \<Rightarrow> Inr (Some s)
            | Inl e \<Rightarrow> if is_Attribute_or_ValueError e then Inr (Some (py_str v)) else Inl e))"

text \<open>
  The block that sets \<open>start_time_str\<close> (and \<open>end_time_str\<close>) in both read handlers:
  the default \<open>00:00\<close> stays for \<open>None\<close>; otherwise \<open>strftime('%H:%M')\<close>, and when that
  raises AttributeError or ValueError a string is taken as it is and anything else gives
  \<open>00:00\<close>.
\<close>

definition handler_time_str :: "pyval \<Rightarrow> exn + string" where
  "handler_time_str v =
     (if v = PNone then Inr ''00:00''
      else (case py_strftime_HM v of
              Inr s \<Rightarrow> Inr s
            | Inl e \<Rightarrow>
                if is_Attribute_or_ValueError e
                then (case v of PStr s \<Rightarrow> Inr s | _ \<Rightarrow> Inr ''00:00'')
                else Inl e))"

section \<open>Fetch one: \<open>get_study_room\<close>\<close>

text \<open>
  The inner \<open>try\<close> block of \<open>get_study_room\<close>: it builds \<open>response_data\<close> and hands
  it to \<open>jsonify\<close>. The result is the body, or the exception that leaves the block.
\<close>

definition response_data :: "db \<Rightarrow> study_room \<Rightarrow> exn + body" where
  "response_data d room =
     (case creator_data (creator_rel d room) of
        Inl e \<Rightarrow> Inl e
      | Inr cd \<Rightarrow>
     (case handler_date_str (date room) of
        Inl e \<Rightarrow> Inl e
      | Inr date_str \<Rightarrow>
     (case handler_time_str (start_time room) of
        Inl e \<Rightarrow> Inl e
      | Inr start_time_str \<Rightarrow>
     (case handler_time_str (end_time room) of
        Inl e \<Rightarrow> Inl e
      | Inr end_time_str \<Rightarrow>
          jsonify (BDict
            [(''room_id'', BInt (room_id room)),
             (''id'', BStr (''room-'' @ str_of_int (room_id room))),
             (''name'', BVal (or_else (name room) (PStr []))),
             (''subject'', BVal (or_else (description room) (PStr []))),
             (''capacity'', BVal (or_else (capacity room) (PInt 0))),
             (''description'', BVal (or_else (description room) (PStr []))),
             (''participants'', BList []),
             (''host'', (case map_of cd ''username'' of Some b \<Rightarrow> b | None \<Rightarrow> BStr ''Anonymous'')),
             (''creator_id'', BVal (creator_id room)),
             (''creator'', BDict cd),
             (''date'', BStr (case date_str of Some s \<Rightarrow> (if s \<noteq> [] then s else []) | None \<Rightarrow> [])),
             (''start_time'', BStr (if start_time_str \<noteq> [] then start_time_str else ''00:00'')),
             (''end_time'', BStr (if end_time_str \<noteq> [] then end_time_str else ''00:00'')),
             (''location'', BVal (or_else (location room) (PStr []))),
             (''mode'', BVal (or_else (mode room) (PStr [])))])))))"

text \<open>
  The body both \<open>except\<close> branches of \<open>get_study_room\<close> return: every field a
  placeholder, the name built from the given prefix (\<open>Room\<close> in the inner branch,
  \<open>Error Room\<close> in the outer one) and the identifier, and the field \<open>error\<close>.
\<close>

definition placeholder_room :: "string \<Rightarrow> int \<Rightarrow> exn \<Rightarrow> body" where
  "placeholder_room prefix i e =
     BDict
       [(''room_id'', BInt i),
        (''id'', BStr (''room-'' @ str_of_int i)),
        (''name'', BStr (prefix @ str_of_int i)),
        (''subject'', BStr []),
        (''description'', BStr []),
        (''capacity'', BInt 0),
        (''participants'', BList []),
        (''host'', BStr ''Unknown''),
        (''creator_id'', BInt 0),
        (''creator'', BDict [(''id'', BInt 0), (''username'', BStr ''Unknown''), (''email'', BStr [])]),
        (''date'', BStr []),
        (''start_time'', BStr ''00:00''),
        (''end_time'', BStr ''00:00''),
        (''location'', BStr []),
        (''mode'', BStr []),
        (''error'', BStr (''Error: '' @ exn_str e))]"

definition not_found :: response where
  "not_found = (BDict [(''message'', BStr ''Room not found'')], 404)"

definition get_study_room :: "db \<Rightarrow> int \<Rightarrow> response" where
  "get_study_room d i =
     (case query_get d i of
        Inl e \<Rightarrow> (placeholder_room ''Error Room '' i e, 200)
      | Inr None \<Rightarrow> not_found
      | Inr (Some room) \<Rightarrow>
          (case response_data d room of
             Inr b \<Rightarrow> (b, 200)
           | Inl e \<Rightarrow> (placeholder_room ''Room '' i e, 200)))"

section \<open>Fetch all: \<open>get_all_study_rooms\<close>\<close>

text \<open>The \<open>try\<close> block of the loop body: the dictionary \<open>room_data\<close> of one room.\<close>

definition room_data :: "db \<Rightarrow> study_room \<Rightarrow> exn + body" where
  "room_data d room =
     (case creator_data (creator_rel d room) of
        Inl e \<Rightarrow> Inl e
      | Inr cd \<Rightarrow>
     (case handler_date_str (date room) of
        Inl e \<Rightarrow> Inl e
      | Inr date_str \<Rightarrow>
     (case handler_time_str (start_time room) of
        Inl e \<Rightarrow> Inl e
      | Inr start_time_str \<Rightarrow>
     (case handler_time_str (end_time room) of
        Inl e \<Rightarrow> Inl e
      | Inr end_time_str \<Rightarrow>
          Inr (BDict
            [(''room_id'', BInt (room_id room)),
             (''name'', BVal (or_else (name room) (PStr []))),
             (''description'', BVal (or_else (description room) (PStr []))),
             (''capacity'', BVal (or_else (capacity room) (PInt 0))),
             (''creator_id'', BVal (creator_id room)),
             (''creator'', BDict cd),
             (''host'', BDict cd),
             (''date'', (case date_str of Some s \<Rightarrow> BStr s | None \<Rightarrow> BVal PNone)),
             (''start_time'', BStr start_time_str),
             (''end_time'', BStr end_time_str),
             (''location'', BVal (or_else (location room) (PStr []))),
             (''mode'', BVal (or_else (mode room) (PStr [])))])))))"

text \<open>The dictionary the \<open>except\<close> branch of the loop body appends instead.\<close>

definition placeholder_entry :: "study_room \<Rightarrow> exn \<Rightarrow> body" where
  "placeholder_entry room e =
     BDict
       [(''room_id'', BInt (room_id room)),
        (''name'', BStr (''Room '' @ str_of_int (room_id room))),
        (''description'', BStr []),
        (''capacity'', BInt 0),
        (''creator_id'', BInt 0),
        (''creator'', BDict [(''id'', BInt 0), (''username'', BStr ''Unknown''), (''email'', BStr [])]),
        (''host'', BDict [(''id'', BInt 0), (''username'', BStr ''Unknown''), (''email'', BStr [])]),
        (''date'', BVal PNone),
        (''start_time'', BStr ''00:00''),
        (''end_time'', BStr ''00:00''),
        (''location'', BStr []),
        (''mode'', BStr []),
        (''error'', BStr (''Error: '' @ exn_str e))]"

text \<open>One turn of the loop: what is appended to \<open>rooms_data\<close> for a room.\<close>

definition room_entry :: "db \<Rightarrow> study_room \<Rightarrow> body" where
  "room_entry d room =
     (case room_data d room of
        Inr b \<Rightarrow> b
      | Inl e \<Rightarrow> placeholder_entry room e)"

text \<open>
  \<open>jsonify(rooms_data)\<close> stands after the loop, inside the outer \<open>try\<close> only: a value
  it rejects empties the whole list.
\<close>

definition get_all_study_rooms :: "db \<Rightarrow> response" where
  "get_all_study_rooms d =
     (case query_all d of
        Inl e \<Rightarrow> (BList [], 200)
      | Inr rooms \<Rightarrow>
          (case jsonify (BList (map (room_entry d) rooms)) of
             Inr b \<Rightarrow> (b, 200)
           | Inl e \<Rightarrow> (BList [], 200)))"

section \<open>The record's own serialisation: \<open>StudyRoom.to_dict\<close>\<close>

text \<open>
  The block of \<open>to_dict\<close> for \<open>start_time\<close> (and \<open>end_time\<close>): a false value keeps the
  default; otherwise \<open>strftime\<close>, and \<open>str()\<close> of the value when that raises
  AttributeError or ValueError; a text that is empty or not five characters long is
  replaced by \<open>00:00\<close>.
\<close>

definition to_dict_time_str :: "pyval \<Rightarrow> exn + string" where
  "to_dict_time_str v =
     (case (if truthy v
            then (case py_strftime_HM v of
                    Inr s \<Rightarrow> Inr s
                  | Inl e \<Rightarrow> if is_Attribute_or_ValueError e then Inr (py_str v) else Inl e)
            else Inr ''00:00'') of
        Inl e \<Rightarrow> Inl e
      | Inr s \<Rightarrow> Inr (if s = [] \<or> length s \<noteq> 5 then ''00:00'' else s))"

definition to_dict_date_str :: "pyval \<Rightarrow> exn + string" where
  "to_dict_date_str v =
     (if v = PNone then Inr []
      else (case py_isoformat v of
              Inr s \<Rightarrow> Inr s
            | Inl e \<Rightarrow>
                if is_Attribute_or_ValueError e
                then Inr (if truthy v then py_str v else [])
                else Inl e))"

definition to_dict_try :: "db \<Rightarrow> study_room \<Rightarrow> exn + body" where
  "to_dict_try d self =
     (case creator_data (creator_rel d self) of
        Inl e \<Rightarrow> Inl e
      | Inr cd \<Rightarrow>
     (case to_dict_date_str (date self) of
        Inl e \<Rightarrow> Inl e
      | Inr date_str \<Rightarrow>
     (case to_dict_time_str (start_time self) of
        Inl e \<Rightarrow> Inl e
      | Inr start_time_str \<Rightarrow>
     (case to_dict_time_str (end_time self) of
        Inl e \<Rightarrow> Inl e
      | Inr end_time_str \<Rightarrow>
          Inr (BDict
            [(''room_id'', BInt (room_id self)),
             (''id'', BStr (''room-'' @ str_of_int (room_id self))),
             (''name'', BVal (or_else (name self) (PStr []))),
             (''subject'', BVal (or_else (description self) (PStr []))),
             (''description'', BVal (or_else (description self) (PStr []))),
             (''capacity'', BVal (or_else (capacity self) (PInt 0))),
             (''participants'', BList []),
             (''host'', (if cd \<noteq> []
                         then (case map_of cd ''username'' of Some b \<Rightarrow> b | None \<Rightarrow> BStr ''Anonymous'')
                         else BStr ''Anonymous'')),
             (''creator_id'', BVal (creator_id self)),
             (''creator'', BDict cd),
             (''date'', BStr date_str),
             (''start_time'', BStr start_time_str),
             (''end_time'', BStr end_time_str),
             (''location'', BVal (or_else (location self) (PStr []))),
             (''mode'', BVal (or_else (mode self) (PStr [])))])))))"

definition to_dict :: "db \<Rightarrow> study_room \<Rightarrow> body" where
  "to_dict d self =
     (case to_dict_try d self of
        Inr b \<Rightarrow> b
      | Inl e \<Rightarrow>
          BDict
            [(''room_id'', BInt (room_id self)),
             (''id'', BStr (''room-'' @ str_of_int (room_id self))),
             (''name'', BVal (name self)),
             (''subject'', BStr []),
             (''description'', BStr []),
             (''capacity'', BInt 0),
             (''participants'', BList []),
             (''host'', BStr ''Anonymous''),
             (''creator_id'', BVal (creator_id self)),
             (''creator'', BDict [(''id'', BInt 0), (''username'', BStr ''Anonymous''), (''email'', BStr [])]),
             (''date'', BStr []),
             (''start_time'', BStr ''00:00''),
             (''end_time'', BStr ''00:00''),
             (''location'', BStr []),
             (''mode'', BStr []),
             (''error'', BStr ''Data serialization error'')])"

section \<open>Create: \<open>create_study_room\<close>\<close>

text \<open>
  The parsed JSON body of a request: \<open>None\<close> when \<open>request.get_json()\<close> gives
  \<open>None\<close>, otherwise the object as a list of keys and values. A body that is not an
  object is not modelled.
\<close>

type_synonym payload = "(string \<times> pyval) list"

definition required_fields :: "string list" where
  "required_fields =
     [''name'', ''capacity'', ''creator_id'', ''date'', ''start_time'', ''end_time'',
      ''location'', ''mode'']"

text \<open>\<open>data.get(k, default)\<close>.\<close>

definition data_get :: "payload \<Rightarrow> string \<Rightarrow> pyval \<Rightarrow> pyval" where
  "data_get data k dflt = (case map_of data k of Some v \<Rightarrow> v | None \<Rightarrow> dflt)"

definition bad_request :: "string \<Rightarrow> response" where
  "bad_request m = (BDict [(''message'', BStr m)], 400)"

text \<open>
  The validation of \<open>create_study_room\<close>, up to the construction of \<open>new_room\<close>: an
  exception, or a response returned early, or the new object. The object has no key
  before the commit; its \<open>room_id\<close> is written by \<open>commit_new\<close>.
\<close>

definition create_validate :: "payload option \<Rightarrow> exn + (response + study_room)" where
  "create_validate req =
     (case req of
        None \<Rightarrow> Inr (Inl (bad_request ''Missing required fields''))
      | Some data \<Rightarrow>
     if data = [] \<or> \<not> list_all (\<lambda>f. map_of data f \<noteq> None) required_fields
     then Inr (Inl (bad_request ''Missing required fields''))
     else
     (case py_strip (data_get data ''name'' (PStr [])) of
        Inl e \<Rightarrow> Inl e
      | Inr nm \<Rightarrow>
     if nm = [] then Inr (Inl (bad_request ''Study room name cannot be empty''))
     else
     (case py_int (data_get data ''capacity'' PNone) of
        Inl e \<Rightarrow>
          if is_Value_or_TypeError e then Inr (Inl (bad_request ''Capacity must be an integer''))
          else Inl e
      | Inr cap \<Rightarrow>
     if cap \<le> 0 then Inr (Inl (bad_request ''Capacity must be greater than zero''))
     else
     (case py_int (data_get data ''creator_id'' PNone) of
        Inl e \<Rightarrow>
          if is_Value_or_TypeError e then Inr (Inl (bad_request ''Creator ID must be an integer''))
          else Inl e
      | Inr cid \<Rightarrow>
     (case py_strip (data_get data ''date'' (PStr [])) of
        Inl e \<Rightarrow> Inl e
      | Inr date_str \<Rightarrow>
     if date_str = [] then Inr (Inl (bad_request ''Date is required''))
     else
     (case strptime_date date_str of
        Inl e \<Rightarrow>
          if is_ValueError e
          then Inr (Inl (bad_request ''Invalid date format, expected YYYY-MM-DD''))
          else Inl e
      | Inr date_obj \<Rightarrow>
     (case py_strip (data_get data ''start_time'' (PStr [])) of
        Inl e \<Rightarrow> Inl e
      | Inr start_time_str \<Rightarrow>
     if start_time_str = [] then Inr (Inl (bad_request ''Start time is required''))
     else
     (case strptime_time start_time_str of
        Inl e \<Rightarrow>
          if is_ValueError e
          then Inr (Inl (bad_request ''Invalid start_time format, expected HH:mm''))
          else Inl e
      | Inr start_obj \<Rightarrow>
     (case py_strip (data_get data ''end_time'' (PStr [])) of
        Inl e \<Rightarrow> Inl e
      | Inr end_time_str \<Rightarrow>
     if end_time_str = [] then Inr (Inl (bad_request ''End time is required''))
     else
     (case strptime_time end_time_str of
        Inl e \<Rightarrow>
          if is_ValueError e
          then Inr (Inl (bad_request ''Invalid end_time format, expected HH:mm''))
          else Inl e
      | Inr end_obj \<Rightarrow>
     (case py_strip (data_get data ''location'' (PStr [])) of
        Inl e \<Rightarrow> Inl e
      | Inr loc \<Rightarrow>
     if loc = [] then Inr (Inl (bad_request ''Location is required''))
     else
     (case py_strip (data_get data ''mode'' (PStr [])) of
        Inl e \<Rightarrow> Inl e
      | Inr md \<Rightarrow>
     if md = [] then Inr (Inl (bad_request ''Mode is required''))
     else
     (case (let description = data_get data ''description'' PNone
            in if truthy description then map_sum id PStr (py_strip description)
               else Inr description) of
        Inl e \<Rightarrow> Inl e
      | Inr desc \<Rightarrow>
          Inr (Inr \<lparr>room_id = 0,
                    name = PStr nm,
                    description = desc,
                    capacity = PInt cap,
                    creator_id = PInt cid,
                    date = PDate date_obj,
                    start_time = PDateTime (DateTime date_obj start_obj),
                    end_time = PDateTime (DateTime date_obj end_obj),
                    location = PStr loc,
                    mode = PStr md\<rparr>))))))))))))))"

definition create_try :: "db \<Rightarrow> payload option \<Rightarrow> exn + (response \<times> db)" where
  "create_try d req =
     (case create_validate req of
        Inl e \<Rightarrow> Inl e
      | Inr (Inl resp) \<Rightarrow> Inr (resp, d)
      | Inr (Inr new_room) \<Rightarrow>
          (case commit_new d new_room of
             Inl e \<Rightarrow> Inl e
           | Inr (d', new_id) \<Rightarrow>
               Inr ((BDict [(''message'', BStr ''Study room created''), (''room_id'', BInt new_id)],
                     201), d')))"

text \<open>
  The handler: what the \<open>try\<close> block gives, or, after \<open>db.session.rollback()\<close>, the
  response 500 on the store as it was.
\<close>

definition create_study_room :: "db \<Rightarrow> payload option \<Rightarrow> response \<times> db" where
  "create_study_room d req =
     (case create_try d req of
        Inr r \<Rightarrow> r
      | Inl e \<Rightarrow>
          ((BDict [(''message'', BStr ''Creation failed''), (''error'', BStr (exn_str e))], 500), d))"

section \<open>Update: \<open>update_study_room\<close>\<close>

text \<open>
  The handler assigns the attributes of the loaded record one \<open>if\<close> statement after
  the other. Each statement is a step on the record in memory: it raises, or returns a
  response, or goes on with the record as it now is.
\<close>

datatype step = Raise exn | Respond response | Next study_room

definition upd_name :: "payload \<Rightarrow> study_room \<Rightarrow> step" where
  "upd_name data room =
     (case map_of data ''name'' of
        None \<Rightarrow> Next room
      | Some v \<Rightarrow>
          (case py_strip v of
             Inl e \<Rightarrow> Raise e
           | Inr s \<Rightarrow> Next (room\<lparr>name := PStr s\<rparr>)))"

definition upd_description :: "payload \<Rightarrow> study_room \<Rightarrow> step" where
  "upd_description data room =
     (case map_of data ''description'' of
        None \<Rightarrow> Next room
      | Some v \<Rightarrow>
          (case py_strip v of
             Inl e \<Rightarrow> Raise e
           | Inr s \<Rightarrow> Next (room\<lparr>description := PStr s\<rparr>)))"

definition upd_capacity :: "payload \<Rightarrow> study_room \<Rightarrow> step" where
  "upd_capacity data room =
     (case map_of data ''capacity'' of
        None \<Rightarrow> Next room
      | Some v \<Rightarrow>
          (case py_int v of
             Inl e \<Rightarrow>
               if is_Value_or_TypeError e then Respond (bad_request ''Capacity must be an integer'')
               else Raise e
           | Inr i \<Rightarrow> Next (room\<lparr>capacity := PInt i\<rparr>)))"

definition upd_date :: "payload \<Rightarrow> study_room \<Rightarrow> step" where
  "upd_date data room =
     (case map_of data ''date'' of
        None \<Rightarrow> Next room
      | Some v \<Rightarrow>
          (case py_strip v of
             Inl e \<Rightarrow> Raise e
           | Inr date_str \<Rightarrow>
               (case strptime_date date_str of
                  Inl e \<Rightarrow>
                    if is_ValueError e
                    then Respond (bad_request ''Invalid date format, expected YYYY-MM-DD'')
                    else Raise e
                | Inr date_obj \<Rightarrow> Next (room\<lparr>date := PDate date_obj\<rparr>))))"

text \<open>
  \<open>strptime\<close> and \<open>datetime.combine(room.date, time_obj)\<close> stand in the same \<open>try\<close>,
  which catches ValueError only.
\<close>

definition upd_start_time :: "payload \<Rightarrow> study_room \<Rightarrow> step" where
  "upd_start_time data room =
     (case map_of data ''start_time'' of
        None \<Rightarrow> Next room
      | Some v \<Rightarrow>
          (case py_strip v of
             Inl e \<Rightarrow> Raise e
           | Inr st_str \<Rightarrow>
               (case (case strptime_time st_str of
                        Inl e \<Rightarrow> Inl e
                      | Inr time_obj \<Rightarrow> py_combine (date room) time_obj) of
                  Inl e \<Rightarrow>
                    if is_ValueError e
                    then Respond (bad_request ''Invalid start_time format, expected HH:mm'')
                    else Raise e
                | Inr dt \<Rightarrow> Next (room\<lparr>start_time := PDateTime dt\<rparr>))))"

definition upd_end_time :: "payload \<Rightarrow> study_room \<Rightarrow> step" where
  "upd_end_time data room =
     (case map_of data ''end_time'' of
        None \<Rightarrow> Next room
      | Some v \<Rightarrow>
          (case py_strip v of
             Inl e \<Rightarrow> Raise e
           | Inr et_str \<Rightarrow>
               (case (case strptime_time et_str of
                        Inl e \<Rightarrow> Inl e
                      | Inr time_obj \<Rightarrow> py_combine (date room) time_obj) of
                  Inl e \<Rightarrow>
                    if is_ValueError e
                    then Respond (bad_request ''Invalid end_time format, expected HH:mm'')
                    else Raise e
                | Inr dt \<Rightarrow> Next (room\<lparr>end_time := PDateTime dt\<rparr>))))"

definition upd_location :: "payload \<Rightarrow> study_room \<Rightarrow> step" where
  "upd_location data room =
     (case map_of data ''location'' of
        None \<Rightarrow> Next room
      | Some v \<Rightarrow>
          (case py_strip v of
             Inl e \<Rightarrow> Raise e
           | Inr s \<Rightarrow> Next (room\<lparr>location := PStr s\<rparr>)))"

definition upd_mode :: "payload \<Rightarrow> study_room \<Rightarrow> step" where
  "upd_mode data room =
     (case map_of data ''mode'' of
        None \<Rightarrow> Next room
      | Some v \<Rightarrow>
          (case py_strip v of
             Inl e \<Rightarrow> Raise e
           | Inr s \<Rightarrow> Next (room\<lparr>mode := PStr s\<rparr>)))"

text \<open>The statements in the order of the source.\<close>

definition update_steps :: "payload \<Rightarrow> (study_room \<Rightarrow> step) list" where
  "update_steps data =
     [upd_name data, upd_description data, upd_capacity data, upd_date data,
      upd_start_time data, upd_end_time data, upd_location data, upd_mode data]"

text \<open>
  Running the statements: the first that raises or returns ends the run, and the record
  in memory is then what the statements before it made of it.
\<close>

datatype run = Raised exn | Responded response study_room | Finished study_room

fun run_steps :: "(study_room \<Rightarrow> step) list \<Rightarrow> study_room \<Rightarrow> run" where
  "run_steps [] room = Finished room"
| "run_steps (f # fs) room =
     (case f room of
        Raise e \<Rightarrow> Raised e
      | Respond resp \<Rightarrow> Responded resp room
      | Next room' \<Rightarrow> run_steps fs room')"

definition update_failed :: "exn \<Rightarrow> response" where
  "update_failed e =
     (BDict [(''message'', BStr ''Update failed''), (''error'', BStr (exn_str e))], 500)"

text \<open>
  The handler returns the response, the store, and the record object as the session
  holds it when the handler returns (\<open>None\<close> when no record was loaded). A response
  returned early leaves the assigned attributes on the object, neither committed nor
  rolled back; \<open>db.session.rollback()\<close> in the \<open>except\<close> branch gives the object its
  stored values back. \<open>data = request.get_json() or {}\<close>.
\<close>

definition update_study_room ::
  "db \<Rightarrow> int \<Rightarrow> payload option \<Rightarrow> response \<times> db \<times> study_room option" where
  "update_study_room d i req =
     (case query_get d i of
        Inl e \<Rightarrow> (update_failed e, d, None)
      | Inr None \<Rightarrow> (not_found, d, None)
      | Inr (Some room) \<Rightarrow>
          (let data = (case req of None \<Rightarrow> [] | Some x \<Rightarrow> x) in
           case run_steps (update_steps data) room of
             Raised e \<Rightarrow> (update_failed e, d, Some room)
           | Responded resp room' \<Rightarrow> (resp, d, Some room')
           | Finished room' \<Rightarrow>
               (case commit_room d room' of
                  Inl e \<Rightarrow> (update_failed e, d, Some room)
                | Inr d' \<Rightarrow>
                    (case jsonify (to_dict d' room') of
                       Inl e \<Rightarrow> (update_failed e, d', Some room')
                     | Inr b \<Rightarrow> ((b, 200), d', Some room')))))"

section \<open>Properties\<close>

subsection \<open>What the library functions raise\<close>

lemma py_int_error: "py_int v = Inl e \<Longrightarrow> is_Value_or_TypeError e"
  by (cases v) (auto split: option.splits)

lemma py_strip_error: "py_strip v = Inl e \<Longrightarrow> is_AttributeError e"
  by (cases v) (auto simp: no_attribute_def)

subsection \<open>Decimal text: formatting and reading back\<close>

lemma of_char_digit_char: "k < 10 \<Longrightarrow> (of_char (digit_char k) :: nat) = 48 + k"
  by (simp add: digit_char_def)

lemma is_digit_digit_char: "k < 10 \<Longrightarrow> is_digit (digit_char k)"
  by (simp add: is_digit_def of_char_digit_char)

lemma digit_val_digit_char: "k < 10 \<Longrightarrow> digit_val (digit_char k) = k"
  by (simp add: digit_val_def of_char_digit_char)

lemma chr_in_digit_char: "k < 10 \<Longrightarrow> chr_in (digit_char k) lo hi = (lo \<le> k \<and> k \<le> hi)"
  by (simp add: chr_in_def of_char_digit_char)

lemma digit_char_0: "digit_char 0 = CHR ''0''"
  unfolding digit_char_def by code_simp

lemma str_of_nat_small: "n < 10 \<Longrightarrow> str_of_nat n = [digit_char n]"
  by (simp add: str_of_nat.simps [of n])

lemma str_of_nat_step: "10 \<le> n \<Longrightarrow> str_of_nat n = str_of_nat (n div 10) @ [digit_char (n mod 10)]"
  by (simp add: str_of_nat.simps [of n])

lemma zero_pad_2: "n < 100 \<Longrightarrow> zero_pad 2 n = [digit_char (n div 10), digit_char (n mod 10)]"
proof (cases "n < 10")
  case True
  then show ?thesis
    by (simp add: zero_pad_def str_of_nat_small digit_char_0)
next
  case False
  moreover assume "n < 100"
  ultimately show ?thesis
    by (simp add: zero_pad_def str_of_nat_step str_of_nat_small)
qed

lemma read_H_pad:
  assumes "h < 24"
  shows "read_H (zero_pad 2 h @ rest) = Some (h, rest)"
proof -
  have z: "zero_pad 2 h = [digit_char (h div 10), digit_char (h mod 10)]"
    using assms by (simp add: zero_pad_2)
  have lt: "h div 10 < 10" "h mod 10 < 10" using assms by simp_all
  have dm: "h div 10 * 10 + h mod 10 = h" by simp
  show ?thesis
  proof (cases "h div 10 = 2")
    case True
    with dm assms have "h mod 10 \<le> 3" "20 + h mod 10 = h" by simp_all
    with True lt show ?thesis
      by (simp add: z chr_in_digit_char digit_val_digit_char)
  next
    case False
    with dm assms have "h div 10 \<le> 1" by simp
    with False lt dm show ?thesis
      by (simp add: z chr_in_digit_char is_digit_digit_char digit_val_digit_char)
  qed
qed

lemma read_M_pad:
  assumes "m < 60"
  shows "read_M (zero_pad 2 m @ rest) = Some (m, rest)"
proof -
  have z: "zero_pad 2 m = [digit_char (m div 10), digit_char (m mod 10)]"
    using assms by (simp add: zero_pad_2)
  have lt: "m div 10 \<le> 5" "m div 10 < 10" "m mod 10 < 10" using assms by simp_all
  have "m div 10 * 10 + m mod 10 = m" by simp
  with lt show ?thesis
    by (simp add: z chr_in_digit_char is_digit_digit_char digit_val_digit_char)
qed

lemma read_m_pad:
  assumes "1 \<le> m" "m \<le> 12"
  shows "read_m (zero_pad 2 m @ rest) = Some (m, rest)"
proof -
  have z: "zero_pad 2 m = [digit_char (m div 10), digit_char (m mod 10)]"
    using assms by (simp add: zero_pad_2)
  have lt: "m div 10 < 10" "m mod 10 < 10" using assms by simp_all
  have dm: "m div 10 * 10 + m mod 10 = m" by simp
  show ?thesis
  proof (cases "m div 10 = 1")
    case True
    with dm assms have "m mod 10 \<le> 2" "10 + m mod 10 = m" by simp_all
    with True lt show ?thesis
      by (simp add: z chr_in_digit_char digit_val_digit_char)
  next
    case False
    with assms have d0: "m div 10 = 0" by simp
    with dm assms have "1 \<le> m mod 10" "m mod 10 = m" by simp_all
    with d0 lt show ?thesis
      by (simp add: z chr_in_digit_char digit_val_digit_char)
  qed
qed

lemma read_d_pad:
  assumes "1 \<le> d" "d \<le> 31"
  shows "read_d (zero_pad 2 d @ rest) = Some (d, rest)"
proof -
  have z: "zero_pad 2 d = [digit_char (d div 10), digit_char (d mod 10)]"
    using assms by (simp add: zero_pad_2)
  have lt: "d div 10 < 10" "d mod 10 < 10" using assms by simp_all
  have dm: "d div 10 * 10 + d mod 10 = d" by simp
  have le3: "d div 10 \<le> 3" using assms by simp
  consider "d div 10 = 3" | "d div 10 = 1 \<or> d div 10 = 2" | "d div 10 = 0"
    using le3 by linarith
  then show ?thesis
  proof cases
    case 1
    with dm assms have "d mod 10 \<le> 1" "30 + d mod 10 = d" by simp_all
    with 1 lt show ?thesis
      by (simp add: z chr_in_digit_char digit_val_digit_char)
  next
    case 2
    with lt dm show ?thesis
      by (auto simp add: z chr_in_digit_char digit_val_digit_char is_digit_digit_char)
  next
    case 3
    with dm assms have "1 \<le> d mod 10" "d mod 10 = d" by simp_all
    with 3 lt show ?thesis
      by (simp add: z chr_in_digit_char digit_val_digit_char)
  qed
qed

lemma decimal_4:
  "n div 1000 * 1000 + n div 100 mod 10 * 100 + n div 10 mod 10 * 10 + n mod 10 = (n::nat)"
proof -
  have d2: "n div 10 div 10 = n div 100" and d3: "n div 100 div 10 = n div 1000"
    by (simp_all add: div_mult2_eq [symmetric])
  have 2: "n div 10 = n div 100 * 10 + n div 10 mod 10"
    using div_mult_mod_eq [of "n div 10" 10] by (simp add: d2)
  have 3: "n div 100 = n div 1000 * 10 + n div 100 mod 10"
    using div_mult_mod_eq [of "n div 100" 10] by (simp add: d3)
  have "n div 1000 * 1000 + n div 100 mod 10 * 100 + n div 10 mod 10 * 10 + n mod 10
        = ((n div 1000 * 10 + n div 100 mod 10) * 10 + n div 10 mod 10) * 10 + n mod 10"
    by (simp add: algebra_simps)
  also have "\<dots> = (n div 100 * 10 + n div 10 mod 10) * 10 + n mod 10"
    using 3 by simp
  also have "\<dots> = n div 10 * 10 + n mod 10"
    using 2 by simp
  also have "\<dots> = n" by simp
  finally show ?thesis .
qed

lemma str_of_nat_4:
  assumes "1000 \<le> n" "n < 10000"
  shows "str_of_nat n = [digit_char (n div 1000), digit_char (n div 100 mod 10),
                         digit_char (n div 10 mod 10), digit_char (n mod 10)]"
proof -
  have d2: "n div 10 div 10 = n div 100" and d3: "n div 100 div 10 = n div 1000"
    by (simp_all add: div_mult2_eq [symmetric])
  have a: "10 \<le> n" "10 \<le> n div 10" "10 \<le> n div 100" "n div 1000 < 10"
    using assms by (simp_all add: less_eq_div_iff_mult_less_eq div_less_iff_less_mult)
  have s1: "str_of_nat n = str_of_nat (n div 10) @ [digit_char (n mod 10)]"
    using a(1) by (rule str_of_nat_step)
  have s2: "str_of_nat (n div 10) = str_of_nat (n div 100) @ [digit_char (n div 10 mod 10)]"
    using str_of_nat_step [OF a(2)] by (simp only: d2)
  have s3: "str_of_nat (n div 100) = str_of_nat (n div 1000) @ [digit_char (n div 100 mod 10)]"
    using str_of_nat_step [OF a(3)] by (simp only: d3)
  have s4: "str_of_nat (n div 1000) = [digit_char (n div 1000)]"
    using a(4) by (rule str_of_nat_small)
  show ?thesis
    by (simp only: s1 s2 s3 s4 append.simps)
qed

lemma str_of_nat_3:
  assumes "100 \<le> n" "n < 1000"
  shows "str_of_nat n = [digit_char (n div 100), digit_char (n div 10 mod 10), digit_char (n mod 10)]"
proof -
  have d2: "n div 10 div 10 = n div 100"
    by (simp add: div_mult2_eq [symmetric])
  have a: "10 \<le> n" "10 \<le> n div 10" "n div 100 < 10"
    using assms by (simp_all add: less_eq_div_iff_mult_less_eq div_less_iff_less_mult)
  have s1: "str_of_nat n = str_of_nat (n div 10) @ [digit_char (n mod 10)]"
    using a(1) by (rule str_of_nat_step)
  have s2: "str_of_nat (n div 10) = str_of_nat (n div 100) @ [digit_char (n div 10 mod 10)]"
    using str_of_nat_step [OF a(2)] by (simp only: d2)
  have s3: "str_of_nat (n div 100) = [digit_char (n div 100)]"
    using a(3) by (rule str_of_nat_small)
  show ?thesis
    by (simp only: s1 s2 s3 append.simps)
qed

lemma str_of_nat_2:
  assumes "10 \<le> n" "n < 100"
  shows "str_of_nat n = [digit_char (n div 10), digit_char (n mod 10)]"
proof -
  have a: "n div 10 < 10" using assms by simp
  show ?thesis
    by (simp only: str_of_nat_step [OF assms(1)] str_of_nat_small [OF a] append.simps)
qed

lemma replicate_pad:
  "replicate (4 - length [a]) x = [x, x, x]"
  "replicate (4 - length [a, b]) x = [x, x]"
  "replicate (4 - length [a, b, c]) x = [x]"
  "replicate (4 - length [a, b, c, d]) x = []"
proof -
  have l: "length [a] = 1" "length [a, b] = 2" "length [a, b, c] = 3" "length [a, b, c, d] = 4"
    by simp_all
  have r: "replicate 3 x = [x, x, x]" "replicate 2 x = [x, x]" "replicate 1 x = [x]"
    by (simp_all add: numeral_3_eq_3 numeral_2_eq_2)
  show "replicate (4 - length [a]) x = [x, x, x]" unfolding l using r by simp
  show "replicate (4 - length [a, b]) x = [x, x]" unfolding l using r by simp
  show "replicate (4 - length [a, b, c]) x = [x]" unfolding l using r by simp
  show "replicate (4 - length [a, b, c, d]) x = []" unfolding l by simp
qed

lemma zero_pad_4:
  assumes "n < 10000"
  shows "zero_pad 4 n =
    [digit_char (n div 1000), digit_char (n div 100 mod 10), digit_char (n div 10 mod 10),
     digit_char (n mod 10)]"
proof -
  consider "n < 10" | "10 \<le> n" "n < 100" | "100 \<le> n" "n < 1000" | "1000 \<le> n"
    by linarith
  then show ?thesis
  proof cases
    case 1
    then have z: "n div 1000 = 0" "n div 100 = 0" "n div 10 = 0" "n mod 10 = n" by simp_all
    show ?thesis
      unfolding zero_pad_def str_of_nat_small [OF 1] replicate_pad z
      by (simp add: digit_char_0)
  next
    case 2
    then have z: "n div 1000 = 0" "n div 100 = 0" by simp_all
    have m: "n div 10 mod 10 = n div 10" using 2 by simp
    show ?thesis
      unfolding zero_pad_def str_of_nat_2 [OF 2] replicate_pad z m
      by (simp add: digit_char_0)
  next
    case 3
    then have z: "n div 1000 = 0" by simp
    have m: "n div 100 mod 10 = n div 100"
      using 3 by (simp add: div_less_iff_less_mult)
    show ?thesis
      unfolding zero_pad_def str_of_nat_3 [OF 3] replicate_pad z m
      by (simp add: digit_char_0)
  next
    case 4
    show ?thesis
      unfolding zero_pad_def str_of_nat_4 [OF 4 assms] replicate_pad
      by simp
  qed
qed

lemma read_Y_pad:
  assumes "y < 10000"
  shows "read_Y (zero_pad 4 y @ rest) = Some (y, rest)"
proof -
  have lt: "y div 1000 < 10" "y div 100 mod 10 < 10" "y div 10 mod 10 < 10" "y mod 10 < 10"
    using assms by (simp_all add: div_less_iff_less_mult)
  show ?thesis
    unfolding zero_pad_4 [OF assms]
    using lt by (simp add: is_digit_digit_char digit_val_digit_char decimal_4)
qed

lemma digit_char_not_sep:
  assumes "k < 10"
  shows "digit_char k \<noteq> CHR ''-''" and "digit_char k \<noteq> CHR '':''" and "digit_char k \<noteq> CHR '' ''"
    and "\<not> py_isspace (digit_char k)"
proof -
  have a: "(of_char (digit_char k) :: nat) = 48 + k"
    using assms by (rule of_char_digit_char)
  show "digit_char k \<noteq> CHR ''-''"
  proof
    assume "digit_char k = CHR ''-''"
    then have "(of_char (digit_char k) :: nat) = of_char (CHR ''-'')" by simp
    with a show False by simp
  qed
  show "digit_char k \<noteq> CHR '':''"
  proof
    assume "digit_char k = CHR '':''"
    then have "(of_char (digit_char k) :: nat) = of_char (CHR '':'')" by simp
    with a assms show False by simp
  qed
  show "digit_char k \<noteq> CHR '' ''"
  proof
    assume "digit_char k = CHR '' ''"
    then have "(of_char (digit_char k) :: nat) = of_char (CHR '' '')" by simp
    with a show False by simp
  qed
  show "\<not> py_isspace (digit_char k)"
    using a assms by (auto simp: py_isspace_def)
qed

lemma days_in_month_le: "days_in_month y m \<le> 31"
  by (simp add: days_in_month_def)

lemma strptime_date_isoformat:
  assumes "valid_date dt"
  shows "strptime_date (date_isoformat dt) = Inr dt"
proof -
  obtain y m d where dt: "dt = Date y m d" by (cases dt)
  from assms have v: "y < 10000" "1 \<le> m" "m \<le> 12" "1 \<le> d" "d \<le> 31"
    using days_in_month_le [of y m] by (auto simp: valid_date_def dt)
  have iso: "date_isoformat dt = zero_pad 4 y @ (CHR ''-'' # zero_pad 2 m @ (CHR ''-'' # zero_pad 2 d @ []))"
    by (simp add: date_isoformat_def dt)
  have 1: "read_Y (date_isoformat dt) = Some (y, CHR ''-'' # zero_pad 2 m @ (CHR ''-'' # zero_pad 2 d @ []))"
    unfolding iso by (rule read_Y_pad [OF v(1)])
  have 2: "read_m (zero_pad 2 m @ (CHR ''-'' # zero_pad 2 d @ [])) = Some (m, CHR ''-'' # zero_pad 2 d @ [])"
    by (rule read_m_pad [OF v(2,3)])
  have 3: "read_d (zero_pad 2 d @ []) = Some (d, [])"
    by (rule read_d_pad [OF v(4,5)])
  show ?thesis
    unfolding strptime_date_def 1
    using assms by (simp add: 2 3 dt del: append_Nil2)
qed

lemma strptime_time_format:
  assumes "h < 24" "m < 60"
  shows "strptime_time (format_HM (Time h m s)) = Inr (Time h m 0)"
proof -
  have f: "format_HM (Time h m s) = zero_pad 2 h @ (CHR '':'' # zero_pad 2 m @ [])"
    by (simp add: format_HM_def)
  have 1: "read_H (format_HM (Time h m s)) = Some (h, CHR '':'' # zero_pad 2 m @ [])"
    unfolding f by (rule read_H_pad [OF assms(1)])
  have 2: "read_M (zero_pad 2 m @ []) = Some (m, [])"
    by (rule read_M_pad [OF assms(2)])
  show ?thesis
    unfolding strptime_time_def 1
    by (simp add: 2 del: append_Nil2)
qed

lemma strip_date_isoformat:
  assumes "valid_date dt"
  shows "strip (date_isoformat dt) = date_isoformat dt"
proof -
  obtain y m d where dt: "dt = Date y m d" by (cases dt)
  from assms have v: "y < 10000" "d < 100" "m < 100"
    using days_in_month_le [of y m] by (auto simp: valid_date_def dt)
  have lt: "y div 1000 < 10" "d mod 10 < 10"
    using v by (simp_all add: div_less_iff_less_mult)
  show ?thesis
    using lt
    by (simp add: strip_def date_isoformat_def dt zero_pad_4 [OF v(1)] zero_pad_2 [OF v(2)]
        zero_pad_2 [OF v(3)] digit_char_not_sep)
qed

lemma strip_format_HM:
  assumes "h < 24" "m < 60"
  shows "strip (format_HM (Time h m s)) = format_HM (Time h m s)"
proof -
  have lt: "h div 10 < 10" "m mod 10 < 10" "h < 100" "m < 100" using assms by simp_all
  show ?thesis
    using lt
    by (simp add: strip_def format_HM_def zero_pad_2 digit_char_not_sep)
qed

lemma format_nonempty:
  "format_HM t \<noteq> []" "date_isoformat dt \<noteq> []"
  by (simp_all add: format_HM_def date_isoformat_def)

subsection \<open>Create: the required keys\<close>

text \<open>
  Claim C7. A create payload without the key \<open>end_time\<close> is answered with status 400 and
  the message "Missing required fields", and the store is left as it was. The column
  \<open>end_time\<close> of the record accepts \<open>None\<close>; it is the handler's list of required keys
  that rejects the payload.
\<close>

theorem create_missing_end_time:
  assumes "map_of data ''end_time'' = None"
  shows "create_study_room d (Some data) = (bad_request ''Missing required fields'', d)"
  using assms
  by (simp add: create_study_room_def create_try_def create_validate_def required_fields_def)

theorem create_missing_end_time_witness:
  "map_of [(''name'', PStr ''Lab''), (''capacity'', PInt 4), (''creator_id'', PInt 7),
           (''date'', PStr ''2024-06-01''), (''start_time'', PStr ''09:00''),
           (''location'', PStr ''B1''), (''mode'', PStr ''online'')] ''end_time'' = None \<and>
   create_study_room
     \<lparr>rows = [], next_id = 1, creator_rel = (\<lambda>r. NoAttr), query_fault = None, commit_fault = None\<rparr>
     (Some [(''name'', PStr ''Lab''), (''capacity'', PInt 4), (''creator_id'', PInt 7),
            (''date'', PStr ''2024-06-01''), (''start_time'', PStr ''09:00''),
            (''location'', PStr ''B1''), (''mode'', PStr ''online'')])
   = (bad_request ''Missing required fields'',
      \<lparr>rows = [], next_id = 1, creator_rel = (\<lambda>r. NoAttr), query_fault = None, commit_fault = None\<rparr>)"
proof -
  have a: "map_of [(''name'', PStr ''Lab''), (''capacity'', PInt 4), (''creator_id'', PInt 7),
           (''date'', PStr ''2024-06-01''), (''start_time'', PStr ''09:00''),
           (''location'', PStr ''B1''), (''mode'', PStr ''online'')] ''end_time'' = None"
    by simp
  show ?thesis
    using a create_missing_end_time [OF a] by blast
qed

subsection \<open>Create: a capacity that is rejected\<close>

lemma create_validate_bad_capacity:
  assumes cap: "map_of data ''capacity'' = Some v"
      and bad: "(\<exists>i. v = PInt i \<and> i \<le> 0) \<or> (\<exists>s. v = PStr s \<and> int_of_str s = None)"
  shows "(\<exists>e. create_validate (Some data) = Inl e \<and>
              py_strip (data_get data ''name'' (PStr [])) = Inl e)
         \<or> (\<exists>m. create_validate (Some data) = Inr (Inl (bad_request m)))"
proof (cases "data = [] \<or> \<not> list_all (\<lambda>f. map_of data f \<noteq> None) required_fields")
  case True
  then show ?thesis by (auto simp: create_validate_def)
next
  case present: False
  show ?thesis
  proof (cases "py_strip (data_get data ''name'' (PStr []))")
    case (Inl e)
    with present show ?thesis by (simp add: create_validate_def)
  next
    case (Inr nm)
    from bad have "(\<exists>e. py_int v = Inl e \<and> is_Value_or_TypeError e) \<or> (\<exists>c. py_int v = Inr c \<and> c \<le> 0)"
      by auto
    with present Inr cap show ?thesis
      by (cases "nm = []") (auto simp: create_validate_def data_get_def)
  qed
qed

text \<open>
  Claim C6, as the code has it. A create payload whose \<open>capacity\<close> is an integer that
  is zero or negative, or a string that \<open>int()\<close> rejects, never changes the store; and
  when the value under \<open>name\<close>, if there is one, is a string, the status is 400.
\<close>

theorem create_bad_capacity:
  assumes cap: "map_of data ''capacity'' = Some v"
      and bad: "(\<exists>i. v = PInt i \<and> i \<le> 0) \<or> (\<exists>s. v = PStr s \<and> int_of_str s = None)"
  shows "snd (create_study_room d (Some data)) = d \<and>
         ((\<forall>w. map_of data ''name'' = Some w \<longrightarrow> (\<exists>s. w = PStr s)) \<longrightarrow>
            snd (fst (create_study_room d (Some data))) = 400)"
proof -
  from create_validate_bad_capacity [OF cap bad]
  consider (raised) e where "create_validate (Some data) = Inl e"
      "py_strip (data_get data ''name'' (PStr [])) = Inl e"
    | (early) m where "create_validate (Some data) = Inr (Inl (bad_request m))"
    by blast
  then show ?thesis
  proof cases
    case raised
    have "\<not> (\<forall>w. map_of data ''name'' = Some w \<longrightarrow> (\<exists>s. w = PStr s))"
    proof
      assume "\<forall>w. map_of data ''name'' = Some w \<longrightarrow> (\<exists>s. w = PStr s)"
      then have "\<exists>s. data_get data ''name'' (PStr []) = PStr s"
        by (cases "map_of data ''name''") (auto simp: data_get_def)
      with raised(2) show False by auto
    qed
    with raised(1) show ?thesis
      by (simp add: create_study_room_def create_try_def)
  next
    case early
    then show ?thesis
      by (simp add: create_study_room_def create_try_def bad_request_def)
  qed
qed

theorem create_bad_capacity_witness:
  "map_of [(''name'', PStr ''Lab''), (''capacity'', PStr ''abc''), (''creator_id'', PInt 7),
      (''date'', PStr ''2024-06-01''), (''start_time'', PStr ''09:00''),
      (''end_time'', PStr ''10:30''), (''location'', PStr ''B1''), (''mode'', PStr ''online'')] ''capacity'' = Some (PStr ''abc'') \<and>
   int_of_str ''abc'' = None \<and>
   map_of [(''name'', PStr ''Lab''), (''capacity'', PStr ''abc''), (''creator_id'', PInt 7),
      (''date'', PStr ''2024-06-01''), (''start_time'', PStr ''09:00''),
      (''end_time'', PStr ''10:30''), (''location'', PStr ''B1''), (''mode'', PStr ''online'')] ''name'' = Some (PStr ''Lab'') \<and>
   rows (snd (create_study_room
     \<lparr>rows = [], next_id = 1, creator_rel = (\<lambda>r. NoAttr), query_fault = None, commit_fault = None\<rparr>
     (Some [(''name'', PStr ''Lab''), (''capacity'', PStr ''abc''), (''creator_id'', PInt 7),
      (''date'', PStr ''2024-06-01''), (''start_time'', PStr ''09:00''),
      (''end_time'', PStr ''10:30''), (''location'', PStr ''B1''), (''mode'', PStr ''online'')]))) = [] \<and>
   fst (create_study_room
     \<lparr>rows = [], next_id = 1, creator_rel = (\<lambda>r. NoAttr), query_fault = None, commit_fault = None\<rparr>
     (Some [(''name'', PStr ''Lab''), (''capacity'', PStr ''abc''), (''creator_id'', PInt 7),
      (''date'', PStr ''2024-06-01''), (''start_time'', PStr ''09:00''),
      (''end_time'', PStr ''10:30''), (''location'', PStr ''B1''), (''mode'', PStr ''online'')])) = (BDict [(''message'', BStr ''Capacity must be an integer'')], 400)"
proof -
  let ?data = "[(''name'', PStr ''Lab''), (''capacity'', PStr ''abc''), (''creator_id'', PInt 7),
      (''date'', PStr ''2024-06-01''), (''start_time'', PStr ''09:00''),
      (''end_time'', PStr ''10:30''), (''location'', PStr ''B1''), (''mode'', PStr ''online'')]"
  let ?d = "\<lparr>rows = [], next_id = 1, creator_rel = (\<lambda>r. NoAttr), query_fault = None,
             commit_fault = None\<rparr>"
  have a: "map_of ?data ''capacity'' = Some (PStr ''abc'')"
    by simp
  have b: "int_of_str ''abc'' = None"
    by code_simp
  from b have c: "(\<exists>i. PStr ''abc'' = PInt i \<and> i \<le> 0) \<or> (\<exists>s. PStr ''abc'' = PStr s \<and> int_of_str s = None)"
    by simp
  have n: "\<forall>w. map_of ?data ''name'' = Some w \<longrightarrow> (\<exists>s. w = PStr s)"
    by simp
  have m: "fst (fst (create_study_room ?d (Some ?data))) =
             BDict [(''message'', BStr ''Capacity must be an integer'')]"
    by code_simp
  from create_bad_capacity [OF a c, of ?d] n
  have "snd (create_study_room ?d (Some ?data)) = ?d"
    and "snd (fst (create_study_room ?d (Some ?data))) = 400"
    by blast+
  with m have "rows (snd (create_study_room ?d (Some ?data))) = []"
    and "fst (create_study_room ?d (Some ?data)) =
           (BDict [(''message'', BStr ''Capacity must be an integer'')], 400)"
    by (simp_all add: prod_eq_iff)
  moreover have "map_of ?data ''name'' = Some (PStr ''Lab'')"
    by simp
  ultimately show ?thesis
    using a b by blast
qed

text \<open>
  The claim as stated fails where the value under \<open>name\<close> is not a string:
  \<open>data.get('name', '').strip()\<close> raises an AttributeError before the capacity is
  looked at, and the handler answers 500.
\<close>

theorem create_bad_capacity_counterexample:
  "snd (fst (create_study_room
     \<lparr>rows = [], next_id = 1, creator_rel = (\<lambda>r. NoAttr), query_fault = None, commit_fault = None\<rparr>
     (Some [(''name'', PInt 123), (''capacity'', PInt 0), (''creator_id'', PInt 7),
            (''date'', PStr ''2024-06-01''), (''start_time'', PStr ''09:00''),
            (''end_time'', PStr ''10:30''), (''location'', PStr ''B1''),
            (''mode'', PStr ''online'')]))) = 500"
  by (simp add: create_study_room_def create_try_def create_validate_def required_fields_def
      data_get_def)

subsection \<open>Update: the capacity is not checked against zero\<close>

text \<open>
  Claim C4. \<open>create_study_room\<close> rejects a capacity that is not positive, but
  \<open>update_study_room\<close> only converts the value with \<open>int()\<close>: an update with
  \<open>capacity = 0\<close> on a stored room is answered with 200 and the zero is committed.
\<close>

theorem update_stores_zero_capacity:
  "(case update_study_room
      \<lparr>rows = [\<lparr>room_id = 1, name = PStr ''Lab'', description = PNone, capacity = PInt 4,
                creator_id = PInt 7, date = PDate (Date 2024 6 1),
                start_time = PDateTime (DateTime (Date 2024 6 1) (Time 9 0 0)),
                end_time = PDateTime (DateTime (Date 2024 6 1) (Time 10 30 0)),
                location = PStr ''B1'', mode = PStr ''online''\<rparr>],
        next_id = 2, creator_rel = (\<lambda>r. NoAttr), query_fault = None, commit_fault = None\<rparr>
      1 (Some [(''capacity'', PInt 0)]) of
      (resp, d', mem) \<Rightarrow> snd resp = 200 \<and> map capacity (rows d') = [PInt 0])"
  by code_simp

subsection \<open>Create: what a successful validation has checked\<close>

lemma map_sum_PStr: "map_sum id PStr x = Inr y \<Longrightarrow> \<exists>s. y = PStr s"
  by (cases x) auto

lemma create_validate_success:
  assumes "create_validate req = Inr (Inr r)"
  shows "\<exists>data nm cap cid ds dt ss t1 es t2 loc md.
           req = Some data \<and>
           py_strip (data_get data ''name'' (PStr [])) = Inr nm \<and> nm \<noteq> [] \<and>
           py_int (data_get data ''capacity'' PNone) = Inr cap \<and> 0 < cap \<and>
           py_int (data_get data ''creator_id'' PNone) = Inr cid \<and>
           py_strip (data_get data ''date'' (PStr [])) = Inr ds \<and> strptime_date ds = Inr dt \<and>
           py_strip (data_get data ''start_time'' (PStr [])) = Inr ss \<and> strptime_time ss = Inr t1 \<and>
           py_strip (data_get data ''end_time'' (PStr [])) = Inr es \<and> strptime_time es = Inr t2 \<and>
           py_strip (data_get data ''location'' (PStr [])) = Inr loc \<and> loc \<noteq> [] \<and>
           py_strip (data_get data ''mode'' (PStr [])) = Inr md \<and> md \<noteq> [] \<and>
           room_id r = 0 \<and> name r = PStr nm \<and> capacity r = PInt cap \<and> creator_id r = PInt cid \<and>
           date r = PDate dt \<and> start_time r = PDateTime (DateTime dt t1) \<and>
           end_time r = PDateTime (DateTime dt t2) \<and> location r = PStr loc \<and> mode r = PStr md \<and>
           (truthy (description r) \<longrightarrow> (\<exists>s. description r = PStr s))"
  using assms
  unfolding create_validate_def
  by (auto split: option.splits sum.splits if_splits simp: Let_def dest: map_sum_PStr)

lemma create_validate_early:
  assumes "create_validate req = Inr (Inl resp)"
  shows "snd resp = 400"
  using assms
  unfolding create_validate_def
  by (auto split: option.splits sum.splits if_splits simp: Let_def bad_request_def)

lemma create_success:
  assumes "snd (fst (create_study_room d req)) = 201"
  shows "\<exists>r. create_validate req = Inr (Inr r) \<and> commit_fault d = None \<and>
             create_study_room d req =
               ((BDict [(''message'', BStr ''Study room created''), (''room_id'', BInt (next_id d))], 201),
                d\<lparr>rows := rows d @ [r\<lparr>room_id := next_id d\<rparr>], next_id := next_id d + 1\<rparr>)"
  using assms
  by (auto simp: create_study_room_def create_try_def commit_new_def bad_request_def
      split: sum.splits option.splits dest: create_validate_early)

subsection \<open>Create: the timestamps lie on the date\<close>

text \<open>
  Claim C10. After every successful create (status 201) the store holds one more row,
  with the key the storage layer gave; its \<open>date\<close> is a date, and its \<open>start_time\<close>
  and \<open>end_time\<close> are timestamps whose date part is that date.
\<close>

theorem create_times_on_date:
  assumes "snd (fst (create_study_room d req)) = 201"
  shows "\<exists>r dt st et.
           rows (snd (create_study_room d req)) = rows d @ [r] \<and>
           room_id r = next_id d \<and>
           date r = PDate dt \<and>
           start_time r = PDateTime st \<and> dt_date st = dt \<and>
           end_time r = PDateTime et \<and> dt_date et = dt"
proof -
  from create_success [OF assms] obtain r where
    v: "create_validate req = Inr (Inr r)" and
    c: "create_study_room d req =
          ((BDict [(''message'', BStr ''Study room created''), (''room_id'', BInt (next_id d))], 201),
           d\<lparr>rows := rows d @ [r\<lparr>room_id := next_id d\<rparr>], next_id := next_id d + 1\<rparr>)"
    by blast
  from create_validate_success [OF v] obtain dt t1 t2 where
    "date r = PDate dt" "start_time r = PDateTime (DateTime dt t1)"
    "end_time r = PDateTime (DateTime dt t2)"
    by blast
  with c show ?thesis by simp
qed

theorem create_times_on_date_witness:
  "snd (fst (create_study_room
     \<lparr>rows = [], next_id = 1, creator_rel = (\<lambda>r. NoAttr), query_fault = None, commit_fault = None\<rparr>
     (Some [(''name'', PStr ''Lab''), (''capacity'', PStr ''4''), (''creator_id'', PInt 7),
            (''date'', PStr ''2024-06-01''), (''start_time'', PStr ''09:00''),
            (''end_time'', PStr ''10:30''), (''location'', PStr ''B1''),
            (''mode'', PStr ''online'')]))) = 201 \<and>
   (\<exists>r dt st et.
      rows (snd (create_study_room
        \<lparr>rows = [], next_id = 1, creator_rel = (\<lambda>r. NoAttr), query_fault = None, commit_fault = None\<rparr>
        (Some [(''name'', PStr ''Lab''), (''capacity'', PStr ''4''), (''creator_id'', PInt 7),
               (''date'', PStr ''2024-06-01''), (''start_time'', PStr ''09:00''),
               (''end_time'', PStr ''10:30''), (''location'', PStr ''B1''),
               (''mode'', PStr ''online'')]))) = [] @ [r] \<and>
      room_id r = 1 \<and> date r = PDate dt \<and>
      start_time r = PDateTime st \<and> dt_date st = dt \<and>
      end_time r = PDateTime et \<and> dt_date et = dt)"
proof -
  have h: "snd (fst (create_study_room
     \<lparr>rows = [], next_id = 1, creator_rel = (\<lambda>r. NoAttr), query_fault = None, commit_fault = None\<rparr>
     (Some [(''name'', PStr ''Lab''), (''capacity'', PStr ''4''), (''creator_id'', PInt 7),
            (''date'', PStr ''2024-06-01''), (''start_time'', PStr ''09:00''),
            (''end_time'', PStr ''10:30''), (''location'', PStr ''B1''),
            (''mode'', PStr ''online'')]))) = 201"
    by code_simp
  show ?thesis
    using h create_times_on_date [OF h] by simp
qed

subsection \<open>The read paths: what serialisation gives\<close>

lemma creator_data_cases:
  assumes "creator_data a = Inr cd"
  shows "cd = [] \<or> (\<exists>u. a = Attr (Some u) \<and>
           cd = [(''id'', BInt (user_id u)), (''username'', BStr (username u)),
                 (''email'', BStr (email u))])"
  using assms
  by (auto simp: creator_data_def split: creator_access.splits option.splits if_splits)

lemma handler_time_str_cases:
  "handler_time_str v =
     Inr (case v of PDateTime dt \<Rightarrow> format_HM (dt_time dt)
          | PDate d \<Rightarrow> format_HM (Time 0 0 0)
          | PTime t \<Rightarrow> format_HM t
          | PStr s \<Rightarrow> s
          | _ \<Rightarrow> ''00:00'')"
  by (cases v) (simp_all add: handler_time_str_def no_attribute_def)

lemma handler_date_str_cases:
  "handler_date_str v =
     Inr (case v of PNone \<Rightarrow> None
          | PDate d \<Rightarrow> Some (date_isoformat d)
          | PDateTime dt \<Rightarrow> Some (date_isoformat (dt_date dt) @ ''T'' @ time_isoformat (dt_time dt))
          | PTime t \<Rightarrow> Some (time_isoformat t)
          | _ \<Rightarrow> Some (py_str v))"
  by (cases v) (simp_all add: handler_date_str_def no_attribute_def)

lemma serialisable_or_else:
  "truthy v \<longrightarrow> serialisable v \<Longrightarrow> serialisable d \<Longrightarrow> serialisable (or_else v d)"
  by (simp add: or_else_def)

lemma jsonify_ok:
  assumes "\<forall>v \<in> set (leaves b). serialisable v"
  shows "jsonify b = Inr b"
proof -
  from assms have "find (\<lambda>v. \<not> serialisable v) (leaves b) = None"
    by (simp add: find_None_iff)
  then show ?thesis by (simp add: jsonify_def)
qed

lemma find_appended:
  assumes "\<forall>r \<in> set xs. \<not> P r" and "P y"
  shows "find P (xs @ [y]) = Some y"
  using assms by (induction xs) auto

lemma response_data_fresh:
  assumes cd: "creator_data (creator_rel d room) = Inr cd"
      and f: "name room = PStr nm" "capacity room = PInt cap" "creator_id room = PInt cid"
             "date room = PDate dt" "start_time room = PDateTime (DateTime dt t1)"
             "end_time room = PDateTime (DateTime dt t2)" "location room = PStr loc"
             "mode room = PStr md" "truthy (description room) \<longrightarrow> (\<exists>s. description room = PStr s)"
  shows "\<exists>kvs. response_data d room = Inr (BDict kvs) \<and>
           map_of kvs ''date'' = Some (BStr (date_isoformat dt)) \<and>
           map_of kvs ''start_time'' = Some (BStr (format_HM t1)) \<and>
           map_of kvs ''end_time'' = Some (BStr (format_HM t2)) \<and>
           map_of kvs ''error'' = None"
proof -
  have sd: "serialisable (or_else (description room) (PStr []))"
    using f(9) by (auto simp: or_else_def)
  have scd: "\<forall>v \<in> set (leaves (BDict cd)). serialisable v"
    using creator_data_cases [OF cd] by auto
  have host: "\<forall>v \<in> set (leaves (case map_of cd ''username'' of Some b \<Rightarrow> b | None \<Rightarrow> BStr ''Anonymous'')).
                serialisable v"
    using creator_data_cases [OF cd] by auto
  have ne: "format_HM t1 \<noteq> []" "format_HM t2 \<noteq> []" "date_isoformat dt \<noteq> []"
    by (rule format_nonempty)+
  let ?b = "BDict
            [(''room_id'', BInt (room_id room)),
             (''id'', BStr (''room-'' @ str_of_int (room_id room))),
             (''name'', BVal (or_else (name room) (PStr []))),
             (''subject'', BVal (or_else (description room) (PStr []))),
             (''capacity'', BVal (or_else (capacity room) (PInt 0))),
             (''description'', BVal (or_else (description room) (PStr []))),
             (''participants'', BList []),
             (''host'', (case map_of cd ''username'' of Some b \<Rightarrow> b | None \<Rightarrow> BStr ''Anonymous'')),
             (''creator_id'', BVal (creator_id room)),
             (''creator'', BDict cd),
             (''date'', BStr (date_isoformat dt)),
             (''start_time'', BStr (format_HM t1)),
             (''end_time'', BStr (format_HM t2)),
             (''location'', BVal (or_else (location room) (PStr []))),
             (''mode'', BVal (or_else (mode room) (PStr [])))]"
  have "\<forall>v \<in> set (leaves ?b). serialisable v"
    using sd scd host f by (auto simp: or_else_def)
  then have j: "jsonify ?b = Inr ?b" by (rule jsonify_ok)
  have "response_data d room = Inr ?b"
    unfolding response_data_def
    using j ne by (simp add: cd handler_date_str_cases handler_time_str_cases f)
  then show ?thesis by simp
qed

lemma creator_data_ok:
  assumes "\<forall>e. a = AttrRaises e \<longrightarrow> is_AttributeError e"
  shows "\<exists>cd. creator_data a = Inr cd"
proof (cases a)
  case NoAttr
  then show ?thesis by (simp add: creator_data_def)
next
  case (Attr u)
  then show ?thesis by (cases u) (simp_all add: creator_data_def)
next
  case (AttrRaises e)
  with assms show ?thesis by (simp add: creator_data_def)
qed

subsection \<open>Create, then fetch one\<close>

text \<open>
  Claim C5. Let a create payload be accepted (status 201), its \<open>date\<close> the text
  \<open>YYYY-MM-DD\<close> of a calendar date and its \<open>start_time\<close> and \<open>end_time\<close> the texts
  \<open>HH:MM\<close> of times of day. On a store whose queries do not fail, whose keys are not
  the next key, and whose relationship \<open>creator\<close> loads, fetch-one on the returned
  \<open>room_id\<close> answers 200 with exactly these three texts, and without the field
  \<open>error\<close>.
\<close>

theorem create_fetch_round_trip:
  assumes ok: "snd (fst (create_study_room d (Some data))) = 201"
      and dt: "valid_date dt" "map_of data ''date'' = Some (PStr (date_isoformat dt))"
      and st: "h1 < 24" "m1 < 60"
              "map_of data ''start_time'' = Some (PStr (format_HM (Time h1 m1 0)))"
      and et: "h2 < 24" "m2 < 60"
              "map_of data ''end_time'' = Some (PStr (format_HM (Time h2 m2 0)))"
      and store: "query_fault d = None" "\<forall>r \<in> set (rows d). room_id r \<noteq> next_id d"
      and rel: "\<forall>r e. creator_rel d r = AttrRaises e \<longrightarrow> is_AttributeError e"
  shows "\<exists>i kvs.
           fst (create_study_room d (Some data)) =
             (BDict [(''message'', BStr ''Study room created''), (''room_id'', BInt i)], 201) \<and>
           get_study_room (snd (create_study_room d (Some data))) i = (BDict kvs, 200) \<and>
           map_of kvs ''date'' = Some (BStr (date_isoformat dt)) \<and>
           map_of kvs ''start_time'' = Some (BStr (format_HM (Time h1 m1 0))) \<and>
           map_of kvs ''end_time'' = Some (BStr (format_HM (Time h2 m2 0))) \<and>
           map_of kvs ''error'' = None"
proof -
  from create_success [OF ok] obtain r where
    v: "create_validate (Some data) = Inr (Inr r)" and
    c: "create_study_room d (Some data) =
          ((BDict [(''message'', BStr ''Study room created''), (''room_id'', BInt (next_id d))], 201),
           d\<lparr>rows := rows d @ [r\<lparr>room_id := next_id d\<rparr>], next_id := next_id d + 1\<rparr>)"
    by blast
  let ?d' = "d\<lparr>rows := rows d @ [r\<lparr>room_id := next_id d\<rparr>], next_id := next_id d + 1\<rparr>"
  let ?r' = "r\<lparr>room_id := next_id d\<rparr>"
  from create_validate_success [OF v] obtain nm cap cid ds dt' ss t1 es t2 loc md where
    p: "py_strip (data_get data ''date'' (PStr [])) = Inr ds" "strptime_date ds = Inr dt'"
       "py_strip (data_get data ''start_time'' (PStr [])) = Inr ss" "strptime_time ss = Inr t1"
       "py_strip (data_get data ''end_time'' (PStr [])) = Inr es" "strptime_time es = Inr t2"
    and f: "name r = PStr nm" "capacity r = PInt cap" "creator_id r = PInt cid"
       "date r = PDate dt'" "start_time r = PDateTime (DateTime dt' t1)"
       "end_time r = PDateTime (DateTime dt' t2)" "location r = PStr loc" "mode r = PStr md"
       "truthy (description r) \<longrightarrow> (\<exists>s. description r = PStr s)"
    by auto
  have "ds = date_isoformat dt"
    using p(1) dt by (simp add: data_get_def strip_date_isoformat)
  with p(2) dt(1) have dt': "dt' = dt"
    by (simp add: strptime_date_isoformat)
  have "ss = format_HM (Time h1 m1 0)"
    using p(3) st by (simp add: data_get_def strip_format_HM)
  with p(4) st have t1: "t1 = Time h1 m1 0"
    by (simp add: strptime_time_format)
  have "es = format_HM (Time h2 m2 0)"
    using p(5) et by (simp add: data_get_def strip_format_HM)
  with p(6) et have t2: "t2 = Time h2 m2 0"
    by (simp add: strptime_time_format)
  have l: "loads ?r'"
    using f by (simp add: loads_def)
  have q: "query_get ?d' (next_id d) = Inr (Some ?r')"
    using store l by (simp add: query_get_def find_appended)
  obtain cd where cd: "creator_data (creator_rel ?d' ?r') = Inr cd"
    using creator_data_ok [of "creator_rel ?d' ?r'"] rel by auto
  from response_data_fresh [OF cd, of nm cap cid dt' t1 t2 loc md] f
  obtain kvs where
    k: "response_data ?d' ?r' = Inr (BDict kvs)"
       "map_of kvs ''date'' = Some (BStr (date_isoformat dt'))"
       "map_of kvs ''start_time'' = Some (BStr (format_HM t1))"
       "map_of kvs ''end_time'' = Some (BStr (format_HM t2))"
       "map_of kvs ''error'' = None"
    by auto
  have "get_study_room ?d' (next_id d) = (BDict kvs, 200)"
    by (simp add: get_study_room_def q k(1))
  with k c dt' t1 t2 show ?thesis
    by simp
qed

theorem create_fetch_round_trip_witness:
  "snd (fst (create_study_room
      \<lparr>rows = [], next_id = 1,
        creator_rel = (\<lambda>r. Attr (Some \<lparr>user_id = 7, username = ''ann'', email = ''ann@example.org''\<rparr>)),
        query_fault = None, commit_fault = None\<rparr>
      (Some [(''name'', PStr ''Lab''), (''capacity'', PInt 4), (''creator_id'', PInt 7),
             (''date'', PStr ''2024-06-01''), (''start_time'', PStr ''09:00''),
             (''end_time'', PStr ''10:30''), (''location'', PStr ''B1''),
             (''mode'', PStr ''online'')]))) = 201 \<and>
   valid_date (Date 2024 6 1) \<and>
   date_isoformat (Date 2024 6 1) = ''2024-06-01'' \<and>
   format_HM (Time 9 0 0) = ''09:00'' \<and>
   format_HM (Time 10 30 0) = ''10:30'' \<and>
   (\<exists>i kvs.
      get_study_room (snd (create_study_room
        \<lparr>rows = [], next_id = 1,
          creator_rel = (\<lambda>r. Attr (Some \<lparr>user_id = 7, username = ''ann'', email = ''ann@example.org''\<rparr>)),
          query_fault = None, commit_fault = None\<rparr>
        (Some [(''name'', PStr ''Lab''), (''capacity'', PInt 4), (''creator_id'', PInt 7),
               (''date'', PStr ''2024-06-01''), (''start_time'', PStr ''09:00''),
               (''end_time'', PStr ''10:30''), (''location'', PStr ''B1''),
               (''mode'', PStr ''online'')]))) i = (BDict kvs, 200) \<and>
      map_of kvs ''date'' = Some (BStr ''2024-06-01'') \<and>
      map_of kvs ''start_time'' = Some (BStr ''09:00'') \<and>
      map_of kvs ''end_time'' = Some (BStr ''10:30''))"
proof -
  let ?d = "\<lparr>rows = [], next_id = 1,
        creator_rel = (\<lambda>r. Attr (Some \<lparr>user_id = 7, username = ''ann'', email = ''ann@example.org''\<rparr>)),
        query_fault = None, commit_fault = None\<rparr>"
  let ?data = "[(''name'', PStr ''Lab''), (''capacity'', PInt 4), (''creator_id'', PInt 7),
             (''date'', PStr ''2024-06-01''), (''start_time'', PStr ''09:00''),
             (''end_time'', PStr ''10:30''), (''location'', PStr ''B1''),
             (''mode'', PStr ''online'')]"
  have ok: "snd (fst (create_study_room ?d (Some ?data))) = 201"
    by code_simp
  have v: "valid_date (Date 2024 6 1)"
    by code_simp
  have e1: "date_isoformat (Date 2024 6 1) = ''2024-06-01''"
    by code_simp
  have e2: "format_HM (Time 9 0 0) = ''09:00''"
    by code_simp
  have e3: "format_HM (Time 10 30 0) = ''10:30''"
    by code_simp
  have a: "map_of ?data ''date'' = Some (PStr (date_isoformat (Date 2024 6 1)))"
    unfolding e1 by simp
  have b: "map_of ?data ''start_time'' = Some (PStr (format_HM (Time 9 0 0)))"
    unfolding e2 by simp
  have c: "map_of ?data ''end_time'' = Some (PStr (format_HM (Time 10 30 0)))"
    unfolding e3 by simp
  have s: "query_fault ?d = None" "\<forall>r \<in> set (rows ?d). room_id r \<noteq> next_id ?d"
    "\<forall>r e. creator_rel ?d r = AttrRaises e \<longrightarrow> is_AttributeError e"
    by simp_all
  from create_fetch_round_trip [OF ok v a _ _ b _ _ c s]
  have "\<exists>i kvs.
      get_study_room (snd (create_study_room ?d (Some ?data))) i = (BDict kvs, 200) \<and>
      map_of kvs ''date'' = Some (BStr (date_isoformat (Date 2024 6 1))) \<and>
      map_of kvs ''start_time'' = Some (BStr (format_HM (Time 9 0 0))) \<and>
      map_of kvs ''end_time'' = Some (BStr (format_HM (Time 10 30 0)))"
    by auto
  then show ?thesis
    unfolding e1 e2 e3 using ok v by simp
qed

subsection \<open>The field \<open>host\<close> on the two read paths\<close>

lemma jsonify_Inr: "jsonify b = Inr b' \<Longrightarrow> b' = b"
  by (auto simp: jsonify_def split: option.splits)

lemma creator_data_attached:
  assumes "creator_data a = Inr cd"
  shows "cd = (case attached_creator a of
                 Some u \<Rightarrow> [(''id'', BInt (user_id u)), (''username'', BStr (username u)),
                            (''email'', BStr (email u))]
               | None \<Rightarrow> [])"
  using assms
  by (cases a rule: attached_creator.cases)
     (auto simp: creator_data_def split: if_splits)

lemma response_data_host:
  assumes "response_data d room = Inr b"
  shows "body_get b ''host'' =
           Some (BStr (case attached_creator (creator_rel d room) of
                         Some u \<Rightarrow> username u | None \<Rightarrow> ''Anonymous''))"
proof -
  from assms obtain cd where cd: "creator_data (creator_rel d room) = Inr cd"
    by (auto simp: response_data_def split: sum.splits)
  note at = creator_data_attached [OF cd]
  from assms cd show ?thesis
    unfolding response_data_def handler_date_str_cases handler_time_str_cases
    by (cases "attached_creator (creator_rel d room)")
       (auto simp: at dest!: jsonify_Inr)
qed

lemma room_data_host:
  assumes "room_data d room = Inr b"
  shows "body_get b ''host'' =
           Some (BDict (case attached_creator (creator_rel d room) of
                          Some u \<Rightarrow> [(''id'', BInt (user_id u)), (''username'', BStr (username u)),
                                     (''email'', BStr (email u))]
                        | None \<Rightarrow> []))"
proof -
  from assms obtain cd where cd: "creator_data (creator_rel d room) = Inr cd"
    by (auto simp: room_data_def split: sum.splits)
  note at = creator_data_attached [OF cd]
  from assms cd show ?thesis
    unfolding room_data_def handler_date_str_cases handler_time_str_cases
    by (auto simp: at)
qed

text \<open>
  Claim C9. When fetch-one serialises a record, the field \<open>host\<close> of the response is a
  string: the username of the creator the record holds, or \<open>Anonymous\<close> when it holds
  none. When fetch-all serialises a record (and the list as a whole is returned), the
  field \<open>host\<close> of its entry is the dictionary of the creator's \<open>id\<close>, \<open>username\<close> and
  \<open>email\<close>, or the empty dictionary when the record holds no creator.
\<close>

theorem host_of_fetch_one_and_fetch_all:
  "(query_get d i = Inr (Some room) \<longrightarrow> response_data d room = Inr b \<longrightarrow>
      get_study_room d i = (b, 200) \<and>
      body_get b ''host'' =
        Some (BStr (case attached_creator (creator_rel d room) of
                      Some u \<Rightarrow> username u | None \<Rightarrow> ''Anonymous'')))
   \<and>
   (query_all d = Inr rooms \<longrightarrow> k < length rooms \<longrightarrow> room_data d (rooms ! k) = Inr b' \<longrightarrow>
    fst (get_all_study_rooms d) \<noteq> BList [] \<longrightarrow>
      (\<exists>bs. get_all_study_rooms d = (BList bs, 200) \<and> length bs = length rooms \<and> bs ! k = b') \<and>
      body_get b' ''host'' =
        Some (BDict (case attached_creator (creator_rel d (rooms ! k)) of
                       Some u \<Rightarrow> [(''id'', BInt (user_id u)), (''username'', BStr (username u)),
                                  (''email'', BStr (email u))]
                     | None \<Rightarrow> [])))"
proof (intro conjI impI)
  assume "query_get d i = Inr (Some room)" and "response_data d room = Inr b"
  then show "get_study_room d i = (b, 200)"
    by (simp add: get_study_room_def)
next
  assume "response_data d room = Inr b"
  then show "body_get b ''host'' =
        Some (BStr (case attached_creator (creator_rel d room) of
                      Some u \<Rightarrow> username u | None \<Rightarrow> ''Anonymous''))"
    by (rule response_data_host)
next
  assume q: "query_all d = Inr rooms" and k: "k < length rooms"
    and rd: "room_data d (rooms ! k) = Inr b'"
    and ne: "fst (get_all_study_rooms d) \<noteq> BList []"
  from q ne have "get_all_study_rooms d = (BList (map (room_entry d) rooms), 200)"
    by (auto simp: get_all_study_rooms_def split: sum.splits dest: jsonify_Inr)
  moreover from k rd have "map (room_entry d) rooms ! k = b'"
    by (simp add: room_entry_def)
  ultimately show "\<exists>bs. get_all_study_rooms d = (BList bs, 200) \<and> length bs = length rooms \<and> bs ! k = b'"
    by simp
next
  assume "room_data d (rooms ! k) = Inr b'"
  then show "body_get b' ''host'' =
        Some (BDict (case attached_creator (creator_rel d (rooms ! k)) of
                       Some u \<Rightarrow> [(''id'', BInt (user_id u)), (''username'', BStr (username u)),
                                  (''email'', BStr (email u))]
                     | None \<Rightarrow> []))"
    by (rule room_data_host)
qed

theorem host_of_fetch_one_and_fetch_all_witness:
  "query_get \<lparr>rows = [\<lparr>room_id = 1, name = PStr ''Lab'', description = PNone, capacity = PInt 4,
       creator_id = PInt 7, date = PDate (Date 2024 6 1),
       start_time = PDateTime (DateTime (Date 2024 6 1) (Time 9 0 0)),
       end_time = PDateTime (DateTime (Date 2024 6 1) (Time 10 30 0)),
       location = PStr ''B1'', mode = PStr ''online''\<rparr>, \<lparr>room_id = 2, name = PStr ''Hall'', description = PStr ''quiet'', capacity = PInt 20,
       creator_id = PInt 9, date = PDate (Date 2024 6 2),
       start_time = PDateTime (DateTime (Date 2024 6 2) (Time 14 0 0)),
       end_time = PNone,
       location = PStr ''A3'', mode = PStr ''in-person''\<rparr>], next_id = 3,
      creator_rel = (\<lambda>r. if creator_id r = PInt 7 then Attr (Some \<lparr>user_id = 7, username = ''ann'', email = ''ann@example.org''\<rparr>) else Attr None),
      query_fault = None, commit_fault = None\<rparr> 1 = Inr (Some \<lparr>room_id = 1, name = PStr ''Lab'', description = PNone, capacity = PInt 4,
       creator_id = PInt 7, date = PDate (Date 2024 6 1),
       start_time = PDateTime (DateTime (Date 2024 6 1) (Time 9 0 0)),
       end_time = PDateTime (DateTime (Date 2024 6 1) (Time 10 30 0)),
       location = PStr ''B1'', mode = PStr ''online''\<rparr>) \<and>
   response_data \<lparr>rows = [\<lparr>room_id = 1, name = PStr ''Lab'', description = PNone, capacity = PInt 4,
       creator_id = PInt 7, date = PDate (Date 2024 6 1),
       start_time = PDateTime (DateTime (Date 2024 6 1) (Time 9 0 0)),
       end_time = PDateTime (DateTime (Date 2024 6 1) (Time 10 30 0)),
       location = PStr ''B1'', mode = PStr ''online''\<rparr>, \<lparr>room_id = 2, name = PStr ''Hall'', description = PStr ''quiet'', capacity = PInt 20,
       creator_id = PInt 9, date = PDate (Date 2024 6 2),
       start_time = PDateTime (DateTime (Date 2024 6 2) (Time 14 0 0)),
       end_time = PNone,
       location = PStr ''A3'', mode = PStr ''in-person''\<rparr>], next_id = 3,
      creator_rel = (\<lambda>r. if creator_id r = PInt 7 then Attr (Some \<lparr>user_id = 7, username = ''ann'', email = ''ann@example.org''\<rparr>) else Attr None),
      query_fault = None, commit_fault = None\<rparr> \<lparr>room_id = 1, name = PStr ''Lab'', description = PNone, capacity = PInt 4,
       creator_id = PInt 7, date = PDate (Date 2024 6 1),
       start_time = PDateTime (DateTime (Date 2024 6 1) (Time 9 0 0)),
       end_time = PDateTime (DateTime (Date 2024 6 1) (Time 10 30 0)),
       location = PStr ''B1'', mode = PStr ''online''\<rparr> = Inr (fst (get_study_room \<lparr>rows = [\<lparr>room_id = 1, name = PStr ''Lab'', description = PNone, capacity = PInt 4,
       creator_id = PInt 7, date = PDate (Date 2024 6 1),
       start_time = PDateTime (DateTime (Date 2024 6 1) (Time 9 0 0)),
       end_time = PDateTime (DateTime (Date 2024 6 1) (Time 10 30 0)),
       location = PStr ''B1'', mode = PStr ''online''\<rparr>, \<lparr>room_id = 2, name = PStr ''Hall'', description = PStr ''quiet'', capacity = PInt 20,
       creator_id = PInt 9, date = PDate (Date 2024 6 2),
       start_time = PDateTime (DateTime (Date 2024 6 2) (Time 14 0 0)),
       end_time = PNone,
       location = PStr ''A3'', mode = PStr ''in-person''\<rparr>], next_id = 3,
      creator_rel = (\<lambda>r. if creator_id r = PInt 7 then Attr (Some \<lparr>user_id = 7, username = ''ann'', email = ''ann@example.org''\<rparr>) else Attr None),
      query_fault = None, commit_fault = None\<rparr> 1)) \<and>
   query_all \<lparr>rows = [\<lparr>room_id = 1, name = PStr ''Lab'', description = PNone, capacity = PInt 4,
       creator_id = PInt 7, date = PDate (Date 2024 6 1),
       start_time = PDateTime (DateTime (Date 2024 6 1) (Time 9 0 0)),
       end_time = PDateTime (DateTime (Date 2024 6 1) (Time 10 30 0)),
       location = PStr ''B1'', mode = PStr ''online''\<rparr>, \<lparr>room_id = 2, name = PStr ''Hall'', description = PStr ''quiet'', capacity = PInt 20,
       creator_id = PInt 9, date = PDate (Date 2024 6 2),
       start_time = PDateTime (DateTime (Date 2024 6 2) (Time 14 0 0)),
       end_time = PNone,
       location = PStr ''A3'', mode = PStr ''in-person''\<rparr>], next_id = 3,
      creator_rel = (\<lambda>r. if creator_id r = PInt 7 then Attr (Some \<lparr>user_id = 7, username = ''ann'', email = ''ann@example.org''\<rparr>) else Attr None),
      query_fault = None, commit_fault = None\<rparr> = Inr [\<lparr>room_id = 1, name = PStr ''Lab'', description = PNone, capacity = PInt 4,
       creator_id = PInt 7, date = PDate (Date 2024 6 1),
       start_time = PDateTime (DateTime (Date 2024 6 1) (Time 9 0 0)),
       end_time = PDateTime (DateTime (Date 2024 6 1) (Time 10 30 0)),
       location = PStr ''B1'', mode = PStr ''online''\<rparr>, \<lparr>room_id = 2, name = PStr ''Hall'', description = PStr ''quiet'', capacity = PInt 20,
       creator_id = PInt 9, date = PDate (Date 2024 6 2),
       start_time = PDateTime (DateTime (Date 2024 6 2) (Time 14 0 0)),
       end_time = PNone,
       location = PStr ''A3'', mode = PStr ''in-person''\<rparr>] \<and>
   (1::nat) < length [\<lparr>room_id = 1, name = PStr ''Lab'', description = PNone, capacity = PInt 4,
       creator_id = PInt 7, date = PDate (Date 2024 6 1),
       start_time = PDateTime (DateTime (Date 2024 6 1) (Time 9 0 0)),
       end_time = PDateTime (DateTime (Date 2024 6 1) (Time 10 30 0)),
       location = PStr ''B1'', mode = PStr ''online''\<rparr>, \<lparr>room_id = 2, name = PStr ''Hall'', description = PStr ''quiet'', capacity = PInt 20,
       creator_id = PInt 9, date = PDate (Date 2024 6 2),
       start_time = PDateTime (DateTime (Date 2024 6 2) (Time 14 0 0)),
       end_time = PNone,
       location = PStr ''A3'', mode = PStr ''in-person''\<rparr>] \<and>
   room_data \<lparr>rows = [\<lparr>room_id = 1, name = PStr ''Lab'', description = PNone, capacity = PInt 4,
       creator_id = PInt 7, date = PDate (Date 2024 6 1),
       start_time = PDateTime (DateTime (Date 2024 6 1) (Time 9 0 0)),
       end_time = PDateTime (DateTime (Date 2024 6 1) (Time 10 30 0)),
       location = PStr ''B1'', mode = PStr ''online''\<rparr>, \<lparr>room_id = 2, name = PStr ''Hall'', description = PStr ''quiet'', capacity = PInt 20,
       creator_id = PInt 9, date = PDate (Date 2024 6 2),
       start_time = PDateTime (DateTime (Date 2024 6 2) (Time 14 0 0)),
       end_time = PNone,
       location = PStr ''A3'', mode = PStr ''in-person''\<rparr>], next_id = 3,
      creator_rel = (\<lambda>r. if creator_id r = PInt 7 then Attr (Some \<lparr>user_id = 7, username = ''ann'', email = ''ann@example.org''\<rparr>) else Attr None),
      query_fault = None, commit_fault = None\<rparr> ([\<lparr>room_id = 1, name = PStr ''Lab'', description = PNone, capacity = PInt 4,
       creator_id = PInt 7, date = PDate (Date 2024 6 1),
       start_time = PDateTime (DateTime (Date 2024 6 1) (Time 9 0 0)),
       end_time = PDateTime (DateTime (Date 2024 6 1) (Time 10 30 0)),
       location = PStr ''B1'', mode = PStr ''online''\<rparr>, \<lparr>room_id = 2, name = PStr ''Hall'', description = PStr ''quiet'', capacity = PInt 20,
       creator_id = PInt 9, date = PDate (Date 2024 6 2),
       start_time = PDateTime (DateTime (Date 2024 6 2) (Time 14 0 0)),
       end_time = PNone,
       location = PStr ''A3'', mode = PStr ''in-person''\<rparr>] ! 1) = Inr (room_entry \<lparr>rows = [\<lparr>room_id = 1, name = PStr ''Lab'', description = PNone, capacity = PInt 4,
       creator_id = PInt 7, date = PDate (Date 2024 6 1),
       start_time = PDateTime (DateTime (Date 2024 6 1) (Time 9 0 0)),
       end_time = PDateTime (DateTime (Date 2024 6 1) (Time 10 30 0)),
       location = PStr ''B1'', mode = PStr ''online''\<rparr>, \<lparr>room_id = 2, name = PStr ''Hall'', description = PStr ''quiet'', capacity = PInt 20,
       creator_id = PInt 9, date = PDate (Date 2024 6 2),
       start_time = PDateTime (DateTime (Date 2024 6 2) (Time 14 0 0)),
       end_time = PNone,
       location = PStr ''A3'', mode = PStr ''in-person''\<rparr>], next_id = 3,
      creator_rel = (\<lambda>r. if creator_id r = PInt 7 then Attr (Some \<lparr>user_id = 7, username = ''ann'', email = ''ann@example.org''\<rparr>) else Attr None),
      query_fault = None, commit_fault = None\<rparr> \<lparr>room_id = 2, name = PStr ''Hall'', description = PStr ''quiet'', capacity = PInt 20,
       creator_id = PInt 9, date = PDate (Date 2024 6 2),
       start_time = PDateTime (DateTime (Date 2024 6 2) (Time 14 0 0)),
       end_time = PNone,
       location = PStr ''A3'', mode = PStr ''in-person''\<rparr>) \<and>
   fst (get_all_study_rooms \<lparr>rows = [\<lparr>room_id = 1, name = PStr ''Lab'', description = PNone, capacity = PInt 4,
       creator_id = PInt 7, date = PDate (Date 2024 6 1),
       start_time = PDateTime (DateTime (Date 2024 6 1) (Time 9 0 0)),
       end_time = PDateTime (DateTime (Date 2024 6 1) (Time 10 30 0)),
       location = PStr ''B1'', mode = PStr ''online''\<rparr>, \<lparr>room_id = 2, name = PStr ''Hall'', description = PStr ''quiet'', capacity = PInt 20,
       creator_id = PInt 9, date = PDate (Date 2024 6 2),
       start_time = PDateTime (DateTime (Date 2024 6 2) (Time 14 0 0)),
       end_time = PNone,
       location = PStr ''A3'', mode = PStr ''in-person''\<rparr>], next_id = 3,
      creator_rel = (\<lambda>r. if creator_id r = PInt 7 then Attr (Some \<lparr>user_id = 7, username = ''ann'', email = ''ann@example.org''\<rparr>) else Attr None),
      query_fault = None, commit_fault = None\<rparr>) \<noteq> BList [] \<and>
   snd (get_study_room \<lparr>rows = [\<lparr>room_id = 1, name = PStr ''Lab'', description = PNone, capacity = PInt 4,
       creator_id = PInt 7, date = PDate (Date 2024 6 1),
       start_time = PDateTime (DateTime (Date 2024 6 1) (Time 9 0 0)),
       end_time = PDateTime (DateTime (Date 2024 6 1) (Time 10 30 0)),
       location = PStr ''B1'', mode = PStr ''online''\<rparr>, \<lparr>room_id = 2, name = PStr ''Hall'', description = PStr ''quiet'', capacity = PInt 20,
       creator_id = PInt 9, date = PDate (Date 2024 6 2),
       start_time = PDateTime (DateTime (Date 2024 6 2) (Time 14 0 0)),
       end_time = PNone,
       location = PStr ''A3'', mode = PStr ''in-person''\<rparr>], next_id = 3,
      creator_rel = (\<lambda>r. if creator_id r = PInt 7 then Attr (Some \<lparr>user_id = 7, username = ''ann'', email = ''ann@example.org''\<rparr>) else Attr None),
      query_fault = None, commit_fault = None\<rparr> 1) = 200 \<and>
   body_get (fst (get_study_room \<lparr>rows = [\<lparr>room_id = 1, name = PStr ''Lab'', description = PNone, capacity = PInt 4,
       creator_id = PInt 7, date = PDate (Date 2024 6 1),
       start_time = PDateTime (DateTime (Date 2024 6 1) (Time 9 0 0)),
       end_time = PDateTime (DateTime (Date 2024 6 1) (Time 10 30 0)),
       location = PStr ''B1'', mode = PStr ''online''\<rparr>, \<lparr>room_id = 2, name = PStr ''Hall'', description = PStr ''quiet'', capacity = PInt 20,
       creator_id = PInt 9, date = PDate (Date 2024 6 2),
       start_time = PDateTime (DateTime (Date 2024 6 2) (Time 14 0 0)),
       end_time = PNone,
       location = PStr ''A3'', mode = PStr ''in-person''\<rparr>], next_id = 3,
      creator_rel = (\<lambda>r. if creator_id r = PInt 7 then Attr (Some \<lparr>user_id = 7, username = ''ann'', email = ''ann@example.org''\<rparr>) else Attr None),
      query_fault = None, commit_fault = None\<rparr> 1)) ''host'' = Some (BStr ''ann'') \<and>
   (\<exists>bs. get_all_study_rooms \<lparr>rows = [\<lparr>room_id = 1, name = PStr ''Lab'', description = PNone, capacity = PInt 4,
       creator_id = PInt 7, date = PDate (Date 2024 6 1),
       start_time = PDateTime (DateTime (Date 2024 6 1) (Time 9 0 0)),
       end_time = PDateTime (DateTime (Date 2024 6 1) (Time 10 30 0)),
       location = PStr ''B1'', mode = PStr ''online''\<rparr>, \<lparr>room_id = 2, name = PStr ''Hall'', description = PStr ''quiet'', capacity = PInt 20,
       creator_id = PInt 9, date = PDate (Date 2024 6 2),
       start_time = PDateTime (DateTime (Date 2024 6 2) (Time 14 0 0)),
       end_time = PNone,
       location = PStr ''A3'', mode = PStr ''in-person''\<rparr>], next_id = 3,
      creator_rel = (\<lambda>r. if creator_id r = PInt 7 then Attr (Some \<lparr>user_id = 7, username = ''ann'', email = ''ann@example.org''\<rparr>) else Attr None),
      query_fault = None, commit_fault = None\<rparr> = (BList bs, 200) \<and> length bs = 2 \<and> bs ! 1 = room_entry \<lparr>rows = [\<lparr>room_id = 1, name = PStr ''Lab'', description = PNone, capacity = PInt 4,
       creator_id = PInt 7, date = PDate (Date 2024 6 1),
       start_time = PDateTime (DateTime (Date 2024 6 1) (Time 9 0 0)),
       end_time = PDateTime (DateTime (Date 2024 6 1) (Time 10 30 0)),
       location = PStr ''B1'', mode = PStr ''online''\<rparr>, \<lparr>room_id = 2, name = PStr ''Hall'', description = PStr ''quiet'', capacity = PInt 20,
       creator_id = PInt 9, date = PDate (Date 2024 6 2),
       start_time = PDateTime (DateTime (Date 2024 6 2) (Time 14 0 0)),
       end_time = PNone,
       location = PStr ''A3'', mode = PStr ''in-person''\<rparr>], next_id = 3,
      creator_rel = (\<lambda>r. if creator_id r = PInt 7 then Attr (Some \<lparr>user_id = 7, username = ''ann'', email = ''ann@example.org''\<rparr>) else Attr None),
      query_fault = None, commit_fault = None\<rparr> \<lparr>room_id = 2, name = PStr ''Hall'', description = PStr ''quiet'', capacity = PInt 20,
       creator_id = PInt 9, date = PDate (Date 2024 6 2),
       start_time = PDateTime (DateTime (Date 2024 6 2) (Time 14 0 0)),
       end_time = PNone,
       location = PStr ''A3'', mode = PStr ''in-person''\<rparr>) \<and>
   body_get (room_entry \<lparr>rows = [\<lparr>room_id = 1, name = PStr ''Lab'', description = PNone, capacity = PInt 4,
       creator_id = PInt 7, date = PDate (Date 2024 6 1),
       start_time = PDateTime (DateTime (Date 2024 6 1) (Time 9 0 0)),
       end_time = PDateTime (DateTime (Date 2024 6 1) (Time 10 30 0)),
       location = PStr ''B1'', mode = PStr ''online''\<rparr>, \<lparr>room_id = 2, name = PStr ''Hall'', description = PStr ''quiet'', capacity = PInt 20,
       creator_id = PInt 9, date = PDate (Date 2024 6 2),
       start_time = PDateTime (DateTime (Date 2024 6 2) (Time 14 0 0)),
       end_time = PNone,
       location = PStr ''A3'', mode = PStr ''in-person''\<rparr>], next_id = 3,
      creator_rel = (\<lambda>r. if creator_id r = PInt 7 then Attr (Some \<lparr>user_id = 7, username = ''ann'', email = ''ann@example.org''\<rparr>) else Attr None),
      query_fault = None, commit_fault = None\<rparr> \<lparr>room_id = 2, name = PStr ''Hall'', description = PStr ''quiet'', capacity = PInt 20,
       creator_id = PInt 9, date = PDate (Date 2024 6 2),
       start_time = PDateTime (DateTime (Date 2024 6 2) (Time 14 0 0)),
       end_time = PNone,
       location = PStr ''A3'', mode = PStr ''in-person''\<rparr>) ''host'' = Some (BDict [])"
proof -
  let ?d = "\<lparr>rows = [\<lparr>room_id = 1, name = PStr ''Lab'', description = PNone, capacity = PInt 4,
       creator_id = PInt 7, date = PDate (Date 2024 6 1),
       start_time = PDateTime (DateTime (Date 2024 6 1) (Time 9 0 0)),
       end_time = PDateTime (DateTime (Date 2024 6 1) (Time 10 30 0)),
       location = PStr ''B1'', mode = PStr ''online''\<rparr>, \<lparr>room_id = 2, name = PStr ''Hall'', description = PStr ''quiet'', capacity = PInt 20,
       creator_id = PInt 9, date = PDate (Date 2024 6 2),
       start_time = PDateTime (DateTime (Date 2024 6 2) (Time 14 0 0)),
       end_time = PNone,
       location = PStr ''A3'', mode = PStr ''in-person''\<rparr>], next_id = 3,
      creator_rel = (\<lambda>r. if creator_id r = PInt 7 then Attr (Some \<lparr>user_id = 7, username = ''ann'', email = ''ann@example.org''\<rparr>) else Attr None),
      query_fault = None, commit_fault = None\<rparr>"
  let ?r1 = "\<lparr>room_id = 1, name = PStr ''Lab'', description = PNone, capacity = PInt 4,
       creator_id = PInt 7, date = PDate (Date 2024 6 1),
       start_time = PDateTime (DateTime (Date 2024 6 1) (Time 9 0 0)),
       end_time = PDateTime (DateTime (Date 2024 6 1) (Time 10 30 0)),
       location = PStr ''B1'', mode = PStr ''online''\<rparr>"
  let ?r2 = "\<lparr>room_id = 2, name = PStr ''Hall'', description = PStr ''quiet'', capacity = PInt 20,
       creator_id = PInt 9, date = PDate (Date 2024 6 2),
       start_time = PDateTime (DateTime (Date 2024 6 2) (Time 14 0 0)),
       end_time = PNone,
       location = PStr ''A3'', mode = PStr ''in-person''\<rparr>"
  have h1: "query_get ?d 1 = Inr (Some ?r1)" by code_simp
  have h2: "response_data ?d ?r1 = Inr (fst (get_study_room ?d 1))" by code_simp
  have h3: "query_all ?d = Inr [?r1, ?r2]" by code_simp
  have h4: "(1::nat) < length [?r1, ?r2]" by simp
  have h5: "room_data ?d ([?r1, ?r2] ! 1) = Inr (room_entry ?d ?r2)" by code_simp
  have h6: "fst (get_all_study_rooms ?d) \<noteq> BList []" by code_simp
  have a1: "attached_creator (creator_rel ?d ?r1)
              = Some \<lparr>user_id = 7, username = ''ann'', email = ''ann@example.org''\<rparr>"
    by simp
  have a2: "attached_creator (creator_rel ?d ([?r1, ?r2] ! 1)) = None"
    by simp
  from host_of_fetch_one_and_fetch_all [of ?d 1 ?r1 "fst (get_study_room ?d 1)" "[?r1, ?r2]" 1
      "room_entry ?d ?r2"] h1 h2 h3 h4 h5 h6
  have "get_study_room ?d 1 = (fst (get_study_room ?d 1), 200) \<and>
        body_get (fst (get_study_room ?d 1)) ''host'' = Some (BStr ''ann'') \<and>
        (\<exists>bs. get_all_study_rooms ?d = (BList bs, 200) \<and> length bs = length [?r1, ?r2] \<and>
              bs ! 1 = room_entry ?d ?r2) \<and>
        body_get (room_entry ?d ?r2) ''host'' = Some (BDict [])"
    unfolding a1 a2 by simp
  then have "snd (get_study_room ?d 1) = 200 \<and>
        body_get (fst (get_study_room ?d 1)) ''host'' = Some (BStr ''ann'') \<and>
        (\<exists>bs. get_all_study_rooms ?d = (BList bs, 200) \<and> length bs = 2 \<and>
              bs ! 1 = room_entry ?d ?r2) \<and>
        body_get (room_entry ?d ?r2) ''host'' = Some (BDict [])"
    by (metis snd_conv length_Cons list.size(3) One_nat_def Suc_1)
  with h1 h2 h3 h4 h5 h6 show ?thesis by blast
qed

subsection \<open>The read paths never answer 5xx\<close>

lemma find_None_rows: "(find (\<lambda>r. room_id r = i) rs = None) = (\<forall>r \<in> set rs. room_id r \<noteq> i)"
  by (auto simp: find_None_iff)

lemma jsonify_cases:
  "jsonify b = Inr b \<or> (\<exists>e. jsonify b = Inl e)"
  by (simp add: jsonify_def split: option.splits)

lemma jsonify_Inr_iff:
  "(\<exists>b'. jsonify b = Inr b') = (\<forall>v \<in> set (leaves b). serialisable v)"
proof
  assume "\<exists>b'. jsonify b = Inr b'"
  then have "find (\<lambda>v. \<not> serialisable v) (leaves b) = None"
    by (auto simp: jsonify_def split: option.splits)
  then show "\<forall>v \<in> set (leaves b). serialisable v"
    by (simp add: find_None_iff)
next
  assume "\<forall>v \<in> set (leaves b). serialisable v"
  then show "\<exists>b'. jsonify b = Inr b'"
    by (simp add: jsonify_ok)
qed

lemma get_all_study_rooms_cases:
  "get_all_study_rooms d =
     (case query_all d of
        Inl e \<Rightarrow> (BList [], 200)
      | Inr rooms \<Rightarrow>
          (if \<forall>v \<in> set (leaves (BList (map (room_entry d) rooms))). serialisable v
           then (BList (map (room_entry d) rooms), 200)
           else (BList [], 200)))"
proof (cases "query_all d")
  case (Inl e)
  then show ?thesis by (simp add: get_all_study_rooms_def)
next
  case (Inr rooms)
  show ?thesis
  proof (cases "\<forall>v \<in> set (leaves (BList (map (room_entry d) rooms))). serialisable v")
    case True
    from jsonify_ok [OF True] Inr True show ?thesis
      by (simp add: get_all_study_rooms_def)
  next
    case False
    with jsonify_Inr_iff [of "BList (map (room_entry d) rooms)"]
    have "\<not> (\<exists>b'. jsonify (BList (map (room_entry d) rooms)) = Inr b')" by simp
    then obtain e where "jsonify (BList (map (room_entry d) rooms)) = Inl e"
      by (cases "jsonify (BList (map (room_entry d) rooms))") auto
    with Inr have g: "get_all_study_rooms d = (BList [], 200)"
      by (simp add: get_all_study_rooms_def)
    show ?thesis
      unfolding g Inr using False by auto
  qed
qed

text \<open>
  Claim C1. Fetch-one answers 200 or 404 and fetch-all answers 200, never a status from
  500 on. Fetch-one answers 404 with the message "Room not found" exactly when the
  lookup finds no record with the identifier: on a store whose query does not fail,
  exactly when no row has it. A failure is turned into a 200 response with placeholder
  data and the field \<open>error\<close>: in fetch-one when the lookup raises (placeholder
  "Error Room") and when the serialisation of the record raises (placeholder "Room"),
  and otherwise the response is the serialised record. In fetch-all the response is the
  list of the entries of all records, in order, when the query returns and the list can
  be written as JSON, and the empty list otherwise; the entry of a record is its
  dictionary, or, when building that raises, a placeholder entry with the field
  \<open>error\<close>.
\<close>

theorem read_paths_never_5xx:
  "snd (get_study_room d i) \<in> {200, 404}
   \<and> (get_study_room d i = not_found \<longleftrightarrow> query_get d i = Inr None)
   \<and> (snd (get_study_room d i) = 404 \<longleftrightarrow> query_get d i = Inr None)
   \<and> (query_fault d = None \<longrightarrow>
        (snd (get_study_room d i) = 404 \<longleftrightarrow> (\<forall>r \<in> set (rows d). room_id r \<noteq> i)))
   \<and> (\<forall>e. query_get d i = Inl e \<longrightarrow>
          get_study_room d i = (placeholder_room ''Error Room '' i e, 200))
   \<and> (\<forall>room e. query_get d i = Inr (Some room) \<longrightarrow> response_data d room = Inl e \<longrightarrow>
          get_study_room d i = (placeholder_room ''Room '' i e, 200))
   \<and> (\<forall>room b. query_get d i = Inr (Some room) \<longrightarrow> response_data d room = Inr b \<longrightarrow>
          get_study_room d i = (b, 200))
   \<and> (\<forall>p e. body_get (placeholder_room p i e) ''error'' = Some (BStr (''Error: '' @ exn_str e)))
   \<and> snd (get_all_study_rooms d) = 200
   \<and> (\<forall>rooms. query_all d = Inr rooms \<longrightarrow>
          get_all_study_rooms d =
            (if \<forall>v \<in> set (leaves (BList (map (room_entry d) rooms))). serialisable v
             then (BList (map (room_entry d) rooms), 200)
             else (BList [], 200)))
   \<and> (\<forall>e. query_all d = Inl e \<longrightarrow> get_all_study_rooms d = (BList [], 200))
   \<and> (\<forall>room b. room_data d room = Inr b \<longrightarrow> room_entry d room = b)
   \<and> (\<forall>room e. room_data d room = Inl e \<longrightarrow>
          room_entry d room = placeholder_entry room e \<and>
          body_get (placeholder_entry room e) ''error'' = Some (BStr (''Error: '' @ exn_str e)))"
proof -
  have s1: "snd (get_study_room d i) \<in> {200, 404}"
    by (simp add: get_study_room_def not_found_def split: sum.splits option.splits)
  have s2: "get_study_room d i = not_found \<longleftrightarrow> query_get d i = Inr None"
    by (simp add: get_study_room_def not_found_def split: sum.splits option.splits)
  have s3: "snd (get_study_room d i) = 404 \<longleftrightarrow> query_get d i = Inr None"
    by (simp add: get_study_room_def not_found_def split: sum.splits option.splits)
  have s4: "query_fault d = None \<longrightarrow>
        (snd (get_study_room d i) = 404 \<longleftrightarrow> (\<forall>r \<in> set (rows d). room_id r \<noteq> i))"
    unfolding s3 find_None_rows [symmetric]
    by (simp add: query_get_def split: option.splits)
  have s5: "\<forall>e. query_get d i = Inl e \<longrightarrow>
          get_study_room d i = (placeholder_room ''Error Room '' i e, 200)"
    by (simp add: get_study_room_def)
  have s6: "\<forall>room e. query_get d i = Inr (Some room) \<longrightarrow> response_data d room = Inl e \<longrightarrow>
          get_study_room d i = (placeholder_room ''Room '' i e, 200)"
    by (simp add: get_study_room_def)
  have s6': "\<forall>room b. query_get d i = Inr (Some room) \<longrightarrow> response_data d room = Inr b \<longrightarrow>
          get_study_room d i = (b, 200)"
    by (simp add: get_study_room_def)
  have s7: "\<forall>p e. body_get (placeholder_room p i e) ''error'' = Some (BStr (''Error: '' @ exn_str e))"
    by (simp add: placeholder_room_def)
  have s8: "snd (get_all_study_rooms d) = 200"
    by (simp add: get_all_study_rooms_def split: sum.splits)
  have s9: "\<forall>rooms. query_all d = Inr rooms \<longrightarrow>
          get_all_study_rooms d =
            (if \<forall>v \<in> set (leaves (BList (map (room_entry d) rooms))). serialisable v
             then (BList (map (room_entry d) rooms), 200)
             else (BList [], 200))"
    by (simp add: get_all_study_rooms_cases)
  have s10: "\<forall>e. query_all d = Inl e \<longrightarrow> get_all_study_rooms d = (BList [], 200)"
    by (simp add: get_all_study_rooms_def)
  have s11: "\<forall>room b. room_data d room = Inr b \<longrightarrow> room_entry d room = b"
    by (simp add: room_entry_def)
  have s12: "\<forall>room e. room_data d room = Inl e \<longrightarrow>
          room_entry d room = placeholder_entry room e \<and>
          body_get (placeholder_entry room e) ''error'' = Some (BStr (''Error: '' @ exn_str e))"
    by (simp add: room_entry_def placeholder_entry_def)
  from s1 s2 s3 s4 s5 s6 s6' s7 s8 s9 s10 s11 s12 show ?thesis
    by blast
qed

theorem read_paths_never_5xx_witness:
  "query_get \<lparr>rows = [\<lparr>room_id = 1, name = PStr ''Lab'', description = PNone,
       capacity = PInt 4, creator_id = PInt 7, date = PDate (Date 2024 6 1),
       start_time = PDateTime (DateTime (Date 2024 6 1) (Time 9 0 0)),
       end_time = PDateTime (DateTime (Date 2024 6 1) (Time 10 30 0)),
       location = PStr ''B1'', mode = PStr ''online''\<rparr>,
      \<lparr>room_id = 2, name = PStr ''Hall'', description = PStr ''quiet'',
       capacity = PInt 20, creator_id = PInt 9, date = PDate (Date 2024 6 2),
       start_time = PDateTime (DateTime (Date 2024 6 2) (Time 14 0 0)),
       end_time = PNone,
       location = PStr ''A3'', mode = PStr ''in-person''\<rparr>], next_id = 3,
      creator_rel = (\<lambda>r. if room_id r = 2 then AttrRaises (StorageError ''connection lost'') else NoAttr),
      query_fault = None, commit_fault = None\<rparr> 2 = Inr (Some \<lparr>room_id = 2, name = PStr ''Hall'', description = PStr ''quiet'',
       capacity = PInt 20, creator_id = PInt 9, date = PDate (Date 2024 6 2),
       start_time = PDateTime (DateTime (Date 2024 6 2) (Time 14 0 0)),
       end_time = PNone,
       location = PStr ''A3'', mode = PStr ''in-person''\<rparr>) \<and>
   response_data \<lparr>rows = [\<lparr>room_id = 1, name = PStr ''Lab'', description = PNone,
       capacity = PInt 4, creator_id = PInt 7, date = PDate (Date 2024 6 1),
       start_time = PDateTime (DateTime (Date 2024 6 1) (Time 9 0 0)),
       end_time = PDateTime (DateTime (Date 2024 6 1) (Time 10 30 0)),
       location = PStr ''B1'', mode = PStr ''online''\<rparr>,
      \<lparr>room_id = 2, name = PStr ''Hall'', description = PStr ''quiet'',
       capacity = PInt 20, creator_id = PInt 9, date = PDate (Date 2024 6 2),
       start_time = PDateTime (DateTime (Date 2024 6 2) (Time 14 0 0)),
       end_time = PNone,
       location = PStr ''A3'', mode = PStr ''in-person''\<rparr>], next_id = 3,
      creator_rel = (\<lambda>r. if room_id r = 2 then AttrRaises (StorageError ''connection lost'') else NoAttr),
      query_fault = None, commit_fault = None\<rparr> \<lparr>room_id = 2, name = PStr ''Hall'', description = PStr ''quiet'',
       capacity = PInt 20, creator_id = PInt 9, date = PDate (Date 2024 6 2),
       start_time = PDateTime (DateTime (Date 2024 6 2) (Time 14 0 0)),
       end_time = PNone,
       location = PStr ''A3'', mode = PStr ''in-person''\<rparr> = Inl (StorageError ''connection lost'') \<and>
   get_study_room \<lparr>rows = [\<lparr>room_id = 1, name = PStr ''Lab'', description = PNone,
       capacity = PInt 4, creator_id = PInt 7, date = PDate (Date 2024 6 1),
       start_time = PDateTime (DateTime (Date 2024 6 1) (Time 9 0 0)),
       end_time = PDateTime (DateTime (Date 2024 6 1) (Time 10 30 0)),
       location = PStr ''B1'', mode = PStr ''online''\<rparr>,
      \<lparr>room_id = 2, name = PStr ''Hall'', description = PStr ''quiet'',
       capacity = PInt 20, creator_id = PInt 9, date = PDate (Date 2024 6 2),
       start_time = PDateTime (DateTime (Date 2024 6 2) (Time 14 0 0)),
       end_time = PNone,
       location = PStr ''A3'', mode = PStr ''in-person''\<rparr>], next_id = 3,
      creator_rel = (\<lambda>r. if room_id r = 2 then AttrRaises (StorageError ''connection lost'') else NoAttr),
      query_fault = None, commit_fault = None\<rparr> 2 = (placeholder_room ''Room '' 2 (StorageError ''connection lost''), 200) \<and>
   body_get (fst (get_study_room \<lparr>rows = [\<lparr>room_id = 1, name = PStr ''Lab'', description = PNone,
       capacity = PInt 4, creator_id = PInt 7, date = PDate (Date 2024 6 1),
       start_time = PDateTime (DateTime (Date 2024 6 1) (Time 9 0 0)),
       end_time = PDateTime (DateTime (Date 2024 6 1) (Time 10 30 0)),
       location = PStr ''B1'', mode = PStr ''online''\<rparr>,
      \<lparr>room_id = 2, name = PStr ''Hall'', description = PStr ''quiet'',
       capacity = PInt 20, creator_id = PInt 9, date = PDate (Date 2024 6 2),
       start_time = PDateTime (DateTime (Date 2024 6 2) (Time 14 0 0)),
       end_time = PNone,
       location = PStr ''A3'', mode = PStr ''in-person''\<rparr>], next_id = 3,
      creator_rel = (\<lambda>r. if room_id r = 2 then AttrRaises (StorageError ''connection lost'') else NoAttr),
      query_fault = None, commit_fault = None\<rparr> 2)) ''error'' = Some (BStr ''Error: connection lost'') \<and>
   get_study_room \<lparr>rows = [\<lparr>room_id = 1, name = PStr ''Lab'', description = PNone,
       capacity = PInt 4, creator_id = PInt 7, date = PDate (Date 2024 6 1),
       start_time = PDateTime (DateTime (Date 2024 6 1) (Time 9 0 0)),
       end_time = PDateTime (DateTime (Date 2024 6 1) (Time 10 30 0)),
       location = PStr ''B1'', mode = PStr ''online''\<rparr>,
      \<lparr>room_id = 2, name = PStr ''Hall'', description = PStr ''quiet'',
       capacity = PInt 20, creator_id = PInt 9, date = PDate (Date 2024 6 2),
       start_time = PDateTime (DateTime (Date 2024 6 2) (Time 14 0 0)),
       end_time = PNone,
       location = PStr ''A3'', mode = PStr ''in-person''\<rparr>], next_id = 3,
      creator_rel = (\<lambda>r. if room_id r = 2 then AttrRaises (StorageError ''connection lost'') else NoAttr),
      query_fault = None, commit_fault = None\<rparr> 9 = not_found \<and>
   query_all \<lparr>rows = [\<lparr>room_id = 1, name = PStr ''Lab'', description = PNone,
       capacity = PInt 4, creator_id = PInt 7, date = PDate (Date 2024 6 1),
       start_time = PDateTime (DateTime (Date 2024 6 1) (Time 9 0 0)),
       end_time = PDateTime (DateTime (Date 2024 6 1) (Time 10 30 0)),
       location = PStr ''B1'', mode = PStr ''online''\<rparr>,
      \<lparr>room_id = 2, name = PStr ''Hall'', description = PStr ''quiet'',
       capacity = PInt 20, creator_id = PInt 9, date = PDate (Date 2024 6 2),
       start_time = PDateTime (DateTime (Date 2024 6 2) (Time 14 0 0)),
       end_time = PNone,
       location = PStr ''A3'', mode = PStr ''in-person''\<rparr>], next_id = 3,
      creator_rel = (\<lambda>r. if room_id r = 2 then AttrRaises (StorageError ''connection lost'') else NoAttr),
      query_fault = None, commit_fault = None\<rparr> = Inr [\<lparr>room_id = 1, name = PStr ''Lab'', description = PNone,
       capacity = PInt 4, creator_id = PInt 7, date = PDate (Date 2024 6 1),
       start_time = PDateTime (DateTime (Date 2024 6 1) (Time 9 0 0)),
       end_time = PDateTime (DateTime (Date 2024 6 1) (Time 10 30 0)),
       location = PStr ''B1'', mode = PStr ''online''\<rparr>, \<lparr>room_id = 2, name = PStr ''Hall'', description = PStr ''quiet'',
       capacity = PInt 20, creator_id = PInt 9, date = PDate (Date 2024 6 2),
       start_time = PDateTime (DateTime (Date 2024 6 2) (Time 14 0 0)),
       end_time = PNone,
       location = PStr ''A3'', mode = PStr ''in-person''\<rparr>] \<and>
   room_data \<lparr>rows = [\<lparr>room_id = 1, name = PStr ''Lab'', description = PNone,
       capacity = PInt 4, creator_id = PInt 7, date = PDate (Date 2024 6 1),
       start_time = PDateTime (DateTime (Date 2024 6 1) (Time 9 0 0)),
       end_time = PDateTime (DateTime (Date 2024 6 1) (Time 10 30 0)),
       location = PStr ''B1'', mode = PStr ''online''\<rparr>,
      \<lparr>room_id = 2, name = PStr ''Hall'', description = PStr ''quiet'',
       capacity = PInt 20, creator_id = PInt 9, date = PDate (Date 2024 6 2),
       start_time = PDateTime (DateTime (Date 2024 6 2) (Time 14 0 0)),
       end_time = PNone,
       location = PStr ''A3'', mode = PStr ''in-person''\<rparr>], next_id = 3,
      creator_rel = (\<lambda>r. if room_id r = 2 then AttrRaises (StorageError ''connection lost'') else NoAttr),
      query_fault = None, commit_fault = None\<rparr> \<lparr>room_id = 2, name = PStr ''Hall'', description = PStr ''quiet'',
       capacity = PInt 20, creator_id = PInt 9, date = PDate (Date 2024 6 2),
       start_time = PDateTime (DateTime (Date 2024 6 2) (Time 14 0 0)),
       end_time = PNone,
       location = PStr ''A3'', mode = PStr ''in-person''\<rparr> = Inl (StorageError ''connection lost'') \<and>
   get_all_study_rooms \<lparr>rows = [\<lparr>room_id = 1, name = PStr ''Lab'', description = PNone,
       capacity = PInt 4, creator_id = PInt 7, date = PDate (Date 2024 6 1),
       start_time = PDateTime (DateTime (Date 2024 6 1) (Time 9 0 0)),
       end_time = PDateTime (DateTime (Date 2024 6 1) (Time 10 30 0)),
       location = PStr ''B1'', mode = PStr ''online''\<rparr>,
      \<lparr>room_id = 2, name = PStr ''Hall'', description = PStr ''quiet'',
       capacity = PInt 20, creator_id = PInt 9, date = PDate (Date 2024 6 2),
       start_time = PDateTime (DateTime (Date 2024 6 2) (Time 14 0 0)),
       end_time = PNone,
       location = PStr ''A3'', mode = PStr ''in-person''\<rparr>], next_id = 3,
      creator_rel = (\<lambda>r. if room_id r = 2 then AttrRaises (StorageError ''connection lost'') else NoAttr),
      query_fault = None, commit_fault = None\<rparr> = (BList [room_entry \<lparr>rows = [\<lparr>room_id = 1, name = PStr ''Lab'', description = PNone,
       capacity = PInt 4, creator_id = PInt 7, date = PDate (Date 2024 6 1),
       start_time = PDateTime (DateTime (Date 2024 6 1) (Time 9 0 0)),
       end_time = PDateTime (DateTime (Date 2024 6 1) (Time 10 30 0)),
       location = PStr ''B1'', mode = PStr ''online''\<rparr>,
      \<lparr>room_id = 2, name = PStr ''Hall'', description = PStr ''quiet'',
       capacity = PInt 20, creator_id = PInt 9, date = PDate (Date 2024 6 2),
       start_time = PDateTime (DateTime (Date 2024 6 2) (Time 14 0 0)),
       end_time = PNone,
       location = PStr ''A3'', mode = PStr ''in-person''\<rparr>], next_id = 3,
      creator_rel = (\<lambda>r. if room_id r = 2 then AttrRaises (StorageError ''connection lost'') else NoAttr),
      query_fault = None, commit_fault = None\<rparr> \<lparr>room_id = 1, name = PStr ''Lab'', description = PNone,
       capacity = PInt 4, creator_id = PInt 7, date = PDate (Date 2024 6 1),
       start_time = PDateTime (DateTime (Date 2024 6 1) (Time 9 0 0)),
       end_time = PDateTime (DateTime (Date 2024 6 1) (Time 10 30 0)),
       location = PStr ''B1'', mode = PStr ''online''\<rparr>, placeholder_entry \<lparr>room_id = 2, name = PStr ''Hall'', description = PStr ''quiet'',
       capacity = PInt 20, creator_id = PInt 9, date = PDate (Date 2024 6 2),
       start_time = PDateTime (DateTime (Date 2024 6 2) (Time 14 0 0)),
       end_time = PNone,
       location = PStr ''A3'', mode = PStr ''in-person''\<rparr> (StorageError ''connection lost'')], 200) \<and>
   body_get (placeholder_entry \<lparr>room_id = 2, name = PStr ''Hall'', description = PStr ''quiet'',
       capacity = PInt 20, creator_id = PInt 9, date = PDate (Date 2024 6 2),
       start_time = PDateTime (DateTime (Date 2024 6 2) (Time 14 0 0)),
       end_time = PNone,
       location = PStr ''A3'', mode = PStr ''in-person''\<rparr> (StorageError ''connection lost'')) ''error'' = Some (BStr ''Error: connection lost'') \<and>
   body_get (room_entry \<lparr>rows = [\<lparr>room_id = 1, name = PStr ''Lab'', description = PNone,
       capacity = PInt 4, creator_id = PInt 7, date = PDate (Date 2024 6 1),
       start_time = PDateTime (DateTime (Date 2024 6 1) (Time 9 0 0)),
       end_time = PDateTime (DateTime (Date 2024 6 1) (Time 10 30 0)),
       location = PStr ''B1'', mode = PStr ''online''\<rparr>,
      \<lparr>room_id = 2, name = PStr ''Hall'', description = PStr ''quiet'',
       capacity = PInt 20, creator_id = PInt 9, date = PDate (Date 2024 6 2),
       start_time = PDateTime (DateTime (Date 2024 6 2) (Time 14 0 0)),
       end_time = PNone,
       location = PStr ''A3'', mode = PStr ''in-person''\<rparr>], next_id = 3,
      creator_rel = (\<lambda>r. if room_id r = 2 then AttrRaises (StorageError ''connection lost'') else NoAttr),
      query_fault = None, commit_fault = None\<rparr> \<lparr>room_id = 1, name = PStr ''Lab'', description = PNone,
       capacity = PInt 4, creator_id = PInt 7, date = PDate (Date 2024 6 1),
       start_time = PDateTime (DateTime (Date 2024 6 1) (Time 9 0 0)),
       end_time = PDateTime (DateTime (Date 2024 6 1) (Time 10 30 0)),
       location = PStr ''B1'', mode = PStr ''online''\<rparr>) ''error'' = None \<and>
   query_all \<lparr>rows = [\<lparr>room_id = 1, name = PStr ''Lab'', description = PNone,
       capacity = PInt 4, creator_id = PInt 7, date = PDate (Date 2024 6 1),
       start_time = PDateTime (DateTime (Date 2024 6 1) (Time 9 0 0)),
       end_time = PDateTime (DateTime (Date 2024 6 1) (Time 10 30 0)),
       location = PStr ''B1'', mode = PStr ''online''\<rparr>], next_id = 2, creator_rel = (\<lambda>r. NoAttr),
      query_fault = Some ''database is locked'', commit_fault = None\<rparr> = Inl (StorageError ''database is locked'') \<and>
   get_all_study_rooms \<lparr>rows = [\<lparr>room_id = 1, name = PStr ''Lab'', description = PNone,
       capacity = PInt 4, creator_id = PInt 7, date = PDate (Date 2024 6 1),
       start_time = PDateTime (DateTime (Date 2024 6 1) (Time 9 0 0)),
       end_time = PDateTime (DateTime (Date 2024 6 1) (Time 10 30 0)),
       location = PStr ''B1'', mode = PStr ''online''\<rparr>], next_id = 2, creator_rel = (\<lambda>r. NoAttr),
      query_fault = Some ''database is locked'', commit_fault = None\<rparr> = (BList [], 200) \<and>
   query_get \<lparr>rows = [\<lparr>room_id = 1, name = PStr ''Lab'', description = PNone,
       capacity = PInt 4, creator_id = PInt 7, date = PDate (Date 2024 6 1),
       start_time = PDateTime (DateTime (Date 2024 6 1) (Time 9 0 0)),
       end_time = PDateTime (DateTime (Date 2024 6 1) (Time 10 30 0)),
       location = PStr ''B1'', mode = PStr ''online''\<rparr>], next_id = 2, creator_rel = (\<lambda>r. NoAttr),
      query_fault = Some ''database is locked'', commit_fault = None\<rparr> 1 = Inl (StorageError ''database is locked'') \<and>
   get_study_room \<lparr>rows = [\<lparr>room_id = 1, name = PStr ''Lab'', description = PNone,
       capacity = PInt 4, creator_id = PInt 7, date = PDate (Date 2024 6 1),
       start_time = PDateTime (DateTime (Date 2024 6 1) (Time 9 0 0)),
       end_time = PDateTime (DateTime (Date 2024 6 1) (Time 10 30 0)),
       location = PStr ''B1'', mode = PStr ''online''\<rparr>], next_id = 2, creator_rel = (\<lambda>r. NoAttr),
      query_fault = Some ''database is locked'', commit_fault = None\<rparr> 1 = (placeholder_room ''Error Room '' 1 (StorageError ''database is locked''), 200)"
proof -
  let ?a = "\<lparr>rows = [\<lparr>room_id = 1, name = PStr ''Lab'', description = PNone,
       capacity = PInt 4, creator_id = PInt 7, date = PDate (Date 2024 6 1),
       start_time = PDateTime (DateTime (Date 2024 6 1) (Time 9 0 0)),
       end_time = PDateTime (DateTime (Date 2024 6 1) (Time 10 30 0)),
       location = PStr ''B1'', mode = PStr ''online''\<rparr>,
      \<lparr>room_id = 2, name = PStr ''Hall'', description = PStr ''quiet'',
       capacity = PInt 20, creator_id = PInt 9, date = PDate (Date 2024 6 2),
       start_time = PDateTime (DateTime (Date 2024 6 2) (Time 14 0 0)),
       end_time = PNone,
       location = PStr ''A3'', mode = PStr ''in-person''\<rparr>], next_id = 3,
      creator_rel = (\<lambda>r. if room_id r = 2 then AttrRaises (StorageError ''connection lost'') else NoAttr),
      query_fault = None, commit_fault = None\<rparr>"
  let ?b = "\<lparr>rows = [\<lparr>room_id = 1, name = PStr ''Lab'', description = PNone,
       capacity = PInt 4, creator_id = PInt 7, date = PDate (Date 2024 6 1),
       start_time = PDateTime (DateTime (Date 2024 6 1) (Time 9 0 0)),
       end_time = PDateTime (DateTime (Date 2024 6 1) (Time 10 30 0)),
       location = PStr ''B1'', mode = PStr ''online''\<rparr>], next_id = 2, creator_rel = (\<lambda>r. NoAttr),
      query_fault = Some ''database is locked'', commit_fault = None\<rparr>"
  let ?r1 = "\<lparr>room_id = 1, name = PStr ''Lab'', description = PNone,
       capacity = PInt 4, creator_id = PInt 7, date = PDate (Date 2024 6 1),
       start_time = PDateTime (DateTime (Date 2024 6 1) (Time 9 0 0)),
       end_time = PDateTime (DateTime (Date 2024 6 1) (Time 10 30 0)),
       location = PStr ''B1'', mode = PStr ''online''\<rparr>"
  let ?r2 = "\<lparr>room_id = 2, name = PStr ''Hall'', description = PStr ''quiet'',
       capacity = PInt 20, creator_id = PInt 9, date = PDate (Date 2024 6 2),
       start_time = PDateTime (DateTime (Date 2024 6 2) (Time 14 0 0)),
       end_time = PNone,
       location = PStr ''A3'', mode = PStr ''in-person''\<rparr>"
  let ?e = "StorageError ''connection lost''"
  let ?f = "StorageError ''database is locked''"
  have h1: "query_get ?a 2 = Inr (Some ?r2)" by code_simp
  have h2: "response_data ?a ?r2 = Inl ?e" by code_simp
  have h3: "query_get ?a 9 = Inr None" by code_simp
  have h4: "query_all ?a = Inr [?r1, ?r2]" by code_simp
  have h5: "room_data ?a ?r2 = Inl ?e" by code_simp
  have h6: "\<forall>v \<in> set (leaves (BList (map (room_entry ?a) [?r1, ?r2]))). serialisable v"
    by code_simp
  have h7: "body_get (room_entry ?a ?r1) ''error'' = None" by code_simp
  have h8: "query_all ?b = Inl ?f" by code_simp
  have h9: "query_get ?b 1 = Inl ?f" by code_simp
  have a: "get_study_room ?a 2 = (placeholder_room ''Room '' 2 ?e, 200)"
    using read_paths_never_5xx [of ?a 2] h1 h2 by blast
  have b: "body_get (placeholder_room ''Room '' 2 ?e) ''error'' = Some (BStr (''Error: '' @ exn_str ?e))"
    using read_paths_never_5xx [of ?a 2] by blast
  from b have b': "body_get (fst (get_study_room ?a 2)) ''error'' = Some (BStr ''Error: connection lost'')"
    unfolding a by simp
  have c: "get_study_room ?a 9 = not_found"
    using read_paths_never_5xx [of ?a 9] h3 by blast
  have e: "room_entry ?a ?r2 = placeholder_entry ?r2 ?e"
    and e': "body_get (placeholder_entry ?r2 ?e) ''error'' = Some (BStr (''Error: '' @ exn_str ?e))"
    using read_paths_never_5xx [of ?a 2] h5 by blast+
  have "get_all_study_rooms ?a = (BList (map (room_entry ?a) [?r1, ?r2]), 200)"
    using read_paths_never_5xx [of ?a 2] h4 h6 by presburger
  then have g: "get_all_study_rooms ?a = (BList [room_entry ?a ?r1, placeholder_entry ?r2 ?e], 200)"
    using e by simp
  from e' have e'': "body_get (placeholder_entry ?r2 ?e) ''error'' = Some (BStr ''Error: connection lost'')"
    by simp
  have k: "get_all_study_rooms ?b = (BList [], 200)"
    using read_paths_never_5xx [of ?b 1] h8 by blast
  have l: "get_study_room ?b 1 = (placeholder_room ''Error Room '' 1 ?f, 200)"
    using read_paths_never_5xx [of ?b 1] h9 by blast
  from h1 h2 a b' c h4 h5 g e'' h7 h8 k h9 l show ?thesis by blast
qed

subsection \<open>Stored times that are no timestamps\<close>


lemma placeholder_entry_times:
  "body_get (placeholder_entry room e) ''start_time'' = Some (BStr ''00:00'')"
  "body_get (placeholder_entry room e) ''end_time'' = Some (BStr ''00:00'')"
  by (simp_all add: placeholder_entry_def)


lemma room_entry_null_times:
  "start_time room = PNone \<Longrightarrow> body_get (room_entry d room) ''start_time'' = Some (BStr ''00:00'')"
  "end_time room = PNone \<Longrightarrow> body_get (room_entry d room) ''end_time'' = Some (BStr ''00:00'')"
  unfolding room_entry_def room_data_def handler_date_str_cases handler_time_str_cases
  by (cases "creator_data (creator_rel d room)"; simp add: placeholder_entry_times)+




lemma datetime_cell_null: "datetime_cell v \<Longrightarrow> \<forall>dt. v \<noteq> PDateTime dt \<Longrightarrow> v = PNone"
  by (cases v) simp_all


lemma get_all_study_rooms_times:
  assumes j: "j < length (rows d)"
      and bs: "fst (get_all_study_rooms d) = BList bs" "bs \<noteq> []"
  shows "length bs = length (rows d)"
    and "\<forall>dt. start_time (rows d ! j) \<noteq> PDateTime dt \<Longrightarrow>
           body_get (bs ! j) ''start_time'' = Some (BStr ''00:00'')"
    and "\<forall>dt. end_time (rows d ! j) \<noteq> PDateTime dt \<Longrightarrow>
           body_get (bs ! j) ''end_time'' = Some (BStr ''00:00'')"
proof -
  from bs have q: "query_all d = Inr (rows d)" and l: "list_all loads (rows d)"
    and m: "bs = map (room_entry d) (rows d)"
    by (auto simp: get_all_study_rooms_cases query_all_def split: option.splits if_splits)
  from l j have lj: "loads (rows d ! j)"
    by (simp add: list_all_length)
  show "length bs = length (rows d)" using m by simp
  show "\<forall>dt. start_time (rows d ! j) \<noteq> PDateTime dt \<Longrightarrow>
           body_get (bs ! j) ''start_time'' = Some (BStr ''00:00'')"
    using lj j unfolding m
    by (simp add: loads_def datetime_cell_null room_entry_null_times)
  show "\<forall>dt. end_time (rows d ! j) \<noteq> PDateTime dt \<Longrightarrow>
           body_get (bs ! j) ''end_time'' = Some (BStr ''00:00'')"
    using lj j unfolding m
    by (simp add: loads_def datetime_cell_null room_entry_null_times)
qed

lemma query_get_loads: "query_get d i = Inr (Some room) \<Longrightarrow> loads room"
  by (auto simp: query_get_def split: option.splits if_splits)






subsection \<open>Update: the statements one by one\<close>

lemma upd_name_Next:
  assumes "upd_name data r = Next r'"
  shows "\<exists>x. r' = r\<lparr>name := x\<rparr> \<and>
           (\<forall>v. map_of data ''name'' = Some v \<longrightarrow> (\<exists>s. v = PStr s \<and> x = PStr (strip s))) \<and>
           (map_of data ''name'' = None \<longrightarrow> x = name r)"
proof (cases "map_of data ''name''")
  case None
  with assms have "r' = r\<lparr>name := name r\<rparr>" by (simp add: upd_name_def)
  with None show ?thesis by (intro exI [of _ "name r"]) simp
next
  case (Some v)
  with assms show ?thesis
    by (cases v) (auto simp: upd_name_def)
qed

lemma upd_description_Next:
  assumes "upd_description data r = Next r'"
  shows "\<exists>x. r' = r\<lparr>description := x\<rparr> \<and>
           (\<forall>v. map_of data ''description'' = Some v \<longrightarrow> (\<exists>s. v = PStr s \<and> x = PStr (strip s))) \<and>
           (map_of data ''description'' = None \<longrightarrow> x = description r)"
proof (cases "map_of data ''description''")
  case None
  with assms have "r' = r\<lparr>description := description r\<rparr>" by (simp add: upd_description_def)
  with None show ?thesis by (intro exI [of _ "description r"]) simp
next
  case (Some v)
  with assms show ?thesis
    by (cases v) (auto simp: upd_description_def)
qed

lemma upd_location_Next:
  assumes "upd_location data r = Next r'"
  shows "\<exists>x. r' = r\<lparr>location := x\<rparr>"
proof (cases "map_of data ''location''")
  case None
  with assms have "r' = r\<lparr>location := location r\<rparr>" by (simp add: upd_location_def)
  then show ?thesis by blast
next
  case (Some v)
  with assms show ?thesis
    by (cases v) (auto simp: upd_location_def)
qed

lemma upd_mode_Next:
  assumes "upd_mode data r = Next r'"
  shows "\<exists>x. r' = r\<lparr>mode := x\<rparr>"
proof (cases "map_of data ''mode''")
  case None
  with assms have "r' = r\<lparr>mode := mode r\<rparr>" by (simp add: upd_mode_def)
  then show ?thesis by blast
next
  case (Some v)
  with assms show ?thesis
    by (cases v) (auto simp: upd_mode_def)
qed

lemma upd_capacity_Next:
  assumes "upd_capacity data r = Next r'"
  shows "\<exists>x. r' = r\<lparr>capacity := x\<rparr> \<and>
           (\<forall>v. map_of data ''capacity'' = Some v \<longrightarrow> (\<exists>c. py_int v = Inr c \<and> x = PInt c)) \<and>
           (map_of data ''capacity'' = None \<longrightarrow> x = capacity r)"
proof (cases "map_of data ''capacity''")
  case None
  with assms have "r' = r\<lparr>capacity := capacity r\<rparr>" by (simp add: upd_capacity_def)
  with None show ?thesis by (intro exI [of _ "capacity r"]) simp
next
  case (Some v)
  with assms show ?thesis
    by (auto simp: upd_capacity_def split: sum.splits if_splits)
qed

lemma upd_date_Next:
  assumes "upd_date data r = Next r'"
  shows "\<exists>x. r' = r\<lparr>date := x\<rparr> \<and>
           (\<forall>v. map_of data ''date'' = Some v \<longrightarrow>
              (\<exists>s dt. v = PStr s \<and> strptime_date (strip s) = Inr dt \<and> x = PDate dt)) \<and>
           (map_of data ''date'' = None \<longrightarrow> x = date r)"
proof (cases "map_of data ''date''")
  case None
  with assms have "r' = r\<lparr>date := date r\<rparr>" by (simp add: upd_date_def)
  with None show ?thesis by (intro exI [of _ "date r"]) simp
next
  case (Some v)
  with assms show ?thesis
    by (cases v) (auto simp: upd_date_def split: sum.splits if_splits)
qed

lemma upd_start_time_Next:
  assumes "upd_start_time data r = Next r'"
  shows "\<exists>x. r' = r\<lparr>start_time := x\<rparr> \<and>
           (\<forall>v. map_of data ''start_time'' = Some v \<longrightarrow>
              (\<exists>s t dt. v = PStr s \<and> strptime_time (strip s) = Inr t \<and>
                 py_combine (date r) t = Inr dt \<and> x = PDateTime dt)) \<and>
           (map_of data ''start_time'' = None \<longrightarrow> x = start_time r)"
proof (cases "map_of data ''start_time''")
  case None
  with assms have "r' = r\<lparr>start_time := start_time r\<rparr>" by (simp add: upd_start_time_def)
  with None show ?thesis by (intro exI [of _ "start_time r"]) simp
next
  case (Some v)
  with assms show ?thesis
    by (cases v) (auto simp: upd_start_time_def split: sum.splits if_splits)
qed

lemma upd_end_time_Next:
  assumes "upd_end_time data r = Next r'"
  shows "\<exists>x. r' = r\<lparr>end_time := x\<rparr> \<and>
           (\<forall>v. map_of data ''end_time'' = Some v \<longrightarrow>
              (\<exists>s t dt. v = PStr s \<and> strptime_time (strip s) = Inr t \<and>
                 py_combine (date r) t = Inr dt \<and> x = PDateTime dt)) \<and>
           (map_of data ''end_time'' = None \<longrightarrow> x = end_time r)"
proof (cases "map_of data ''end_time''")
  case None
  with assms have "r' = r\<lparr>end_time := end_time r\<rparr>" by (simp add: upd_end_time_def)
  with None show ?thesis by (intro exI [of _ "end_time r"]) simp
next
  case (Some v)
  with assms show ?thesis
    by (cases v) (auto simp: upd_end_time_def split: sum.splits if_splits)
qed

lemma strip_steps_never_respond:
  "upd_name data r \<noteq> Respond resp" "upd_description data r \<noteq> Respond resp"
  "upd_location data r \<noteq> Respond resp" "upd_mode data r \<noteq> Respond resp"
  by (auto simp: upd_name_def upd_description_def upd_location_def upd_mode_def
      split: option.splits sum.splits)

lemma respond_messages:
  "upd_capacity data r = Respond resp \<Longrightarrow> resp = bad_request ''Capacity must be an integer''"
  "upd_date data r = Respond resp \<Longrightarrow> resp = bad_request ''Invalid date format, expected YYYY-MM-DD''"
  "upd_start_time data r = Respond resp \<Longrightarrow>
     resp = bad_request ''Invalid start_time format, expected HH:mm''"
  "upd_end_time data r = Respond resp \<Longrightarrow>
     resp = bad_request ''Invalid end_time format, expected HH:mm''"
  by (auto simp: upd_capacity_def upd_date_def upd_start_time_def upd_end_time_def
      split: option.splits sum.splits if_splits)

lemma run_steps_Cons_Finished:
  assumes "run_steps (f # fs) r = Finished r'"
  shows "\<exists>r1. f r = Next r1 \<and> run_steps fs r1 = Finished r'"
  using assms by (cases "f r") simp_all

lemma run_steps_append:
  assumes "run_steps fs r = Finished r'"
  shows "run_steps (fs @ gs) r = run_steps gs r'"
  using assms
proof (induction fs arbitrary: r)
  case Nil
  then show ?case by simp
next
  case (Cons f fs)
  from run_steps_Cons_Finished [OF Cons.prems] obtain r1
    where "f r = Next r1" "run_steps fs r1 = Finished r'" by blast
  with Cons.IH show ?case by simp
qed

lemma prefix_2:
  assumes "run_steps [upd_name data, upd_description data] room = Finished r"
  shows "(\<forall>v. map_of data ''name'' = Some v \<longrightarrow> (\<exists>s. v = PStr s \<and> name r = PStr (strip s))) \<and>
         (\<forall>v. map_of data ''description'' = Some v \<longrightarrow>
            (\<exists>s. v = PStr s \<and> description r = PStr (strip s)))"
proof -
  from run_steps_Cons_Finished [OF assms] obtain r1 where
    1: "upd_name data room = Next r1" and a: "run_steps [upd_description data] r1 = Finished r"
    by blast
  from run_steps_Cons_Finished [OF a] obtain r2 where
    2: "upd_description data r1 = Next r2" and b: "run_steps [] r2 = Finished r"
    by blast
  from b have r: "r = r2" by simp
  from upd_name_Next [OF 1] upd_description_Next [OF 2] show ?thesis
    unfolding r by auto
qed

lemma prefix_3:
  assumes "run_steps [upd_name data, upd_description data, upd_capacity data] room = Finished r"
  shows "(\<forall>v. map_of data ''name'' = Some v \<longrightarrow> (\<exists>s. v = PStr s \<and> name r = PStr (strip s))) \<and>
         (\<forall>v. map_of data ''description'' = Some v \<longrightarrow>
            (\<exists>s. v = PStr s \<and> description r = PStr (strip s))) \<and>
         (\<forall>v. map_of data ''capacity'' = Some v \<longrightarrow>
            (\<exists>c. py_int v = Inr c \<and> capacity r = PInt c))"
proof -
  from run_steps_Cons_Finished [OF assms] obtain r1 where
    1: "upd_name data room = Next r1"
    and a: "run_steps [upd_description data, upd_capacity data] r1 = Finished r"
    by blast
  from run_steps_Cons_Finished [OF a] obtain r2 where
    2: "upd_description data r1 = Next r2" and b: "run_steps [upd_capacity data] r2 = Finished r"
    by blast
  from run_steps_Cons_Finished [OF b] obtain r3 where
    3: "upd_capacity data r2 = Next r3" and c: "run_steps [] r3 = Finished r"
    by blast
  from c have r: "r = r3" by simp
  from upd_name_Next [OF 1] upd_description_Next [OF 2] upd_capacity_Next [OF 3] show ?thesis
    unfolding r by auto
qed

lemma prefix_4:
  assumes "run_steps [upd_name data, upd_description data, upd_capacity data, upd_date data] room
           = Finished r"
  shows "(\<forall>v. map_of data ''name'' = Some v \<longrightarrow> (\<exists>s. v = PStr s \<and> name r = PStr (strip s))) \<and>
         (\<forall>v. map_of data ''description'' = Some v \<longrightarrow>
            (\<exists>s. v = PStr s \<and> description r = PStr (strip s))) \<and>
         (\<forall>v. map_of data ''capacity'' = Some v \<longrightarrow>
            (\<exists>c. py_int v = Inr c \<and> capacity r = PInt c)) \<and>
         (\<forall>v. map_of data ''date'' = Some v \<longrightarrow>
            (\<exists>s dt. v = PStr s \<and> strptime_date (strip s) = Inr dt \<and> date r = PDate dt))"
proof -
  from run_steps_Cons_Finished [OF assms] obtain r1 where
    1: "upd_name data room = Next r1"
    and a: "run_steps [upd_description data, upd_capacity data, upd_date data] r1 = Finished r"
    by blast
  from run_steps_Cons_Finished [OF a] obtain r2 where
    2: "upd_description data r1 = Next r2"
    and b: "run_steps [upd_capacity data, upd_date data] r2 = Finished r"
    by blast
  from run_steps_Cons_Finished [OF b] obtain r3 where
    3: "upd_capacity data r2 = Next r3" and c: "run_steps [upd_date data] r3 = Finished r"
    by blast
  from run_steps_Cons_Finished [OF c] obtain r4 where
    4: "upd_date data r3 = Next r4" and e: "run_steps [] r4 = Finished r"
    by blast
  from e have r: "r = r4" by simp
  from upd_name_Next [OF 1] upd_description_Next [OF 2] upd_capacity_Next [OF 3]
    upd_date_Next [OF 4] show ?thesis
    unfolding r by auto
qed

lemma prefix_5:
  assumes "run_steps [upd_name data, upd_description data, upd_capacity data, upd_date data,
                      upd_start_time data] room = Finished r"
  shows "(\<forall>v. map_of data ''name'' = Some v \<longrightarrow> (\<exists>s. v = PStr s \<and> name r = PStr (strip s))) \<and>
         (\<forall>v. map_of data ''description'' = Some v \<longrightarrow>
            (\<exists>s. v = PStr s \<and> description r = PStr (strip s))) \<and>
         (\<forall>v. map_of data ''capacity'' = Some v \<longrightarrow>
            (\<exists>c. py_int v = Inr c \<and> capacity r = PInt c)) \<and>
         (\<forall>v. map_of data ''date'' = Some v \<longrightarrow>
            (\<exists>s dt. v = PStr s \<and> strptime_date (strip s) = Inr dt \<and> date r = PDate dt)) \<and>
         (\<forall>v. map_of data ''start_time'' = Some v \<longrightarrow>
            (\<exists>s t dt. v = PStr s \<and> strptime_time (strip s) = Inr t \<and>
               py_combine (date r) t = Inr dt \<and> start_time r = PDateTime dt))"
proof -
  from run_steps_Cons_Finished [OF assms] obtain r1 where
    1: "upd_name data room = Next r1"
    and a: "run_steps [upd_description data, upd_capacity data, upd_date data,
                       upd_start_time data] r1 = Finished r"
    by blast
  from run_steps_Cons_Finished [OF a] obtain r2 where
    2: "upd_description data r1 = Next r2"
    and b: "run_steps [upd_capacity data, upd_date data, upd_start_time data] r2 = Finished r"
    by blast
  from run_steps_Cons_Finished [OF b] obtain r3 where
    3: "upd_capacity data r2 = Next r3"
    and c: "run_steps [upd_date data, upd_start_time data] r3 = Finished r"
    by blast
  from run_steps_Cons_Finished [OF c] obtain r4 where
    4: "upd_date data r3 = Next r4" and e: "run_steps [upd_start_time data] r4 = Finished r"
    by blast
  from run_steps_Cons_Finished [OF e] obtain r5 where
    5: "upd_start_time data r4 = Next r5" and f: "run_steps [] r5 = Finished r"
    by blast
  from f have r: "r = r5" by simp
  from upd_name_Next [OF 1] upd_description_Next [OF 2] upd_capacity_Next [OF 3]
    upd_date_Next [OF 4] upd_start_time_Next [OF 5] show ?thesis
    unfolding r by auto
qed

subsection \<open>Update: a rejected field leaves the earlier ones assigned\<close>

text \<open>
  Claim C3. Let the lookup return a record, let the statements before the \<open>k\<close>-th one
  all go through on it (every field they process is absent or valid), leaving the record
  \<open>room'\<close> in memory, and let the \<open>k\<close>-th statement reject its field. Then the update
  answers 400 with the message of that field, the store is as it was, and the record in
  memory is \<open>room'\<close>: it carries the new value of every field processed before, of
  \<open>name\<close> and \<open>description\<close> in every case, and of \<open>capacity\<close>, \<open>date\<close> and
  \<open>start_time\<close> when they come before the rejected field.
\<close>

theorem update_not_atomic:
  assumes found: "query_get d i = Inr (Some room)"
      and k: "k < length (update_steps data)"
      and earlier: "run_steps (take k (update_steps data)) room = Finished room'"
      and failing: "(update_steps data ! k) room' = Respond resp"
  shows "update_study_room d i (Some data) = (resp, d, Some room') \<and>
         snd resp = 400 \<and>
         resp \<in> {bad_request ''Capacity must be an integer'',
                  bad_request ''Invalid date format, expected YYYY-MM-DD'',
                  bad_request ''Invalid start_time format, expected HH:mm'',
                  bad_request ''Invalid end_time format, expected HH:mm''} \<and>
         (\<forall>v. map_of data ''name'' = Some v \<longrightarrow>
            (\<exists>s. v = PStr s \<and> name room' = PStr (strip s))) \<and>
         (\<forall>v. map_of data ''description'' = Some v \<longrightarrow>
            (\<exists>s. v = PStr s \<and> description room' = PStr (strip s))) \<and>
         (2 < k \<longrightarrow> (\<forall>v. map_of data ''capacity'' = Some v \<longrightarrow>
            (\<exists>c. py_int v = Inr c \<and> capacity room' = PInt c))) \<and>
         (3 < k \<longrightarrow> (\<forall>v. map_of data ''date'' = Some v \<longrightarrow>
            (\<exists>s dt. v = PStr s \<and> strptime_date (strip s) = Inr dt \<and> date room' = PDate dt))) \<and>
         (4 < k \<longrightarrow> (\<forall>v. map_of data ''start_time'' = Some v \<longrightarrow>
            (\<exists>s t dt. v = PStr s \<and> strptime_time (strip s) = Inr t \<and>
               py_combine (date room') t = Inr dt \<and> start_time room' = PDateTime dt)))"
proof -
  let ?steps = "update_steps data"
  have split: "?steps = take k ?steps @ (?steps ! k) # drop (Suc k) ?steps"
    using k by (rule id_take_nth_drop)
  have "run_steps ?steps room = run_steps ((?steps ! k) # drop (Suc k) ?steps) room'"
    using run_steps_append [OF earlier, of "(?steps ! k) # drop (Suc k) ?steps"] split by simp
  with failing have run: "run_steps ?steps room = Responded resp room'"
    by simp
  have upd: "update_study_room d i (Some data) = (resp, d, Some room')"
    using found run by (simp add: update_study_room_def)
  from k have "k < 8" by (simp add: update_steps_def)
  then consider "k = 0" | "k = 1" | "k = 2" | "k = 3" | "k = 4" | "k = 5" | "k = 6" | "k = 7"
    by linarith
  then have rest:
        "resp \<in> {bad_request ''Capacity must be an integer'',
                  bad_request ''Invalid date format, expected YYYY-MM-DD'',
                  bad_request ''Invalid start_time format, expected HH:mm'',
                  bad_request ''Invalid end_time format, expected HH:mm''} \<and>
         (\<forall>v. map_of data ''name'' = Some v \<longrightarrow>
            (\<exists>s. v = PStr s \<and> name room' = PStr (strip s))) \<and>
         (\<forall>v. map_of data ''description'' = Some v \<longrightarrow>
            (\<exists>s. v = PStr s \<and> description room' = PStr (strip s))) \<and>
         (2 < k \<longrightarrow> (\<forall>v. map_of data ''capacity'' = Some v \<longrightarrow>
            (\<exists>c. py_int v = Inr c \<and> capacity room' = PInt c))) \<and>
         (3 < k \<longrightarrow> (\<forall>v. map_of data ''date'' = Some v \<longrightarrow>
            (\<exists>s dt. v = PStr s \<and> strptime_date (strip s) = Inr dt \<and> date room' = PDate dt))) \<and>
         (4 < k \<longrightarrow> (\<forall>v. map_of data ''start_time'' = Some v \<longrightarrow>
            (\<exists>s t dt. v = PStr s \<and> strptime_time (strip s) = Inr t \<and>
               py_combine (date room') t = Inr dt \<and> start_time room' = PDateTime dt)))"
  proof cases
    case 1
    with failing show ?thesis
      by (simp add: update_steps_def strip_steps_never_respond)
  next
    case 2
    with failing show ?thesis
      by (simp add: update_steps_def strip_steps_never_respond)
  next
    case 3
    from earlier have p: "run_steps [upd_name data, upd_description data] room = Finished room'"
      by (simp add: 3 update_steps_def numeral_2_eq_2)
    from failing have "upd_capacity data room' = Respond resp"
      by (simp add: 3 update_steps_def)
    from respond_messages(1) [OF this] prefix_2 [OF p] show ?thesis
      by (simp add: 3)
  next
    case 4
    from earlier have p: "run_steps [upd_name data, upd_description data, upd_capacity data] room
                          = Finished room'"
      by (simp add: 4 update_steps_def numeral_3_eq_3)
    from failing have "upd_date data room' = Respond resp"
      by (simp add: 4 update_steps_def)
    from respond_messages(2) [OF this] prefix_3 [OF p] show ?thesis
      by (simp add: 4)
  next
    case 5
    from earlier have p: "run_steps [upd_name data, upd_description data, upd_capacity data,
                                     upd_date data] room = Finished room'"
      by (simp add: 5 update_steps_def eval_nat_numeral)
    from failing have "upd_start_time data room' = Respond resp"
      by (simp add: 5 update_steps_def)
    from respond_messages(3) [OF this] prefix_4 [OF p] show ?thesis
      by (simp add: 5)
  next
    case 6
    from earlier have p: "run_steps [upd_name data, upd_description data, upd_capacity data,
                                     upd_date data, upd_start_time data] room = Finished room'"
      by (simp add: 6 update_steps_def eval_nat_numeral)
    from failing have "upd_end_time data room' = Respond resp"
      by (simp add: 6 update_steps_def)
    from respond_messages(4) [OF this] prefix_5 [OF p] show ?thesis
      by (simp add: 6)
  next
    case 7
    with failing show ?thesis
      by (simp add: update_steps_def strip_steps_never_respond)
  next
    case 8
    with failing show ?thesis
      by (simp add: update_steps_def strip_steps_never_respond)
  qed
  then have "snd resp = 400"
    by (auto simp: bad_request_def)
  with upd rest show ?thesis
    by blast
qed

theorem update_not_atomic_witness:
  "query_get \<lparr>rows = [\<lparr>room_id = 1, name = PStr ''Lab'', description = PNone,
       capacity = PInt 4, creator_id = PInt 7, date = PDate (Date 2024 6 1),
       start_time = PDateTime (DateTime (Date 2024 6 1) (Time 9 0 0)),
       end_time = PDateTime (DateTime (Date 2024 6 1) (Time 10 30 0)),
       location = PStr ''B1'', mode = PStr ''online''\<rparr>], next_id = 2, creator_rel = (\<lambda>r. NoAttr),
      query_fault = None, commit_fault = None\<rparr> 1 = Inr (Some \<lparr>room_id = 1, name = PStr ''Lab'', description = PNone,
       capacity = PInt 4, creator_id = PInt 7, date = PDate (Date 2024 6 1),
       start_time = PDateTime (DateTime (Date 2024 6 1) (Time 9 0 0)),
       end_time = PDateTime (DateTime (Date 2024 6 1) (Time 10 30 0)),
       location = PStr ''B1'', mode = PStr ''online''\<rparr>) \<and>
   (2::nat) < length (update_steps [(''name'', PStr ''  Quiet room ''), (''capacity'', PStr ''abc'')]) \<and>
   run_steps (take 2 (update_steps [(''name'', PStr ''  Quiet room ''), (''capacity'', PStr ''abc'')])) \<lparr>room_id = 1, name = PStr ''Lab'', description = PNone,
       capacity = PInt 4, creator_id = PInt 7, date = PDate (Date 2024 6 1),
       start_time = PDateTime (DateTime (Date 2024 6 1) (Time 9 0 0)),
       end_time = PDateTime (DateTime (Date 2024 6 1) (Time 10 30 0)),
       location = PStr ''B1'', mode = PStr ''online''\<rparr> = Finished \<lparr>room_id = 1, name = PStr ''Quiet room'', description = PNone,
       capacity = PInt 4, creator_id = PInt 7, date = PDate (Date 2024 6 1),
       start_time = PDateTime (DateTime (Date 2024 6 1) (Time 9 0 0)),
       end_time = PDateTime (DateTime (Date 2024 6 1) (Time 10 30 0)),
       location = PStr ''B1'', mode = PStr ''online''\<rparr> \<and>
   (update_steps [(''name'', PStr ''  Quiet room ''), (''capacity'', PStr ''abc'')] ! 2) \<lparr>room_id = 1, name = PStr ''Quiet room'', description = PNone,
       capacity = PInt 4, creator_id = PInt 7, date = PDate (Date 2024 6 1),
       start_time = PDateTime (DateTime (Date 2024 6 1) (Time 9 0 0)),
       end_time = PDateTime (DateTime (Date 2024 6 1) (Time 10 30 0)),
       location = PStr ''B1'', mode = PStr ''online''\<rparr> = Respond (bad_request ''Capacity must be an integer'') \<and>
   fst (update_study_room \<lparr>rows = [\<lparr>room_id = 1, name = PStr ''Lab'', description = PNone,
       capacity = PInt 4, creator_id = PInt 7, date = PDate (Date 2024 6 1),
       start_time = PDateTime (DateTime (Date 2024 6 1) (Time 9 0 0)),
       end_time = PDateTime (DateTime (Date 2024 6 1) (Time 10 30 0)),
       location = PStr ''B1'', mode = PStr ''online''\<rparr>], next_id = 2, creator_rel = (\<lambda>r. NoAttr),
      query_fault = None, commit_fault = None\<rparr> 1 (Some [(''name'', PStr ''  Quiet room ''), (''capacity'', PStr ''abc'')])) =
     (BDict [(''message'', BStr ''Capacity must be an integer'')], 400) \<and>
   rows (fst (snd (update_study_room \<lparr>rows = [\<lparr>room_id = 1, name = PStr ''Lab'', description = PNone,
       capacity = PInt 4, creator_id = PInt 7, date = PDate (Date 2024 6 1),
       start_time = PDateTime (DateTime (Date 2024 6 1) (Time 9 0 0)),
       end_time = PDateTime (DateTime (Date 2024 6 1) (Time 10 30 0)),
       location = PStr ''B1'', mode = PStr ''online''\<rparr>], next_id = 2, creator_rel = (\<lambda>r. NoAttr),
      query_fault = None, commit_fault = None\<rparr> 1 (Some [(''name'', PStr ''  Quiet room ''), (''capacity'', PStr ''abc'')])))) = [\<lparr>room_id = 1, name = PStr ''Lab'', description = PNone,
       capacity = PInt 4, creator_id = PInt 7, date = PDate (Date 2024 6 1),
       start_time = PDateTime (DateTime (Date 2024 6 1) (Time 9 0 0)),
       end_time = PDateTime (DateTime (Date 2024 6 1) (Time 10 30 0)),
       location = PStr ''B1'', mode = PStr ''online''\<rparr>] \<and>
   snd (snd (update_study_room \<lparr>rows = [\<lparr>room_id = 1, name = PStr ''Lab'', description = PNone,
       capacity = PInt 4, creator_id = PInt 7, date = PDate (Date 2024 6 1),
       start_time = PDateTime (DateTime (Date 2024 6 1) (Time 9 0 0)),
       end_time = PDateTime (DateTime (Date 2024 6 1) (Time 10 30 0)),
       location = PStr ''B1'', mode = PStr ''online''\<rparr>], next_id = 2, creator_rel = (\<lambda>r. NoAttr),
      query_fault = None, commit_fault = None\<rparr> 1 (Some [(''name'', PStr ''  Quiet room ''), (''capacity'', PStr ''abc'')]))) = Some \<lparr>room_id = 1, name = PStr ''Quiet room'', description = PNone,
       capacity = PInt 4, creator_id = PInt 7, date = PDate (Date 2024 6 1),
       start_time = PDateTime (DateTime (Date 2024 6 1) (Time 9 0 0)),
       end_time = PDateTime (DateTime (Date 2024 6 1) (Time 10 30 0)),
       location = PStr ''B1'', mode = PStr ''online''\<rparr> \<and>
   name \<lparr>room_id = 1, name = PStr ''Quiet room'', description = PNone,
       capacity = PInt 4, creator_id = PInt 7, date = PDate (Date 2024 6 1),
       start_time = PDateTime (DateTime (Date 2024 6 1) (Time 9 0 0)),
       end_time = PDateTime (DateTime (Date 2024 6 1) (Time 10 30 0)),
       location = PStr ''B1'', mode = PStr ''online''\<rparr> = PStr ''Quiet room''"
proof -
  let ?d = "\<lparr>rows = [\<lparr>room_id = 1, name = PStr ''Lab'', description = PNone,
       capacity = PInt 4, creator_id = PInt 7, date = PDate (Date 2024 6 1),
       start_time = PDateTime (DateTime (Date 2024 6 1) (Time 9 0 0)),
       end_time = PDateTime (DateTime (Date 2024 6 1) (Time 10 30 0)),
       location = PStr ''B1'', mode = PStr ''online''\<rparr>], next_id = 2, creator_rel = (\<lambda>r. NoAttr),
      query_fault = None, commit_fault = None\<rparr>"
  let ?data = "[(''name'', PStr ''  Quiet room ''), (''capacity'', PStr ''abc'')]"
  let ?r = "\<lparr>room_id = 1, name = PStr ''Lab'', description = PNone,
       capacity = PInt 4, creator_id = PInt 7, date = PDate (Date 2024 6 1),
       start_time = PDateTime (DateTime (Date 2024 6 1) (Time 9 0 0)),
       end_time = PDateTime (DateTime (Date 2024 6 1) (Time 10 30 0)),
       location = PStr ''B1'', mode = PStr ''online''\<rparr>"
  let ?r' = "\<lparr>room_id = 1, name = PStr ''Quiet room'', description = PNone,
       capacity = PInt 4, creator_id = PInt 7, date = PDate (Date 2024 6 1),
       start_time = PDateTime (DateTime (Date 2024 6 1) (Time 9 0 0)),
       end_time = PDateTime (DateTime (Date 2024 6 1) (Time 10 30 0)),
       location = PStr ''B1'', mode = PStr ''online''\<rparr>"
  have h1: "query_get ?d 1 = Inr (Some ?r)" by code_simp
  have h2: "(2::nat) < length (update_steps ?data)" by (simp add: update_steps_def)
  have h3: "run_steps (take 2 (update_steps ?data)) ?r = Finished ?r'" by code_simp
  have h4: "(update_steps ?data ! 2) ?r' = Respond (bad_request ''Capacity must be an integer'')"
    by code_simp
  from update_not_atomic [OF h1 h2 h3 h4]
  have u: "update_study_room ?d 1 (Some ?data) =
             (bad_request ''Capacity must be an integer'', ?d, Some ?r')"
    by blast
  have "fst (update_study_room ?d 1 (Some ?data)) =
          (BDict [(''message'', BStr ''Capacity must be an integer'')], 400)"
    unfolding u by (simp add: bad_request_def)
  moreover have "rows (fst (snd (update_study_room ?d 1 (Some ?data)))) = [?r]"
    unfolding u by simp
  moreover have "snd (snd (update_study_room ?d 1 (Some ?data))) = Some ?r'"
    unfolding u by simp
  moreover have "name ?r' = PStr ''Quiet room''" by simp
  ultimately show ?thesis using h1 h2 h3 h4 by blast
qed

subsection \<open>Update: the timestamps lie on the record's current date\<close>

lemma update_steps_Finished:
  assumes "run_steps (update_steps data) room = Finished r"
  shows "\<exists>r1 r2 r3 r4 r5 r6 r7.
           upd_name data room = Next r1 \<and> upd_description data r1 = Next r2 \<and>
           upd_capacity data r2 = Next r3 \<and> upd_date data r3 = Next r4 \<and>
           upd_start_time data r4 = Next r5 \<and> upd_end_time data r5 = Next r6 \<and>
           upd_location data r6 = Next r7 \<and> upd_mode data r7 = Next r"
  using assms by (simp add: update_steps_def split: step.splits)

lemma update_steps_times:
  assumes "run_steps (update_steps data) room = Finished r"
  shows "room_id r = room_id room"
    and "\<forall>w. map_of data ''date'' = Some w \<longrightarrow>
            (\<exists>s dt. w = PStr s \<and> strptime_date (strip s) = Inr dt \<and> date r = PDate dt)"
    and "map_of data ''date'' = None \<longrightarrow> date r = date room"
    and "\<forall>v. map_of data ''start_time'' = Some v \<longrightarrow>
            (\<exists>s t dt. v = PStr s \<and> strptime_time (strip s) = Inr t \<and>
               py_combine (date r) t = Inr dt \<and> start_time r = PDateTime dt)"
    and "map_of data ''start_time'' = None \<longrightarrow> start_time r = start_time room"
    and "\<forall>v. map_of data ''end_time'' = Some v \<longrightarrow>
            (\<exists>s t dt. v = PStr s \<and> strptime_time (strip s) = Inr t \<and>
               py_combine (date r) t = Inr dt \<and> end_time r = PDateTime dt)"
    and "map_of data ''end_time'' = None \<longrightarrow> end_time r = end_time room"
proof -
  from update_steps_Finished [OF assms] obtain r1 r2 r3 r4 r5 r6 r7 where
    1: "upd_name data room = Next r1" and 2: "upd_description data r1 = Next r2" and
    3: "upd_capacity data r2 = Next r3" and 4: "upd_date data r3 = Next r4" and
    5: "upd_start_time data r4 = Next r5" and 6: "upd_end_time data r5 = Next r6" and
    7: "upd_location data r6 = Next r7" and 8: "upd_mode data r7 = Next r"
    by blast
  from upd_name_Next [OF 1] obtain x1 where
    h1: "r1 = room\<lparr>name := x1\<rparr> \<and>
           (\<forall>v. map_of data ''name'' = Some v \<longrightarrow> (\<exists>s. v = PStr s \<and> x1 = PStr (strip s))) \<and>
           (map_of data ''name'' = None \<longrightarrow> x1 = name room)" ..
  note e1 = conjunct1 [OF h1]
  from upd_description_Next [OF 2] obtain x2 where
    h2: "r2 = r1\<lparr>description := x2\<rparr> \<and>
           (\<forall>v. map_of data ''description'' = Some v \<longrightarrow> (\<exists>s. v = PStr s \<and> x2 = PStr (strip s))) \<and>
           (map_of data ''description'' = None \<longrightarrow> x2 = description r1)" ..
  note e2 = conjunct1 [OF h2]
  from upd_capacity_Next [OF 3] obtain x3 where
    h3: "r3 = r2\<lparr>capacity := x3\<rparr> \<and>
           (\<forall>v. map_of data ''capacity'' = Some v \<longrightarrow> (\<exists>c. py_int v = Inr c \<and> x3 = PInt c)) \<and>
           (map_of data ''capacity'' = None \<longrightarrow> x3 = capacity r2)" ..
  note e3 = conjunct1 [OF h3]
  from upd_date_Next [OF 4] obtain x4 where
    h4: "r4 = r3\<lparr>date := x4\<rparr> \<and>
           (\<forall>v. map_of data ''date'' = Some v \<longrightarrow>
              (\<exists>s dt. v = PStr s \<and> strptime_date (strip s) = Inr dt \<and> x4 = PDate dt)) \<and>
           (map_of data ''date'' = None \<longrightarrow> x4 = date r3)" ..
  note e4 = conjunct1 [OF h4] and d1 = conjunct1 [OF conjunct2 [OF h4]]
    and d2 = conjunct2 [OF conjunct2 [OF h4]]
  from upd_start_time_Next [OF 5] obtain x5 where
    h5: "r5 = r4\<lparr>start_time := x5\<rparr> \<and>
           (\<forall>v. map_of data ''start_time'' = Some v \<longrightarrow>
              (\<exists>s t dt. v = PStr s \<and> strptime_time (strip s) = Inr t \<and>
                 py_combine (date r4) t = Inr dt \<and> x5 = PDateTime dt)) \<and>
           (map_of data ''start_time'' = None \<longrightarrow> x5 = start_time r4)" ..
  note e5 = conjunct1 [OF h5] and t1 = conjunct1 [OF conjunct2 [OF h5]]
    and t1' = conjunct2 [OF conjunct2 [OF h5]]
  from upd_end_time_Next [OF 6] obtain x6 where
    h6: "r6 = r5\<lparr>end_time := x6\<rparr> \<and>
           (\<forall>v. map_of data ''end_time'' = Some v \<longrightarrow>
              (\<exists>s t dt. v = PStr s \<and> strptime_time (strip s) = Inr t \<and>
                 py_combine (date r5) t = Inr dt \<and> x6 = PDateTime dt)) \<and>
           (map_of data ''end_time'' = None \<longrightarrow> x6 = end_time r5)" ..
  note e6 = conjunct1 [OF h6] and t2 = conjunct1 [OF conjunct2 [OF h6]]
    and t2' = conjunct2 [OF conjunct2 [OF h6]]
  from upd_location_Next [OF 7] obtain x7 where e7: "r7 = r6\<lparr>location := x7\<rparr>" ..
  from upd_mode_Next [OF 8] obtain x8 where e8: "r = r7\<lparr>mode := x8\<rparr>" ..
  have f2: "date r = x4"
    by (simp add: e5 e6 e7 e8 e4)
  have f3: "start_time r = x5"
    by (simp add: e5 e6 e7 e8)
  have f4: "end_time r = x6"
    by (simp add: e6 e7 e8)
  have f5: "date r4 = x4"
    by (simp add: e4)
  have f6: "date r5 = x4"
    by (simp add: e5 e4)
  have f7: "date r3 = date room"
    by (simp add: e1 e2 e3)
  have f8: "start_time r4 = start_time room"
    by (simp add: e1 e2 e3 e4)
  have f9: "end_time r5 = end_time room"
    by (simp add: e1 e2 e3 e4 e5)
  show "room_id r = room_id room"
    by (simp add: e1 e2 e3 e4 e5 e6 e7 e8)
  show "\<forall>w. map_of data ''date'' = Some w \<longrightarrow>
            (\<exists>s dt. w = PStr s \<and> strptime_date (strip s) = Inr dt \<and> date r = PDate dt)"
    unfolding f2 by (rule d1)
  show "map_of data ''date'' = None \<longrightarrow> date r = date room"
    using d2 unfolding f2 f7 .
  show "\<forall>v. map_of data ''start_time'' = Some v \<longrightarrow>
            (\<exists>s t dt. v = PStr s \<and> strptime_time (strip s) = Inr t \<and>
               py_combine (date r) t = Inr dt \<and> start_time r = PDateTime dt)"
    using t1 unfolding f2 f3 f5 .
  show "map_of data ''start_time'' = None \<longrightarrow> start_time r = start_time room"
    using t1' unfolding f3 f8 .
  show "\<forall>v. map_of data ''end_time'' = Some v \<longrightarrow>
            (\<exists>s t dt. v = PStr s \<and> strptime_time (strip s) = Inr t \<and>
               py_combine (date r) t = Inr dt \<and> end_time r = PDateTime dt)"
    using t2 unfolding f2 f4 f6 .
  show "map_of data ''end_time'' = None \<longrightarrow> end_time r = end_time room"
    using t2' unfolding f4 f9 .
qed

lemma run_steps_Responded:
  assumes "run_steps fs r = Responded resp r'"
  shows "\<exists>f \<in> set fs. f r' = Respond resp"
  using assms
proof (induction fs arbitrary: r)
  case Nil
  then show ?case by simp
next
  case (Cons f fs)
  then show ?case
    by (cases "f r") auto
qed

lemma update_steps_Respond_400:
  assumes "f \<in> set (update_steps data)" "f r = Respond resp"
  shows "snd resp = 400"
  using assms respond_messages [of data r resp] strip_steps_never_respond [of data r resp]
  by (auto simp: update_steps_def bad_request_def)

lemma find_map_replace:
  assumes "find P xs = Some r" and "P r'" and "\<forall>x. f x = (if P x then r' else x)"
  shows "find P (map f xs) = Some r'"
  using assms by (induction xs) (auto split: if_splits)

lemma update_200:
  assumes found: "query_get d i = Inr (Some room)"
      and ok: "snd (fst (update_study_room d i (Some data))) = 200"
  shows "\<exists>room' d'. run_steps (update_steps data) room = Finished room' \<and>
           commit_room d room' = Inr d' \<and>
           update_study_room d i (Some data) = ((to_dict d' room', 200), d', Some room')"
proof (cases "run_steps (update_steps data) room")
  case (Raised e)
  with found ok show ?thesis
    by (simp add: update_study_room_def update_failed_def)
next
  case (Responded resp r')
  from run_steps_Responded [OF Responded] update_steps_Respond_400
  have "snd resp = 400" by blast
  with found ok Responded show ?thesis
    by (simp add: update_study_room_def)
next
  case (Finished room')
  with found ok show ?thesis
    by (auto simp: update_study_room_def update_failed_def split: sum.splits dest: jsonify_Inr)
qed

lemma query_get_Some:
  assumes "query_get d i = Inr (Some room)"
  shows "find (\<lambda>r. room_id r = i) (rows d) = Some room" and "loads room" and "room_id room = i"
proof -
  from assms show f: "find (\<lambda>r. room_id r = i) (rows d) = Some room"
    by (simp add: query_get_def split: option.splits if_splits)
  from assms f show "loads room"
    by (simp add: query_get_def split: option.splits if_splits)
  from f show "room_id room = i"
    by (auto simp: find_Some_iff)
qed

lemma py_combine_date_cell:
  assumes "py_combine v t = Inr dt" and "date_cell v"
  shows "\<exists>D. v = PDate D \<and> dt = DateTime D t"
  using assms by (cases v) auto

lemma combined_on_date:
  assumes c: "date_cell (date r)"
      and t: "\<forall>v. map_of data k = Some v \<longrightarrow>
            (\<exists>s t dt. v = PStr s \<and> strptime_time (strip s) = Inr t \<and>
               py_combine (date r) t = Inr dt \<and> x = PDateTime dt)"
  shows "\<forall>v. map_of data k = Some v \<longrightarrow>
            (\<exists>s t D. v = PStr s \<and> strptime_time (strip s) = Inr t \<and>
               date r = PDate D \<and> x = PDateTime (DateTime D t))"
proof (intro allI impI)
  fix v
  assume "map_of data k = Some v"
  with t obtain s t dt where a: "v = PStr s" "strptime_time (strip s) = Inr t"
    and b: "py_combine (date r) t = Inr dt" and x: "x = PDateTime dt"
    by blast
  from py_combine_date_cell [OF b c] obtain D where "date r = PDate D" "dt = DateTime D t"
    by blast
  with a x show "\<exists>s t D. v = PStr s \<and> strptime_time (strip s) = Inr t \<and>
               date r = PDate D \<and> x = PDateTime (DateTime D t)"
    by blast
qed

text \<open>
  Claim C8. Let the lookup return a record and the update be answered 200. Then the row
  now stored under the identifier is the record in memory, and for each of \<open>start_time\<close>
  and \<open>end_time\<close> that the payload contains, the value is a string that reads as a time
  \<open>HH:MM\<close> and the stored timestamp is that time on the date the record now has. That
  date is the one read from the payload's \<open>date\<close> when the payload has that key (the
  \<open>date\<close> statement comes first), and the date the record had otherwise. A timestamp
  whose key is not in the payload stays as it was.
\<close>

theorem update_times_on_current_date:
  assumes found: "query_get d i = Inr (Some room)"
      and ok: "snd (fst (update_study_room d i (Some data))) = 200"
  shows "\<exists>room'. snd (snd (update_study_room d i (Some data))) = Some room' \<and>
           find (\<lambda>r. room_id r = i) (rows (fst (snd (update_study_room d i (Some data))))) =
             Some room' \<and>
           (\<forall>v. map_of data ''date'' = Some v \<longrightarrow>
              (\<exists>s D. v = PStr s \<and> strptime_date (strip s) = Inr D \<and> date room' = PDate D)) \<and>
           (map_of data ''date'' = None \<longrightarrow> date room' = date room) \<and>
           (\<forall>v. map_of data ''start_time'' = Some v \<longrightarrow>
              (\<exists>s t D. v = PStr s \<and> strptime_time (strip s) = Inr t \<and>
                 date room' = PDate D \<and> start_time room' = PDateTime (DateTime D t))) \<and>
           (map_of data ''start_time'' = None \<longrightarrow> start_time room' = start_time room) \<and>
           (\<forall>v. map_of data ''end_time'' = Some v \<longrightarrow>
              (\<exists>s t D. v = PStr s \<and> strptime_time (strip s) = Inr t \<and>
                 date room' = PDate D \<and> end_time room' = PDateTime (DateTime D t))) \<and>
           (map_of data ''end_time'' = None \<longrightarrow> end_time room' = end_time room)"
proof -
  from update_200 [OF found ok] obtain room' d' where
    run: "run_steps (update_steps data) room = Finished room'"
    and commit: "commit_room d room' = Inr d'"
    and upd: "update_study_room d i (Some data) = ((to_dict d' room', 200), d', Some room')"
    by blast
  note q = query_get_Some [OF found]
  note s = update_steps_times [OF run]
  from s(1) q(3) have id: "room_id room' = i"
    by simp
  from commit have d': "rows d' = map (\<lambda>x. if room_id x = i then room' else x) (rows d)"
    unfolding id [symmetric]
    by (auto simp: commit_room_def split: option.splits)
  have stored: "find (\<lambda>r. room_id r = i) (rows d') = Some room'"
    unfolding d' using q(1) id by (rule find_map_replace) simp
  have cell: "date_cell (date room')"
  proof (cases "map_of data ''date''")
    case None
    with s(3) have "date room' = date room" by simp
    with q(2) show ?thesis by (simp add: loads_def)
  next
    case (Some v)
    with s(2) obtain D where "date room' = PDate D" by blast
    then show ?thesis by simp
  qed
  note st = combined_on_date [OF cell s(4)]
  note et = combined_on_date [OF cell s(6)]
  have m: "snd (snd (update_study_room d i (Some data))) = Some room'"
    unfolding upd by simp
  have f: "find (\<lambda>r. room_id r = i) (rows (fst (snd (update_study_room d i (Some data))))) =
             Some room'"
    unfolding upd using stored by simp
  from m f s(2) s(3) st s(5) et s(7) show ?thesis
    by (intro exI [of _ room'] conjI)
qed

theorem update_times_on_current_date_witness:
  "snd (fst (update_study_room \<lparr>rows = [\<lparr>room_id = 1, name = PStr ''Lab'', description = PNone,
       capacity = PInt 4, creator_id = PInt 7, date = PDate (Date 2024 6 1),
       start_time = PDateTime (DateTime (Date 2024 6 1) (Time 9 0 0)),
       end_time = PDateTime (DateTime (Date 2024 6 1) (Time 10 30 0)),
       location = PStr ''B1'', mode = PStr ''online''\<rparr>], next_id = 2, creator_rel = (\<lambda>r. NoAttr),
      query_fault = None, commit_fault = None\<rparr> 1 (Some [(''date'', PStr ''2024-07-15''), (''start_time'', PStr ''14:00''), (''end_time'', PStr ''15:30'')]))) = 200 \<and>
   (\<exists>room'. find (\<lambda>r. room_id r = 1) (rows (fst (snd (update_study_room \<lparr>rows = [\<lparr>room_id = 1, name = PStr ''Lab'', description = PNone,
       capacity = PInt 4, creator_id = PInt 7, date = PDate (Date 2024 6 1),
       start_time = PDateTime (DateTime (Date 2024 6 1) (Time 9 0 0)),
       end_time = PDateTime (DateTime (Date 2024 6 1) (Time 10 30 0)),
       location = PStr ''B1'', mode = PStr ''online''\<rparr>], next_id = 2, creator_rel = (\<lambda>r. NoAttr),
      query_fault = None, commit_fault = None\<rparr> 1 (Some [(''date'', PStr ''2024-07-15''), (''start_time'', PStr ''14:00''), (''end_time'', PStr ''15:30'')]))))) = Some room' \<and>
      date room' = PDate (Date 2024 7 15) \<and>
      start_time room' = PDateTime (DateTime (Date 2024 7 15) (Time 14 0 0)) \<and>
      end_time room' = PDateTime (DateTime (Date 2024 7 15) (Time 15 30 0))) \<and>
   snd (fst (update_study_room \<lparr>rows = [\<lparr>room_id = 1, name = PStr ''Lab'', description = PNone,
       capacity = PInt 4, creator_id = PInt 7, date = PDate (Date 2024 6 1),
       start_time = PDateTime (DateTime (Date 2024 6 1) (Time 9 0 0)),
       end_time = PDateTime (DateTime (Date 2024 6 1) (Time 10 30 0)),
       location = PStr ''B1'', mode = PStr ''online''\<rparr>], next_id = 2, creator_rel = (\<lambda>r. NoAttr),
      query_fault = None, commit_fault = None\<rparr> 1 (Some [(''start_time'', PStr ''08:15'')]))) = 200 \<and>
   (\<exists>room'. find (\<lambda>r. room_id r = 1) (rows (fst (snd (update_study_room \<lparr>rows = [\<lparr>room_id = 1, name = PStr ''Lab'', description = PNone,
       capacity = PInt 4, creator_id = PInt 7, date = PDate (Date 2024 6 1),
       start_time = PDateTime (DateTime (Date 2024 6 1) (Time 9 0 0)),
       end_time = PDateTime (DateTime (Date 2024 6 1) (Time 10 30 0)),
       location = PStr ''B1'', mode = PStr ''online''\<rparr>], next_id = 2, creator_rel = (\<lambda>r. NoAttr),
      query_fault = None, commit_fault = None\<rparr> 1 (Some [(''start_time'', PStr ''08:15'')]))))) = Some room' \<and>
      date room' = PDate (Date 2024 6 1) \<and>
      start_time room' = PDateTime (DateTime (Date 2024 6 1) (Time 8 15 0)) \<and>
      end_time room' = PDateTime (DateTime (Date 2024 6 1) (Time 10 30 0)))"
proof -
  let ?d = "\<lparr>rows = [\<lparr>room_id = 1, name = PStr ''Lab'', description = PNone,
       capacity = PInt 4, creator_id = PInt 7, date = PDate (Date 2024 6 1),
       start_time = PDateTime (DateTime (Date 2024 6 1) (Time 9 0 0)),
       end_time = PDateTime (DateTime (Date 2024 6 1) (Time 10 30 0)),
       location = PStr ''B1'', mode = PStr ''online''\<rparr>], next_id = 2, creator_rel = (\<lambda>r. NoAttr),
      query_fault = None, commit_fault = None\<rparr>"
  let ?r = "\<lparr>room_id = 1, name = PStr ''Lab'', description = PNone,
       capacity = PInt 4, creator_id = PInt 7, date = PDate (Date 2024 6 1),
       start_time = PDateTime (DateTime (Date 2024 6 1) (Time 9 0 0)),
       end_time = PDateTime (DateTime (Date 2024 6 1) (Time 10 30 0)),
       location = PStr ''B1'', mode = PStr ''online''\<rparr>"
  let ?p = "[(''date'', PStr ''2024-07-15''), (''start_time'', PStr ''14:00''), (''end_time'', PStr ''15:30'')]"
  let ?q = "[(''start_time'', PStr ''08:15'')]"
  have found: "query_get ?d 1 = Inr (Some ?r)" by code_simp
  have ok1: "snd (fst (update_study_room ?d 1 (Some ?p))) = 200" by code_simp
  have ok2: "snd (fst (update_study_room ?d 1 (Some ?q))) = 200" by code_simp
  have k1: "strptime_date (strip ''2024-07-15'') = Inr (Date 2024 7 15)" by code_simp
  have k2: "strptime_time (strip ''14:00'') = Inr (Time 14 0 0)" by code_simp
  have k3: "strptime_time (strip ''15:30'') = Inr (Time 15 30 0)" by code_simp
  have k4: "strptime_time (strip ''08:15'') = Inr (Time 8 15 0)" by code_simp
  have first: "\<exists>room'. find (\<lambda>r. room_id r = 1) (rows (fst (snd (update_study_room ?d 1 (Some ?p))))) = Some room' \<and>
      date room' = PDate (Date 2024 7 15) \<and>
      start_time room' = PDateTime (DateTime (Date 2024 7 15) (Time 14 0 0)) \<and>
      end_time room' = PDateTime (DateTime (Date 2024 7 15) (Time 15 30 0))"
  proof -
    from update_times_on_current_date [OF found ok1] obtain room' where
      h: "snd (snd (update_study_room ?d 1 (Some ?p))) = Some room' \<and>
           find (\<lambda>r. room_id r = 1) (rows (fst (snd (update_study_room ?d 1 (Some ?p))))) =
             Some room' \<and>
           (\<forall>v. map_of ?p ''date'' = Some v \<longrightarrow>
              (\<exists>s D. v = PStr s \<and> strptime_date (strip s) = Inr D \<and> date room' = PDate D)) \<and>
           (map_of ?p ''date'' = None \<longrightarrow> date room' = date ?r) \<and>
           (\<forall>v. map_of ?p ''start_time'' = Some v \<longrightarrow>
              (\<exists>s t D. v = PStr s \<and> strptime_time (strip s) = Inr t \<and>
                 date room' = PDate D \<and> start_time room' = PDateTime (DateTime D t))) \<and>
           (map_of ?p ''start_time'' = None \<longrightarrow> start_time room' = start_time ?r) \<and>
           (\<forall>v. map_of ?p ''end_time'' = Some v \<longrightarrow>
              (\<exists>s t D. v = PStr s \<and> strptime_time (strip s) = Inr t \<and>
                 date room' = PDate D \<and> end_time room' = PDateTime (DateTime D t))) \<and>
           (map_of ?p ''end_time'' = None \<longrightarrow> end_time room' = end_time ?r)" ..
    note c = h [THEN conjunct2]
    note c1 = c [THEN conjunct1]
    note c2 = c [THEN conjunct2, THEN conjunct1]
    note c4 = c [THEN conjunct2, THEN conjunct2, THEN conjunct2, THEN conjunct1]
    note c6 = c [THEN conjunct2, THEN conjunct2, THEN conjunct2, THEN conjunct2, THEN conjunct2,
      THEN conjunct1]
    have "map_of ?p ''date'' = Some (PStr ''2024-07-15'')" by simp
    from c2 [rule_format, OF this] k1 have a: "date room' = PDate (Date 2024 7 15)"
      by auto
    have "map_of ?p ''start_time'' = Some (PStr ''14:00'')" by simp
    from c4 [rule_format, OF this] k2 a
    have b: "start_time room' = PDateTime (DateTime (Date 2024 7 15) (Time 14 0 0))"
      by auto
    have "map_of ?p ''end_time'' = Some (PStr ''15:30'')" by simp
    from c6 [rule_format, OF this] k3 a
    have e: "end_time room' = PDateTime (DateTime (Date 2024 7 15) (Time 15 30 0))"
      by auto
    from c1 a b e show ?thesis by (intro exI [of _ room'] conjI)
  qed
  have second: "\<exists>room'. find (\<lambda>r. room_id r = 1) (rows (fst (snd (update_study_room ?d 1 (Some ?q))))) = Some room' \<and>
      date room' = PDate (Date 2024 6 1) \<and>
      start_time room' = PDateTime (DateTime (Date 2024 6 1) (Time 8 15 0)) \<and>
      end_time room' = PDateTime (DateTime (Date 2024 6 1) (Time 10 30 0))"
  proof -
    from update_times_on_current_date [OF found ok2] obtain room' where
      h: "snd (snd (update_study_room ?d 1 (Some ?q))) = Some room' \<and>
           find (\<lambda>r. room_id r = 1) (rows (fst (snd (update_study_room ?d 1 (Some ?q))))) =
             Some room' \<and>
           (\<forall>v. map_of ?q ''date'' = Some v \<longrightarrow>
              (\<exists>s D. v = PStr s \<and> strptime_date (strip s) = Inr D \<and> date room' = PDate D)) \<and>
           (map_of ?q ''date'' = None \<longrightarrow> date room' = date ?r) \<and>
           (\<forall>v. map_of ?q ''start_time'' = Some v \<longrightarrow>
              (\<exists>s t D. v = PStr s \<and> strptime_time (strip s) = Inr t \<and>
                 date room' = PDate D \<and> start_time room' = PDateTime (DateTime D t))) \<and>
           (map_of ?q ''start_time'' = None \<longrightarrow> start_time room' = start_time ?r) \<and>
           (\<forall>v. map_of ?q ''end_time'' = Some v \<longrightarrow>
              (\<exists>s t D. v = PStr s \<and> strptime_time (strip s) = Inr t \<and>
                 date room' = PDate D \<and> end_time room' = PDateTime (DateTime D t))) \<and>
           (map_of ?q ''end_time'' = None \<longrightarrow> end_time room' = end_time ?r)" ..
    note c = h [THEN conjunct2]
    note c1 = c [THEN conjunct1]
    note c3 = c [THEN conjunct2, THEN conjunct2, THEN conjunct1]
    note c4 = c [THEN conjunct2, THEN conjunct2, THEN conjunct2, THEN conjunct1]
    note c7 = c [THEN conjunct2, THEN conjunct2, THEN conjunct2, THEN conjunct2, THEN conjunct2,
      THEN conjunct2]
    from c3 have a: "date room' = PDate (Date 2024 6 1)"
      by simp
    have "map_of ?q ''start_time'' = Some (PStr ''08:15'')" by simp
    from c4 [rule_format, OF this] k4 a
    have b: "start_time room' = PDateTime (DateTime (Date 2024 6 1) (Time 8 15 0))"
      by auto
    from c7 have e: "end_time room' = PDateTime (DateTime (Date 2024 6 1) (Time 10 30 0))"
      by simp
    from c1 a b e show ?thesis by (intro exI [of _ room'] conjI)
  qed
  from ok1 first ok2 second show ?thesis by (intro conjI)
qed

end
